theory Spec2Isabelle
  imports Main "HOL-Library.Word"
begin

unbundle bit_operations_syntax

section \<open>Right-truncatable prime counter: the two programs of count\_primes.c\<close>

text \<open>
  The repository holds two programs with the same function names: the C program with a
  chained hash table (called the hash variant here, names suffixed \<open>_hash\<close> where they
  clash) and the C++ program with a \<open>std::vector<bool>\<close> bit table (the bitset variant,
  suffix \<open>_bitset\<close>).  \<open>unsigned long long\<close>, \<open>size_t\<close> and \<open>uint64_t\<close> are 64-bit
  words; the C \<open>int\<close> values (digit bound, counters, return codes) are modelled as
  unbounded \<open>int\<close>: the digit bound is checked against 1..19 before any use and a counter
  never exceeds the number of candidates scanned.
\<close>

type_synonym ull = "64 word"

subsection \<open>The environment: heap, prime generator, output streams\<close>

text \<open>
  \<open>avail\<close> is the number of allocations that \<open>malloc\<close>/\<open>calloc\<close> can still satisfy (they
  return NULL when it is 0); \<open>sieve_fails\<close> says whether the external prime generator
  returns NULL; \<open>sieve_calls\<close> logs every call of the generator with its range;
  \<open>stdout\<close> and \<open>stderr\<close> hold one string per \<open>printf\<close>/\<open>fprintf\<close>/\<open>perror\<close> call.
\<close>

record sys =
  avail :: nat
  sieve_fails :: bool
  sieve_calls :: "(ull \<times> ull) list"
  stdout :: "string list"
  stderr :: "string list"

definition nl :: string where
  "nl = [CHR 0x0A]"

definition print_out :: "string \<Rightarrow> sys \<Rightarrow> sys" where
  "print_out m s = s\<lparr>stdout := stdout s @ [m]\<rparr>"

definition print_err :: "string \<Rightarrow> sys \<Rightarrow> sys" where
  "print_err m s = s\<lparr>stderr := stderr s @ [m]\<rparr>"

text \<open>\<open>perror\<close> writes its argument, a colon and the text of \<open>errno\<close>, which is outside
  the model: the logged line ends after the colon.\<close>

definition perror :: "string \<Rightarrow> sys \<Rightarrow> sys" where
  "perror m s = print_err (m @ '': '') s"

subsection \<open>The chained hash table (hash variant)\<close>

text \<open>A bucket's linked list of nodes is the list of its values, head first.\<close>

record hash_table =
  ht_size :: ull
  ht_count :: ull
  ht_buckets :: "ull list list"

text \<open>\<open>hash_ull\<close>: every assignment to \<open>key\<close> is one binding; \<open>key % table_size\<close> is
  undefined in C for \<open>table_size = 0\<close>, which \<open>ht_inv\<close> below excludes.\<close>

definition hash_ull :: "ull \<Rightarrow> ull \<Rightarrow> ull" where
  "hash_ull key0 table_size =
    (let key1 = (NOT key0) + (push_bit 21 key0);
         key2 = key1 XOR (drop_bit 24 key1);
         key3 = (key2 + push_bit 3 key2) + push_bit 8 key2;
         key4 = key3 XOR (drop_bit 14 key3);
         key5 = (key4 + push_bit 2 key4) + push_bit 4 key4;
         key6 = key5 XOR (drop_bit 28 key5);
         key7 = key6 + push_bit 31 key6
     in key7 mod table_size)"

text \<open>The well-formed tables: a non-zero bucket count and a bucket array of that length.
  \<open>hash_table_create\<close> returns such a table for a non-zero size and \<open>hash_table_add\<close>
  keeps it.\<close>

definition ht_inv :: "hash_table \<Rightarrow> bool" where
  "ht_inv ht = (ht_size ht \<noteq> 0 \<and> length (ht_buckets ht) = unat (ht_size ht))"

definition hash_table_create :: "ull \<Rightarrow> sys \<Rightarrow> hash_table option \<times> sys" where
  "hash_table_create table_size s =
    (if avail s = 0 then (None, perror ''Failed to allocate hash table'' s)
     else if avail s = 1 then (None, perror ''Failed to allocate hash table buckets'' s)
     else (Some \<lparr>ht_size = table_size, ht_count = 0,
                  ht_buckets = replicate (unat table_size) []\<rparr>,
           s\<lparr>avail := avail s - 2\<rparr>))"

text \<open>The walk along a chain, shared by \<open>hash_table_add\<close> and \<open>hash_table_contains\<close>:
  true when a node with the value is found.\<close>

fun chain_find :: "ull list \<Rightarrow> ull \<Rightarrow> bool" where
  "chain_find [] v = False"
| "chain_find (x # current) v = (if x = v then True else chain_find current v)"

text \<open>\<open>hash_table_add\<close> returns the C result (1 success, 0 failure), the table after the
  call and the environment after the call.  \<open>None\<close> is the NULL table.\<close>

definition hash_table_add ::
  "hash_table option \<Rightarrow> ull \<Rightarrow> sys \<Rightarrow> int \<times> hash_table option \<times> sys" where
  "hash_table_add hto v s =
    (case hto of
       None \<Rightarrow> (0, None, s)
     | Some ht \<Rightarrow>
         (let index = unat (hash_ull v (ht_size ht));
              chain = ht_buckets ht ! index
          in if chain_find chain v then (1, Some ht, s)
             else if avail s = 0
               then (0, Some ht, perror ''Failed to allocate hash table node'' s)
             else (1,
                   Some (ht\<lparr>ht_buckets := (ht_buckets ht)[index := v # chain],
                            ht_count := ht_count ht + 1\<rparr>),
                   s\<lparr>avail := avail s - 1\<rparr>)))"

definition hash_table_contains :: "hash_table option \<Rightarrow> ull \<Rightarrow> int" where
  "hash_table_contains hto v =
    (case hto of
       None \<Rightarrow> 0
     | Some ht \<Rightarrow>
         (let index = unat (hash_ull v (ht_size ht));
              chain = ht_buckets ht ! index
          in if chain_find chain v then 1 else 0))"

text \<open>\<open>hash_table_destroy\<close> frees every node, the bucket array and the table.\<close>

definition hash_table_destroy :: "hash_table option \<Rightarrow> sys \<Rightarrow> sys" where
  "hash_table_destroy hto s =
    (case hto of
       None \<Rightarrow> s
     | Some ht \<Rightarrow> s\<lparr>avail := avail s + length (concat (ht_buckets ht)) + 2\<rparr>)"

subsection \<open>Utilities\<close>

primrec power_loop :: "nat \<Rightarrow> ull \<Rightarrow> ull" where
  "power_loop 0 res = res"
| "power_loop (Suc n) res = power_loop n (res * 10)"

text \<open>\<open>for (i = 0; i < exp; ++i) res *= 10\<close> runs \<open>nat exp\<close> times (not at all for
  \<open>exp \<le> 0\<close>); the product wraps at \<open>2^64\<close>.\<close>

definition power_of_10 :: "int \<Rightarrow> ull" where
  "power_of_10 exp = power_loop (nat exp) 1"

function count_digits_loop :: "ull \<Rightarrow> int \<Rightarrow> int" where
  "count_digits_loop temp count =
    (if temp > 0 then count_digits_loop (temp div 10) (count + 1) else count)"
  by pat_completeness auto
termination
proof (relation "measure (\<lambda>(temp, count). unat temp)")
  show "wf (measure (\<lambda>(temp :: ull, count :: int). unat temp))"
    by simp
next
  fix temp :: ull and count :: int
  assume "0 < temp"
  then have "0 < unat temp"
    by (simp add: word_less_nat_alt)
  then have "unat temp div 10 < unat temp"
    by simp
  then show "((temp div 10, count + 1), (temp, count)) \<in> measure (\<lambda>(temp, count). unat temp)"
    by (simp add: unat_div)
qed

definition count_digits :: "ull \<Rightarrow> int" where
  "count_digits num = (if num = 0 then 1 else count_digits_loop num 0)"

subsection \<open>The truncation loop\<close>

text \<open>
  Both programs run the same loop, which differs only in the test that ends it:
  \<open>!hash_table_contains(prime_hash_set, temp_prime)\<close> in the hash variant and
  \<open>temp_prime >= prime_bitset.size() || !prime_bitset[temp_prime]\<close> in the bitset
  variant.  \<open>miss\<close> is that test.  The loop returns \<open>is_r_truncatable\<close> and, beside it,
  the values of \<open>temp_prime\<close> it has tested, in order: one per iteration.
\<close>

function trunc_loop :: "(ull \<Rightarrow> bool) \<Rightarrow> ull \<Rightarrow> int \<times> ull list" where
  "trunc_loop miss temp_prime =
    (if temp_prime > 0
     then (if miss temp_prime then (0, [temp_prime])
           else (let (r, tested) = trunc_loop miss (temp_prime div 10)
                 in (r, temp_prime # tested)))
     else (1, []))"
  by pat_completeness auto
termination
proof (relation "measure (\<lambda>(miss, temp_prime). unat temp_prime)")
  show "wf (measure (\<lambda>(miss :: ull \<Rightarrow> bool, temp_prime :: ull). unat temp_prime))"
    by simp
next
  fix miss :: "ull \<Rightarrow> bool" and temp_prime :: ull
  assume "0 < temp_prime"
  then have "0 < unat temp_prime"
    by (simp add: word_less_nat_alt)
  then have "unat temp_prime div 10 < unat temp_prime"
    by simp
  then show "((miss, temp_prime div 10), (miss, temp_prime))
      \<in> measure (\<lambda>(miss, temp_prime). unat temp_prime)"
    by (simp add: unat_div)
qed

declare trunc_loop.simps [simp del]

definition is_r_truncatable :: "(ull \<Rightarrow> bool) \<Rightarrow> ull \<Rightarrow> int" where
  "is_r_truncatable miss current_prime = fst (trunc_loop miss current_prime)"

subsection \<open>The bit table (bitset variant)\<close>

text \<open>A read of a \<open>std::vector\<close> with \<open>operator[]\<close>: \<open>None\<close> is the read out of bounds,
  which C++ leaves undefined.\<close>

definition vec_at :: "'a list \<Rightarrow> nat \<Rightarrow> 'a option" where
  "vec_at xs i = (if i < length xs then Some (xs ! i) else None)"

text \<open>The loop's test \<open>temp_prime >= prime_bitset.size() || !prime_bitset[temp_prime]\<close>;
  \<open>||\<close> evaluates its right operand only when the left one is false.\<close>

definition bitset_miss :: "bool list \<Rightarrow> ull \<Rightarrow> bool option" where
  "bitset_miss prime_bitset temp_prime =
    (if unat temp_prime \<ge> length prime_bitset then Some True
     else map_option Not (vec_at prime_bitset (unat temp_prime)))"


subsection \<open>Text of numbers and messages\<close>

text \<open>The decimal text that \<open>printf\<close> writes for \<open>%d\<close>, \<open>%llu\<close> and \<open>%zu\<close>.\<close>

definition digit_char :: "nat \<Rightarrow> char" where
  "digit_char d = ''0123456789'' ! (d mod 10)"

function show_nat :: "nat \<Rightarrow> string" where
  "show_nat n = (if n < 10 then [digit_char n] else show_nat (n div 10) @ [digit_char (n mod 10)])"
  by pat_completeness auto
termination
  by (relation "measure (\<lambda>n. n)") auto

declare show_nat.simps [simp del]

definition show_int :: "int \<Rightarrow> string" where
  "show_int i = (if i < 0 then ''-'' @ show_nat (nat (- i)) else show_nat (nat i))"

definition err_digits :: string where
  "err_digits = ''Error: digits must be between 1 and 19 for unsigned long long.'' @ nl"

subsection \<open>The prime generator\<close>

text \<open>Modelled from the spec: the Prime Source, the external library function
  \<open>primesieve_generate_primes\<close>, of which the repository holds only the calls.  The spec:
  it returns the primes between min and max inclusive, in ascending order, with no
  duplicates, or a failure signal.  \<open>is_prime\<close> is primality by its definition: at least 2
  and no divisor from 2 up to itself.\<close>

definition is_prime :: "nat \<Rightarrow> bool" where
  "is_prime n = (2 \<le> n \<and> list_all (\<lambda>d. \<not> d dvd n) [2..<n])"

definition primesieve_generate_primes :: "ull \<Rightarrow> ull \<Rightarrow> sys \<Rightarrow> ull list option \<times> sys" where
  "primesieve_generate_primes start stop s =
    (let s' = s\<lparr>sieve_calls := sieve_calls s @ [(start, stop)]\<rparr>
     in if sieve_fails s then (None, s')
        else (Some (map word_of_nat (filter is_prime [unat start..<Suc (unat stop)])), s'))"

subsection \<open>The hash variant: \<open>count_right_trunc_primes\<close> and \<open>main\<close>\<close>

text \<open>The loop that fills the table; it stops at the first prime whose insertion fails and
  returns that prime.\<close>

fun populate :: "hash_table option \<Rightarrow> ull list \<Rightarrow> sys \<Rightarrow> ull option \<times> hash_table option \<times> sys" where
  "populate hto [] s = (None, hto, s)"
| "populate hto (p # rest) s =
    (case hash_table_add hto p s of
       (r, hto', s') \<Rightarrow> if r = 0 then (Some p, hto', s') else populate hto' rest s')"

text \<open>The loop over all primes: skip the primes outside the window, test the others.\<close>

fun scan_hash :: "hash_table option \<Rightarrow> ull \<Rightarrow> ull \<Rightarrow> ull list \<Rightarrow> int \<Rightarrow> int" where
  "scan_hash prime_hash_set current_digits_start current_digits_end [] right_truncatable_count =
     right_truncatable_count"
| "scan_hash prime_hash_set current_digits_start current_digits_end (current_prime # rest)
      right_truncatable_count =
    (if current_prime < current_digits_start \<or> current_prime > current_digits_end
     then scan_hash prime_hash_set current_digits_start current_digits_end rest
            right_truncatable_count
     else if is_r_truncatable (\<lambda>t. hash_table_contains prime_hash_set t = 0) current_prime \<noteq> 0
     then scan_hash prime_hash_set current_digits_start current_digits_end rest
            (right_truncatable_count + 1)
     else scan_hash prime_hash_set current_digits_start current_digits_end rest
            right_truncatable_count)"

definition count_right_trunc_primes_hash :: "int \<Rightarrow> sys \<Rightarrow> int \<times> sys" where
  "count_right_trunc_primes_hash digits s =
    (if digits < 1 \<or> digits > 19 then (- 1, print_err err_digits s)
     else
       let MAX_END = power_of_10 digits - 1;
           MIN_START = 2
       in case primesieve_generate_primes MIN_START MAX_END s of
            (None, s1) \<Rightarrow>
              (- 1, print_err (''Error: primesieve_generate_primes for all primes returned NULL.'' @ nl) s1)
          | (Some all_primes_array, s1) \<Rightarrow>
             (let all_primes_count = (word_of_nat (length all_primes_array) :: ull);
                  initial_hash_table_size =
                    (if all_primes_count = 0 then 17 else all_primes_count * 2)
              in case hash_table_create initial_hash_table_size s1 of
                   (None, s2) \<Rightarrow> (- 1, print_err (''Error creating hash set.'' @ nl) s2)
                 | (Some ht, s2) \<Rightarrow>
                     (case populate (Some ht) all_primes_array s2 of
                        (Some p, prime_hash_set, s3) \<Rightarrow>
                          (- 1, hash_table_destroy prime_hash_set
                                 (print_err (''Error adding prime to hash set: ''
                                             @ show_nat (unat p) @ nl) s3))
                      | (None, prime_hash_set, s3) \<Rightarrow>
                          (scan_hash prime_hash_set (power_of_10 (digits - 1))
                             (power_of_10 digits - 1) all_primes_array 0,
                           hash_table_destroy prime_hash_set s3))))"

text \<open>\<open>for (int i = 1; i <= digits; ++i)\<close> of \<open>main\<close>: \<open>Inl\<close> is the \<open>return 1\<close> inside
  the loop, \<open>Inr\<close> the total after it.\<close>

function total_loop_hash :: "int \<Rightarrow> int \<Rightarrow> ull \<Rightarrow> sys \<Rightarrow> sys + (ull \<times> sys)" where
  "total_loop_hash i digits total_count s =
    (if i \<le> digits
     then (case count_right_trunc_primes_hash i s of
             (count, s') \<Rightarrow>
               if count < 0
               then Inl (print_err (''Error counting right-truncatable primes for ''
                                    @ show_int i @ '' digits.'' @ nl) s')
               else total_loop_hash (i + 1) digits (total_count + word_of_int count) s')
     else Inr (total_count, s))"
  by pat_completeness auto
termination
  by (relation "measure (\<lambda>(i, digits, total_count, s). nat (digits + 1 - i))") auto

declare total_loop_hash.simps [simp del]

text \<open>\<open>argv[0]\<close> for the usage line; with an empty \<open>argv\<close> it is NULL, printed as
  \<open>(null)\<close>.\<close>

definition argv0 :: "string list \<Rightarrow> string" where
  "argv0 argv = (case argv of [] \<Rightarrow> ''(null)'' | a # _ \<Rightarrow> a)"

text \<open>\<open>main\<close> of the hash variant.  \<open>argc\<close> is the length of \<open>argv\<close>.  The C library's
  \<open>atoi\<close> is a parameter: its result on text that is no number within \<open>int\<close> is not fixed
  by the language.  The result is the exit status and the environment at exit.\<close>

definition main_hash :: "(string \<Rightarrow> int) \<Rightarrow> string list \<Rightarrow> sys \<Rightarrow> int \<times> sys" where
  "main_hash atoi argv s =
    (if int (length argv) \<noteq> 2
     then (1, print_err (''Usage: '' @ argv0 argv @ '' <number_of_digits>'' @ nl) s)
     else
       let digits = atoi (argv ! 1)
       in if digits < 1 \<or> digits > 19 then (1, print_err err_digits s)
          else
            case count_right_trunc_primes_hash digits s of
              (result, s1) \<Rightarrow>
                if result < 0
                then (1, print_err (''Error counting right-truncatable primes.'' @ nl) s1)
                else
                  let s2 = print_out (''Number of '' @ show_int digits
                                      @ ''-digit right-truncatable primes: ''
                                      @ show_int result @ nl) s1
                  in (case total_loop_hash 1 digits 0 s2 of
                        Inl s3 \<Rightarrow> (1, s3)
                      | Inr (total_count, s3) \<Rightarrow>
                          (0, print_out (''Total number of right-truncatable primes up to ''
                                         @ show_int digits @ '' digits: ''
                                         @ show_nat (unat total_count) @ nl) s3)))"

subsection \<open>The bitset variant: \<open>count_right_trunc_primes\<close> and \<open>main\<close>\<close>

text \<open>The loop over the primes.  It carries \<open>primes_per_digit\<close> and
  \<open>right_truncatable_count\<close>; \<open>break\<close> ends it at the first prime above the window.
  The loop test of the truncation loop holds unless \<open>bitset_miss\<close> evaluates to false.\<close>

fun scan_bitset ::
  "bool list \<Rightarrow> int \<Rightarrow> ull \<Rightarrow> ull \<Rightarrow> ull list \<Rightarrow> ull list \<Rightarrow> int \<Rightarrow> ull list \<times> int" where
  "scan_bitset prime_bitset digits current_digits_start current_digits_end []
      primes_per_digit right_truncatable_count = (primes_per_digit, right_truncatable_count)"
| "scan_bitset prime_bitset digits current_digits_start current_digits_end (current_prime # rest)
      primes_per_digit right_truncatable_count =
    (if current_prime < current_digits_start
     then scan_bitset prime_bitset digits current_digits_start current_digits_end rest
            primes_per_digit right_truncatable_count
     else if current_prime > current_digits_end
     then (primes_per_digit, right_truncatable_count)
     else
       let primes_per_digit' =
             primes_per_digit[nat digits := primes_per_digit ! nat digits + 1]
       in if is_r_truncatable (\<lambda>t. bitset_miss prime_bitset t \<noteq> Some False) current_prime \<noteq> 0
          then scan_bitset prime_bitset digits current_digits_start current_digits_end rest
                 primes_per_digit' (right_truncatable_count + 1)
          else scan_bitset prime_bitset digits current_digits_start current_digits_end rest
                 primes_per_digit' right_truncatable_count)"

text \<open>The result is the returned count, \<open>primes_per_digit\<close> after the call (it is passed
  by reference) and the environment.\<close>

definition count_right_trunc_primes_bitset ::
  "ull list \<Rightarrow> ull list \<Rightarrow> bool list \<Rightarrow> int \<Rightarrow> sys \<Rightarrow> int \<times> ull list \<times> sys" where
  "count_right_trunc_primes_bitset all_primes_array primes_per_digit prime_bitset digits s =
    (if digits < 1 \<or> digits > 19 then (- 1, primes_per_digit, print_err err_digits s)
     else
       let primes_per_digit0 = primes_per_digit[nat digits := 0];
           current_digits_start = power_of_10 (digits - 1);
           current_digits_end = power_of_10 digits - 1
       in case scan_bitset prime_bitset digits current_digits_start current_digits_end
                 all_primes_array primes_per_digit0 0 of
            (primes_per_digit', right_truncatable_count) \<Rightarrow>
              (right_truncatable_count, primes_per_digit', s))"

text \<open>The loop that sets \<open>prime_bitset[all_primes_array[i]] = true\<close>.\<close>

fun fill_bitset :: "bool list \<Rightarrow> ull list \<Rightarrow> bool list" where
  "fill_bitset prime_bitset [] = prime_bitset"
| "fill_bitset prime_bitset (p # rest) = fill_bitset (prime_bitset[unat p := True]) rest"

text \<open>\<open>for (int i = digits; i > 0; i--)\<close> of \<open>main\<close>: \<open>Inl\<close> is the \<open>return 1\<close> inside the
  loop, \<open>Inr\<close> the total after it.\<close>

function total_loop_bitset ::
  "ull list \<Rightarrow> bool list \<Rightarrow> int \<Rightarrow> ull list \<Rightarrow> int \<Rightarrow> sys \<Rightarrow> sys + (int \<times> ull list \<times> sys)" where
  "total_loop_bitset all_primes_array prime_bitset i primes_per_digit total_count s =
    (if i > 0
     then (case count_right_trunc_primes_bitset all_primes_array primes_per_digit prime_bitset i s of
             (count, primes_per_digit', s') \<Rightarrow>
               if count < 0
               then Inl (print_err (''Error counting right-truncatable primes for ''
                                    @ show_int i @ '' digits.'' @ nl) s')
               else total_loop_bitset all_primes_array prime_bitset (i - 1) primes_per_digit'
                      (total_count + count)
                      (print_out (''Number of '' @ show_int i
                                  @ ''-digit right-truncatable primes: '' @ show_int count
                                  @ '' (n = '' @ show_nat (unat (primes_per_digit' ! nat i))
                                  @ '')'' @ nl) s'))
     else Inr (total_count, primes_per_digit, s))"
  by pat_completeness auto
termination
  by (relation "measure (\<lambda>(ps, bs, i, ppd, total_count, s). nat i)") auto

declare total_loop_bitset.simps [simp del]

text \<open>\<open>main\<close> of the bitset variant.  The measured time is floating point and outside the
  model: \<open>elapsed\<close> holds the three numbers as \<open>printf\<close> writes them.\<close>

definition main_bitset ::
  "(string \<Rightarrow> int) \<Rightarrow> string \<times> string \<times> string \<Rightarrow> string list \<Rightarrow> sys \<Rightarrow> int \<times> sys" where
  "main_bitset atoi elapsed argv s =
    (if int (length argv) \<noteq> 2
     then (1, print_err (''Usage: '' @ argv0 argv @ '' <number_of_digits>'' @ nl) s)
     else
       let digits = atoi (argv ! 1)
       in if digits < 1 \<or> digits > 19 then (1, print_err err_digits s)
          else
            let MAX_END = power_of_10 digits - 1;
                MIN_START = 2
            in case primesieve_generate_primes MIN_START MAX_END s of
                 (None, s1) \<Rightarrow> (1, print_err (''Error generating primes.'' @ nl) s1)
               | (Some all_primes_array, s1) \<Rightarrow>
                  (let all_primes_count = (word_of_nat (length all_primes_array) :: ull);
                       prime_bitset =
                         fill_bitset (replicate (unat (MAX_END + 1)) False) all_primes_array;
                       primes_per_digit = replicate (nat (digits + 1)) (0 :: ull)
                   in case total_loop_bitset all_primes_array prime_bitset digits
                             primes_per_digit 0 s1 of
                        Inl s2 \<Rightarrow> (1, s2)
                      | Inr (total_count, primes_per_digit', s2) \<Rightarrow>
                          (case elapsed of
                             (ms, us, ns) \<Rightarrow>
                               (0,
                                print_out (''Execution time: '' @ ns @ '' nanoseconds'' @ nl)
                                 (print_out (''Execution time: '' @ us @ '' microseconds'' @ nl)
                                   (print_out (''Execution time: '' @ ms @ '' milliseconds'' @ nl)
                                     (print_out
                                        (nl @ ''Total number of right-truncatable primes up to ''
                                         @ show_int digits @ '' digits: '' @ show_int total_count
                                         @ '' (n = '' @ show_nat (unat all_primes_count) @ '')''
                                         @ nl @ nl) s2)))))))"


subsection \<open>Specification-side notions\<close>

text \<open>The successive truncations of a value: the value itself, then each integer division
  by 10, down to the single leading digit (0 has none).\<close>

function truncations :: "ull \<Rightarrow> ull list" where
  "truncations v = (if v = 0 then [] else v # truncations (v div 10))"
  by pat_completeness auto
termination
proof (relation "measure unat")
  show "wf (measure (unat :: ull \<Rightarrow> nat))"
    by simp
next
  fix v :: ull
  assume "v \<noteq> 0"
  then have "0 < unat v"
    by (simp add: unat_gt_0)
  then have "unat v div 10 < unat v"
    by simp
  then show "(v div 10, v) \<in> measure unat"
    by (simp add: unat_div)
qed

declare truncations.simps [simp del]

text \<open>The table as a set: on top of \<open>ht_inv\<close>, no value occurs twice in the chains, the
  entry count is the number of nodes, and every value sits in the bucket of its hash.\<close>

definition ht_placed :: "hash_table \<Rightarrow> bool" where
  "ht_placed ht =
    (ht_inv ht \<and> distinct (concat (ht_buckets ht))
     \<and> ht_count ht = word_of_nat (length (concat (ht_buckets ht)))
     \<and> (\<forall>i < length (ht_buckets ht). \<forall>x \<in> set (ht_buckets ht ! i).
           unat (hash_ull x (ht_size ht)) = i))"

text \<open>The primes from \<open>lo\<close> to \<open>hi\<close> inclusive, ascending: what the prime generator
  returns, as natural numbers.\<close>

definition prime_list :: "nat \<Rightarrow> nat \<Rightarrow> nat list" where
  "prime_list lo hi = filter is_prime [lo..<Suc hi]"

text \<open>A right-truncatable prime, after the glossary: a prime such that removing its
  rightmost decimal digit repeatedly yields a prime at every step, down to a single
  digit.\<close>

function rt_prime :: "nat \<Rightarrow> bool" where
  "rt_prime n = (if n < 10 then is_prime n else is_prime n \<and> rt_prime (n div 10))"
  by pat_completeness auto
termination
  by (relation "measure (\<lambda>n. n)") auto

declare rt_prime.simps [simp del]

text \<open>A value of exactly \<open>k\<close> decimal digits: \<open>10^(k-1) \<le> v < 10^k\<close>.\<close>

definition in_window :: "int \<Rightarrow> ull \<Rightarrow> bool" where
  "in_window k v = (10 ^ (nat k - 1) \<le> unat v \<and> unat v < 10 ^ nat k)"

text \<open>The brute-force counts that do not use any index: the right-truncatable primes with
  exactly \<open>k\<close> digits, and all primes with exactly \<open>k\<close> digits.\<close>

definition rt_count :: "nat \<Rightarrow> nat" where
  "rt_count k = length (filter rt_prime (prime_list (10 ^ (k - 1)) (10 ^ k - 1)))"

definition n_count :: "nat \<Rightarrow> nat" where
  "n_count k = length (prime_list (10 ^ (k - 1)) (10 ^ k - 1))"

text \<open>The sum of the brute-force counts for the lengths 1 to \<open>D\<close>.\<close>

definition rt_total :: "nat \<Rightarrow> nat" where
  "rt_total D = sum_list (map rt_count [1..<Suc D])"

text \<open>The right-truncatable primes with exactly \<open>k\<close> digits, of which \<open>rt_count k\<close> is
  the number.\<close>

definition rt_list :: "nat \<Rightarrow> nat list" where
  "rt_list k = filter rt_prime (prime_list (10 ^ (k - 1)) (10 ^ k - 1))"

text \<open>The output lines.  \<open>count_line_n\<close> follows the spec's words: \<open>Number of <k>-digit
  right-truncatable primes: <count> (n = <primes_of_that_length>)\<close>, with the newline that
  ends the line.  \<open>total_line_n\<close> and \<open>time_lines\<close> are the total line and the three
  elapsed-time lines of the bitset variant; \<open>count_line\<close> and \<open>total_line\<close> are the two lines
  of the hash variant.\<close>

definition count_line_n :: "int \<Rightarrow> int \<Rightarrow> nat \<Rightarrow> string" where
  "count_line_n k c n =
     ''Number of '' @ show_int k @ ''-digit right-truncatable primes: '' @ show_int c
     @ '' (n = '' @ show_nat n @ '')'' @ nl"

definition count_line :: "int \<Rightarrow> int \<Rightarrow> string" where
  "count_line k c =
     ''Number of '' @ show_int k @ ''-digit right-truncatable primes: '' @ show_int c @ nl"

definition total_line_n :: "int \<Rightarrow> int \<Rightarrow> nat \<Rightarrow> string" where
  "total_line_n D t n =
     nl @ ''Total number of right-truncatable primes up to '' @ show_int D @ '' digits: ''
     @ show_int t @ '' (n = '' @ show_nat n @ '')'' @ nl @ nl"

definition total_line :: "int \<Rightarrow> nat \<Rightarrow> string" where
  "total_line D t =
     ''Total number of right-truncatable primes up to '' @ show_int D @ '' digits: ''
     @ show_nat t @ nl"

definition time_lines :: "string \<times> string \<times> string \<Rightarrow> string list" where
  "time_lines elapsed =
    (case elapsed of
       (ms, us, ns) \<Rightarrow>
         [''Execution time: '' @ ms @ '' milliseconds'' @ nl,
          ''Execution time: '' @ us @ '' microseconds'' @ nl,
          ''Execution time: '' @ ns @ '' nanoseconds'' @ nl])"

subsection \<open>The C library's \<open>atoi\<close>\<close>

text \<open>The programs take \<open>atoi\<close> as a parameter; this instance serves for concrete runs.
  It is the library function as the program runs it on a 64-bit Linux: \<open>atoi\<close> is
  \<open>(int) strtol (str, NULL, 10)\<close>.  \<open>strtol\<close> skips white space, reads an optional sign
  and decimal digits up to the first other character (no digits give 0) and clamps the
  value to the range of \<open>long\<close>; the conversion to the 32-bit \<open>int\<close> keeps the low 32
  bits.\<close>

definition is_space :: "char \<Rightarrow> bool" where
  "is_space c = (c \<in> set [CHR 0x20, CHR 0x09, CHR 0x0A, CHR 0x0B, CHR 0x0C, CHR 0x0D])"

definition is_digit :: "char \<Rightarrow> bool" where
  "is_digit c = (48 \<le> (of_char c :: nat) \<and> (of_char c :: nat) \<le> 57)"

fun atoi_digits :: "string \<Rightarrow> int \<Rightarrow> int" where
  "atoi_digits [] acc = acc"
| "atoi_digits (c # cs) acc =
    (if is_digit c then atoi_digits cs (10 * acc + (int (of_char c) - 48)) else acc)"

definition strtol_c :: "string \<Rightarrow> int" where
  "strtol_c str =
    (let v = (case dropWhile is_space str of
                [] \<Rightarrow> 0
              | c # cs \<Rightarrow>
                  if c = CHR ''-'' then - atoi_digits cs 0
                  else if c = CHR ''+'' then atoi_digits cs 0
                  else atoi_digits (c # cs) 0)
     in if v > 2 ^ 63 - 1 then 2 ^ 63 - 1 else if v < - (2 ^ 63) then - (2 ^ 63) else v)"

definition atoi_c :: "string \<Rightarrow> int" where
  "atoi_c str = sint (word_of_int (strtol_c str) :: 32 word)"

subsection \<open>Concrete inputs\<close>

text \<open>The environment at program start with \<open>n\<close> allocations available and a working
  prime generator.\<close>

definition sys_start :: "nat \<Rightarrow> sys" where
  "sys_start n = \<lparr>avail = n, sieve_fails = False, sieve_calls = [], stdout = [], stderr = []\<rparr>"

text \<open>The table that \<open>count_right_trunc_primes\<close> builds for one digit: the primes 2, 3, 5
  and 7 in 8 buckets.\<close>

definition ht_2357 :: hash_table where
  "ht_2357 = \<lparr>ht_size = 8, ht_count = 4, ht_buckets = [[5], [], [], [7], [2], [3], [], []]\<rparr>"

text \<open>The bit table of the primes below 30.\<close>

definition bits_30 :: "bool list" where
  "bits_30 =
    [False, False, True, True, False, True, False, True, False, False,
     False, True, False, True, False, False, False, True, False, True,
     False, False, False, True, False, False, False, False, False, True]"

text \<open>The primes that the generator returns for two digits.\<close>

definition primes_99 :: "ull list" where
  "primes_99 =
    [2, 3, 5, 7, 11, 13, 17, 19, 23, 29, 31, 37, 41, 43, 47, 53, 59, 61, 67, 71, 73, 79, 83,
     89, 97]"

subsection \<open>Certificates for the right-truncatable primes\<close>

text \<open>The counts for the lengths 3 to 8 are established from certificates.  A prime \<open>n\<close>
  comes with the quotient \<open>n div d\<close> for every trial divisor \<open>d\<close>: the primes below 30
  first, then the numbers \<open>b + r\<close> coprime to 30 (\<open>b\<close> a multiple of 30) until \<open>n < b * b\<close>.
  A quotient \<open>k\<close> is accepted when \<open>d * k < n < d * k + d\<close>, which shows that \<open>d\<close> does not
  divide \<open>n\<close>.  A composite comes with two factors.\<close>

definition between :: "nat \<Rightarrow> nat \<Rightarrow> nat \<Rightarrow> bool" where
  "between n m d = (m < n \<and> n < m + d)"

definition no_div :: "nat \<Rightarrow> nat \<Rightarrow> nat \<Rightarrow> bool" where
  "no_div n d k = between n (d * k) d"

fun blk :: "nat \<Rightarrow> nat \<Rightarrow> nat list \<Rightarrow> nat list \<Rightarrow> bool" where
  "blk n b [] [] = True"
| "blk n b (r # rs) (k # ks) = (no_div n (b + r) k \<and> blk n b rs ks)"
| "blk n b rs ks = False"

fun wt :: "nat \<Rightarrow> nat \<Rightarrow> nat list list \<Rightarrow> bool" where
  "wt n b [] = (n < b * b)"
| "wt n b (ks # kss) = (blk n b [1, 7, 11, 13, 17, 19, 23, 29] ks \<and> wt n (b + 30) kss)"

definition wheel_ok :: "nat \<Rightarrow> nat list \<Rightarrow> nat list list \<Rightarrow> bool" where
  "wheel_ok n first kss =
    (29 < n \<and> blk n 0 [2, 3, 5, 7, 11, 13, 17, 19, 23, 29] first \<and> wt n 30 kss)"

datatype cert = Prime_cert "nat list" "nat list list" | Composite_cert nat nat

text \<open>The candidates against their certificates: the primes among them, or \<open>None\<close> when a
  certificate does not hold.\<close>

fun check_cands :: "nat list \<Rightarrow> cert list \<Rightarrow> nat list option" where
  "check_cands [] [] = Some []"
| "check_cands (n # ns) (Prime_cert first kss # r) =
    (if wheel_ok n first kss then map_option ((#) n) (check_cands ns r) else None)"
| "check_cands (n # ns) (Composite_cert a b # r) =
    (if a * b = n \<and> 1 < a \<and> 1 < b then check_cands ns r else None)"
| "check_cands ns r = None"

text \<open>The candidates of the next length: a right-truncatable prime followed by 1, 3, 7
  or 9.\<close>

definition extend :: "nat list \<Rightarrow> nat list" where
  "extend ps = concat (map (\<lambda>p. [10 * p + 1, 10 * p + 3, 10 * p + 7, 10 * p + 9]) ps)"

text \<open>The right-truncatable primes of the lengths 2 to 8.\<close>

definition rt_primes_2 :: "nat list" where
  "rt_primes_2 =
    [23, 29, 31, 37, 53, 59, 71, 73, 79]"

definition rt_primes_3 :: "nat list" where
  "rt_primes_3 =
    [233, 239, 293, 311, 313, 317, 373, 379, 593, 599, 719, 733, 739, 797]"

definition rt_primes_4 :: "nat list" where
  "rt_primes_4 =
    [2333, 2339, 2393, 2399, 2939, 3119, 3137, 3733, 3739, 3793, 3797, 5939, 7193, 7331, 7333,
     7393]"

definition rt_primes_5 :: "nat list" where
  "rt_primes_5 =
    [23333, 23339, 23399, 23993, 29399, 31193, 31379, 37337, 37339, 37397, 59393, 59399, 71933,
     73331, 73939]"

definition rt_primes_6 :: "nat list" where
  "rt_primes_6 =
    [233993, 239933, 293999, 373379, 373393, 593933, 593993, 719333, 739391, 739393, 739397,
     739399]"

definition rt_primes_7 :: "nat list" where
  "rt_primes_7 =
    [2339933, 2399333, 2939999, 3733799, 5939333, 7393913, 7393931, 7393933]"

definition rt_primes_8 :: "nat list" where
  "rt_primes_8 =
    [23399339, 29399999, 37337999, 59393339, 73939133]"

text \<open>The quotients for the primes of the lengths 4 to 8, in parts of at most 100 blocks,
  and the certificates for the candidates of the lengths 3 to 8.\<close>

definition certs_3 :: "cert list" where
  "certs_3 =
    [Composite_cert 3 77,
     Prime_cert [116, 77, 46, 33, 21, 17, 13, 12, 10, 8] [],
     Composite_cert 3 79,
     Prime_cert [119, 79, 47, 34, 21, 18, 14, 12, 10, 8] [],
     Composite_cert 3 97,
     Prime_cert [146, 97, 58, 41, 26, 22, 17, 15, 12, 10] [],
     Composite_cert 3 99,
     Composite_cert 13 23,
     Prime_cert [155, 103, 62, 44, 28, 23, 18, 16, 13, 10] [],
     Prime_cert [156, 104, 62, 44, 28, 24, 18, 16, 13, 10] [],
     Prime_cert [158, 105, 63, 45, 28, 24, 18, 16, 13, 10] [],
     Composite_cert 11 29,
     Composite_cert 7 53,
     Prime_cert [186, 124, 74, 53, 33, 28, 21, 19, 16, 12] [],
     Composite_cert 13 29,
     Prime_cert [189, 126, 75, 54, 34, 29, 22, 19, 16, 13] [],
     Composite_cert 3 177,
     Composite_cert 13 41,
     Composite_cert 3 179,
     Composite_cert 7 77,
     Composite_cert 3 197,
     Prime_cert [296, 197, 118, 84, 53, 45, 34, 31, 25, 20] [],
     Composite_cert 3 199,
     Prime_cert [299, 199, 119, 85, 54, 46, 35, 31, 26, 20] [],
     Composite_cert 3 237,
     Composite_cert 23 31,
     Composite_cert 3 239,
     Prime_cert [359, 239, 143, 102, 65, 55, 42, 37, 31, 24] [],
     Composite_cert 17 43,
     Prime_cert [366, 244, 146, 104, 66, 56, 43, 38, 31, 25] [],
     Composite_cert 11 67,
     Prime_cert [369, 246, 147, 105, 67, 56, 43, 38, 32, 25] [],
     Composite_cert 7 113,
     Composite_cert 13 61,
     Prime_cert [398, 265, 159, 113, 72, 61, 46, 41, 34, 27] [],
     Composite_cert 17 47]"

definition wheel_2333_1 :: "nat list list" where
  "wheel_2333_1 =
    [[75, 63, 56, 54, 49, 47, 44, 39]]"

definition wheel_2339_1 :: "nat list list" where
  "wheel_2339_1 =
    [[75, 63, 57, 54, 49, 47, 44, 39]]"

definition wheel_2393_1 :: "nat list list" where
  "wheel_2393_1 =
    [[77, 64, 58, 55, 50, 48, 45, 40]]"

definition wheel_2399_1 :: "nat list list" where
  "wheel_2399_1 =
    [[77, 64, 58, 55, 51, 48, 45, 40]]"

definition wheel_2939_1 :: "nat list list" where
  "wheel_2939_1 =
    [[94, 79, 71, 68, 62, 59, 55, 49]]"

definition wheel_3119_1 :: "nat list list" where
  "wheel_3119_1 =
    [[100, 84, 76, 72, 66, 63, 58, 52]]"

definition wheel_3137_1 :: "nat list list" where
  "wheel_3137_1 =
    [[101, 84, 76, 72, 66, 64, 59, 53]]"

definition wheel_3733_1 :: "nat list list" where
  "wheel_3733_1 =
    [[120, 100, 91, 86, 79, 76, 70, 63], [61, 55, 52, 51, 48, 47, 44, 41]]"

definition wheel_3739_1 :: "nat list list" where
  "wheel_3739_1 =
    [[120, 101, 91, 86, 79, 76, 70, 63], [61, 55, 52, 51, 48, 47, 45, 42]]"

definition wheel_3793_1 :: "nat list list" where
  "wheel_3793_1 =
    [[122, 102, 92, 88, 80, 77, 71, 64], [62, 56, 53, 51, 49, 48, 45, 42]]"

definition wheel_3797_1 :: "nat list list" where
  "wheel_3797_1 =
    [[122, 102, 92, 88, 80, 77, 71, 64], [62, 56, 53, 52, 49, 48, 45, 42]]"

definition wheel_5939_1 :: "nat list list" where
  "wheel_5939_1 =
    [[191, 160, 144, 138, 126, 121, 112, 100], [97, 88, 83, 81, 77, 75, 71, 66]]"

definition wheel_7193_1 :: "nat list list" where
  "wheel_7193_1 =
    [[232, 194, 175, 167, 153, 146, 135, 121], [117, 107, 101, 98, 93, 91, 86, 80]]"

definition wheel_7331_1 :: "nat list list" where
  "wheel_7331_1 =
    [[236, 198, 178, 170, 155, 149, 138, 124], [120, 109, 103, 100, 95, 92, 88, 82]]"

definition wheel_7333_1 :: "nat list list" where
  "wheel_7333_1 =
    [[236, 198, 178, 170, 156, 149, 138, 124], [120, 109, 103, 100, 95, 92, 88, 82]]"

definition wheel_7393_1 :: "nat list list" where
  "wheel_7393_1 =
    [[238, 199, 180, 171, 157, 150, 139, 125], [121, 110, 104, 101, 96, 93, 89, 83]]"

definition certs_4 :: "cert list" where
  "certs_4 =
    [Composite_cert 3 777,
     Prime_cert [1166, 777, 466, 333, 212, 179, 137, 122, 101, 80] (wheel_2333_1),
     Composite_cert 3 779,
     Prime_cert [1169, 779, 467, 334, 212, 179, 137, 123, 101, 80] (wheel_2339_1),
     Composite_cert 3 797,
     Prime_cert [1196, 797, 478, 341, 217, 184, 140, 125, 104, 82] (wheel_2393_1),
     Composite_cert 3 799,
     Prime_cert [1199, 799, 479, 342, 218, 184, 141, 126, 104, 82] (wheel_2399_1),
     Composite_cert 3 977,
     Composite_cert 7 419,
     Composite_cert 3 979,
     Prime_cert [1469, 979, 587, 419, 267, 226, 172, 154, 127, 101] (wheel_2939_1),
     Composite_cert 3 1037,
     Composite_cert 11 283,
     Composite_cert 3 1039,
     Prime_cert [1559, 1039, 623, 445, 283, 239, 183, 164, 135, 107] (wheel_3119_1),
     Composite_cert 31 101,
     Composite_cert 13 241,
     Prime_cert [1568, 1045, 627, 448, 285, 241, 184, 165, 136, 108] (wheel_3137_1),
     Composite_cert 43 73,
     Composite_cert 3 1057,
     Composite_cert 19 167,
     Composite_cert 3 1059,
     Composite_cert 11 289,
     Composite_cert 7 533,
     Prime_cert [1866, 1244, 746, 533, 339, 287, 219, 196, 162, 128] (wheel_3733_1),
     Composite_cert 37 101,
     Prime_cert [1869, 1246, 747, 534, 339, 287, 219, 196, 162, 128] (wheel_3739_1),
     Composite_cert 17 223,
     Prime_cert [1896, 1264, 758, 541, 344, 291, 223, 199, 164, 130] (wheel_3793_1),
     Prime_cert [1898, 1265, 759, 542, 345, 292, 223, 199, 165, 130] (wheel_3797_1),
     Composite_cert 29 131,
     Composite_cert 3 1977,
     Composite_cert 17 349,
     Composite_cert 3 1979,
     Prime_cert [2969, 1979, 1187, 848, 539, 456, 349, 312, 258, 204] (wheel_5939_1),
     Composite_cert 3 1997,
     Composite_cert 13 461,
     Composite_cert 3 1999,
     Composite_cert 7 857,
     Composite_cert 3 2397,
     Prime_cert [3596, 2397, 1438, 1027, 653, 553, 423, 378, 312, 248] (wheel_7193_1),
     Composite_cert 3 2399,
     Composite_cert 23 313,
     Prime_cert [3665, 2443, 1466, 1047, 666, 563, 431, 385, 318, 252] (wheel_7331_1),
     Prime_cert [3666, 2444, 1466, 1047, 666, 564, 431, 385, 318, 252] (wheel_7333_1),
     Composite_cert 11 667,
     Composite_cert 41 179,
     Composite_cert 19 389,
     Prime_cert [3696, 2464, 1478, 1056, 672, 568, 434, 389, 321, 254] (wheel_7393_1),
     Composite_cert 13 569,
     Composite_cert 7 1057,
     Composite_cert 3 2657,
     Composite_cert 7 1139,
     Composite_cert 3 2659,
     Composite_cert 79 101]"

definition wheel_23333_1 :: "nat list list" where
  "wheel_23333_1 =
    [[752, 630, 569, 542, 496, 476, 440, 395], [382, 348, 328, 319, 303, 295, 281, 262],
     [256, 240, 231, 226, 218, 214, 206, 196], [192, 183, 178, 175, 170, 167, 163, 156],
     [154, 148, 144, 143, 139, 138, 134, 130]]"

definition wheel_23339_1 :: "nat list list" where
  "wheel_23339_1 =
    [[752, 630, 569, 542, 496, 476, 440, 395], [382, 348, 328, 319, 303, 295, 281, 262],
     [256, 240, 231, 226, 218, 214, 206, 196], [192, 183, 178, 175, 170, 167, 163, 156],
     [154, 148, 144, 143, 139, 138, 134, 130]]"

definition wheel_23399_1 :: "nat list list" where
  "wheel_23399_1 =
    [[754, 632, 570, 544, 497, 477, 441, 396], [383, 349, 329, 320, 303, 296, 281, 262],
     [257, 241, 231, 227, 218, 214, 207, 196], [193, 184, 178, 175, 170, 168, 163, 157],
     [154, 149, 145, 143, 140, 138, 135, 130]]"

definition wheel_23993_1 :: "nat list list" where
  "wheel_23993_1 =
    [[773, 648, 585, 557, 510, 489, 452, 406], [393, 358, 337, 328, 311, 303, 289, 269],
     [263, 247, 237, 232, 224, 220, 212, 201], [198, 188, 183, 180, 175, 172, 167, 161],
     [158, 152, 149, 147, 143, 141, 138, 134]]"

definition wheel_29399_1 :: "nat list list" where
  "wheel_29399_1 =
    [[948, 794, 717, 683, 625, 599, 554, 498], [481, 438, 414, 402, 381, 372, 354, 330],
     [323, 303, 291, 285, 274, 269, 260, 247], [242, 231, 224, 221, 214, 211, 205, 197],
     [194, 187, 182, 180, 176, 173, 169, 164]]"

definition wheel_31193_1 :: "nat list list" where
  "wheel_31193_1 =
    [[1006, 843, 760, 725, 663, 636, 588, 528], [511, 465, 439, 427, 405, 394, 375, 350],
     [342, 321, 308, 302, 291, 286, 276, 262], [257, 245, 238, 234, 227, 224, 218, 209],
     [206, 198, 193, 191, 186, 184, 180, 174]]"

definition wheel_31379_1 :: "nat list list" where
  "wheel_31379_1 =
    [[1012, 848, 765, 729, 667, 640, 592, 531], [514, 468, 441, 429, 407, 397, 378, 352],
     [344, 323, 310, 304, 293, 287, 277, 263], [259, 247, 239, 235, 229, 225, 219, 210],
     [207, 199, 194, 192, 187, 185, 181, 175]]"

definition wheel_37337_1 :: "nat list list" where
  "wheel_37337_1 =
    [[1204, 1009, 910, 868, 794, 761, 704, 632], [612, 557, 525, 511, 484, 472, 449, 419],
     [410, 384, 369, 362, 348, 342, 330, 313], [308, 293, 285, 280, 272, 268, 261, 250],
     [247, 237, 231, 229, 223, 220, 215, 208], [206, 199, 195, 193, 189, 187, 183, 178]]"

definition wheel_37339_1 :: "nat list list" where
  "wheel_37339_1 =
    [[1204, 1009, 910, 868, 794, 762, 704, 632], [612, 557, 525, 511, 484, 472, 449, 419],
     [410, 384, 369, 362, 348, 342, 330, 313], [308, 294, 285, 280, 272, 268, 261, 250],
     [247, 237, 231, 229, 223, 220, 215, 208], [206, 199, 195, 193, 189, 187, 183, 178]]"

definition wheel_37397_1 :: "nat list list" where
  "wheel_37397_1 =
    [[1206, 1010, 912, 869, 795, 763, 705, 633], [613, 558, 526, 512, 485, 473, 450, 420],
     [410, 385, 370, 363, 349, 343, 330, 314], [309, 294, 285, 281, 272, 269, 261, 250],
     [247, 238, 232, 229, 223, 221, 216, 208], [206, 199, 195, 193, 189, 187, 184, 178]]"

definition wheel_59393_1 :: "nat list list" where
  "wheel_59393_1 =
    [[1915, 1605, 1448, 1381, 1263, 1212, 1120, 1006], [973, 886, 836, 813, 771, 751, 715, 667],
     [652, 612, 588, 576, 555, 544, 525, 499], [490, 467, 453, 446, 433, 427, 415, 398],
     [393, 378, 368, 364, 355, 351, 343, 331], [328, 317, 310, 307, 301, 298, 292, 284],
     [281, 273, 268, 266, 261, 259, 254, 248], [246, 240, 236, 234, 231, 229, 225, 220]]"

definition wheel_59399_1 :: "nat list list" where
  "wheel_59399_1 =
    [[1916, 1605, 1448, 1381, 1263, 1212, 1120, 1006], [973, 886, 836, 813, 771, 751, 715, 667],
     [652, 612, 588, 576, 555, 544, 525, 499], [490, 467, 453, 446, 433, 427, 415, 398],
     [393, 378, 368, 364, 355, 351, 343, 331], [328, 317, 310, 307, 301, 298, 292, 284],
     [281, 273, 268, 266, 261, 259, 254, 248], [246, 240, 236, 234, 231, 229, 225, 220]]"

definition wheel_71933_1 :: "nat list list" where
  "wheel_71933_1 =
    [[2320, 1944, 1754, 1672, 1530, 1468, 1357, 1219],
     [1179, 1073, 1013, 985, 934, 910, 866, 808], [790, 741, 712, 698, 672, 659, 636, 604],
     [594, 566, 549, 540, 525, 517, 503, 482], [476, 458, 446, 441, 430, 425, 415, 401],
     [397, 384, 376, 372, 365, 361, 354, 344], [340, 331, 325, 322, 316, 314, 308, 300],
     [298, 291, 286, 284, 279, 277, 273, 267]]"

definition wheel_73331_1 :: "nat list list" where
  "wheel_73331_1 =
    [[2365, 1981, 1788, 1705, 1560, 1496, 1383, 1242],
     [1202, 1094, 1032, 1004, 952, 928, 883, 823], [805, 755, 726, 711, 685, 672, 648, 616],
     [606, 577, 559, 551, 535, 527, 512, 492], [485, 467, 455, 449, 439, 433, 423, 409],
     [405, 392, 383, 379, 372, 368, 361, 350], [347, 337, 331, 328, 323, 320, 314, 306],
     [304, 296, 292, 289, 285, 283, 278, 272], [270, 264, 260, 259, 255, 253, 250, 245]]"

definition wheel_73939_1 :: "nat list list" where
  "wheel_73939_1 =
    [[2385, 1998, 1803, 1719, 1573, 1508, 1395, 1253],
     [1212, 1103, 1041, 1012, 960, 935, 890, 830], [812, 762, 732, 717, 691, 678, 654, 621],
     [611, 582, 564, 555, 539, 531, 517, 496], [489, 470, 459, 453, 442, 437, 427, 413],
     [408, 395, 387, 383, 375, 371, 364, 353], [350, 340, 334, 331, 325, 322, 317, 309],
     [306, 299, 294, 292, 287, 285, 281, 274], [272, 266, 263, 261, 257, 255, 252, 247]]"

definition certs_5 :: "cert list" where
  "certs_5 =
    [Composite_cert 3 7777,
     Prime_cert [11666, 7777, 4666, 3333, 2121, 1794, 1372, 1228, 1014, 804] (wheel_23333_1),
     Composite_cert 3 7779,
     Prime_cert [11669, 7779, 4667, 3334, 2121, 1795, 1372, 1228, 1014, 804] (wheel_23339_1),
     Composite_cert 3 7797,
     Composite_cert 149 157,
     Composite_cert 3 7799,
     Prime_cert [11699, 7799, 4679, 3342, 2127, 1799, 1376, 1231, 1017, 806] (wheel_23399_1),
     Composite_cert 3 7977,
     Composite_cert 7 3419,
     Composite_cert 3 7979,
     Composite_cert 37 647,
     Composite_cert 3 7997,
     Prime_cert [11996, 7997, 4798, 3427, 2181, 1845, 1411, 1262, 1043, 827] (wheel_23993_1),
     Composite_cert 3 7999,
     Composite_cert 103 233,
     Composite_cert 3 9797,
     Composite_cert 7 4199,
     Composite_cert 3 9799,
     Prime_cert [14699, 9799, 5879, 4199, 2672, 2261, 1729, 1547, 1278, 1013] (wheel_29399_1),
     Composite_cert 3 10397,
     Prime_cert [15596, 10397, 6238, 4456, 2835, 2399, 1834, 1641, 1356, 1075] (wheel_31193_1),
     Composite_cert 3 10399,
     Composite_cert 7 4457,
     Composite_cert 3 10457,
     Composite_cert 137 229,
     Composite_cert 3 10459,
     Prime_cert [15689, 10459, 6275, 4482, 2852, 2413, 1845, 1651, 1364, 1082] (wheel_31379_1),
     Composite_cert 7 5333,
     Composite_cert 37 1009,
     Prime_cert [18668, 12445, 7467, 5333, 3394, 2872, 2196, 1965, 1623, 1287] (wheel_37337_1),
     Prime_cert [18669, 12446, 7467, 5334, 3394, 2872, 2196, 1965, 1623, 1287] (wheel_37339_1),
     Composite_cert 139 269,
     Composite_cert 61 613,
     Prime_cert [18698, 12465, 7479, 5342, 3399, 2876, 2199, 1968, 1625, 1289] (wheel_37397_1),
     Composite_cert 149 251,
     Composite_cert 83 457,
     Composite_cert 7 5419,
     Composite_cert 59 643,
     Composite_cert 11 3449,
     Composite_cert 3 12657,
     Composite_cert 13 2921,
     Composite_cert 3 12659,
     Composite_cert 163 233,
     Composite_cert 3 19797,
     Prime_cert [29696, 19797, 11878, 8484, 5399, 4568, 3493, 3125, 2582, 2048] (wheel_59393_1),
     Composite_cert 3 19799,
     Prime_cert [29699, 19799, 11879, 8485, 5399, 4569, 3494, 3126, 2582, 2048] (wheel_59399_1),
     Composite_cert 3 23977,
     Prime_cert [35966, 23977, 14386, 10276, 6539, 5533, 4231, 3785, 3127, 2480] (wheel_71933_1),
     Composite_cert 3 23979,
     Composite_cert 7 10277,
     Composite_cert 3 24437,
     Composite_cert 167 439,
     Composite_cert 3 24439,
     Composite_cert 157 467,
     Prime_cert [36665, 24443, 14666, 10475, 6666, 5640, 4313, 3859, 3188, 2528] (wheel_73331_1),
     Composite_cert 13 5641,
     Composite_cert 11 6667,
     Composite_cert 7 10477,
     Composite_cert 11 6721,
     Composite_cert 17 4349,
     Composite_cert 107 691,
     Prime_cert [36969, 24646, 14787, 10562, 6721, 5687, 4349, 3891, 3214, 2549] (wheel_73939_1)]"

definition wheel_233993_1 :: "nat list list" where
  "wheel_233993_1 =
    [[7548, 6324, 5707, 5441, 4978, 4775, 4414, 3965],
     [3835, 3492, 3295, 3205, 3038, 2961, 2819, 2629],
     [2571, 2412, 2316, 2271, 2186, 2146, 2070, 1966],
     [1933, 1842, 1786, 1759, 1707, 1683, 1636, 1570],
     [1549, 1490, 1453, 1435, 1401, 1384, 1352, 1307],
     [1292, 1251, 1225, 1212, 1187, 1175, 1152, 1119],
     [1108, 1078, 1058, 1049, 1030, 1021, 1004, 979], [970, 947, 932, 924, 910, 903, 889, 869],
     [863, 844, 832, 826, 815, 809, 798, 782], [777, 762, 752, 747, 738, 733, 724, 711],
     [706, 694, 686, 682, 674, 670, 662, 651], [648, 637, 630, 627, 620, 617, 610, 601],
     [598, 589, 583, 580, 574, 572, 566, 558], [555, 547, 542, 540, 535, 533, 528, 521],
     [518, 512, 507, 505, 501, 498, 494, 488], [486, 480, 476, 474, 470, 468, 465, 459]]"

definition wheel_239933_1 :: "nat list list" where
  "wheel_239933_1 =
    [[7739, 6484, 5852, 5579, 5104, 4896, 4527, 4066],
     [3933, 3581, 3379, 3286, 3116, 3037, 2890, 2695],
     [2636, 2473, 2375, 2329, 2242, 2201, 2123, 2016],
     [1982, 1889, 1831, 1804, 1751, 1726, 1677, 1610],
     [1588, 1528, 1490, 1471, 1436, 1419, 1386, 1340],
     [1325, 1283, 1256, 1243, 1217, 1205, 1181, 1148],
     [1137, 1105, 1085, 1075, 1056, 1047, 1029, 1003], [995, 971, 955, 948, 933, 926, 912, 891],
     [885, 866, 853, 847, 836, 830, 818, 802], [797, 781, 771, 766, 756, 752, 742, 729],
     [724, 711, 703, 699, 691, 687, 679, 668], [664, 653, 646, 643, 636, 633, 626, 616],
     [613, 604, 598, 595, 589, 586, 580, 572], [569, 561, 556, 554, 549, 546, 541, 534],
     [532, 525, 520, 518, 513, 511, 507, 500], [498, 492, 488, 486, 482, 480, 477, 471]]"

definition wheel_293999_1 :: "nat list list" where
  "wheel_293999_1 =
    [[9483, 7945, 7170, 6837, 6255, 5999, 5547, 4983],
     [4819, 4388, 4140, 4027, 3818, 3721, 3542, 3303],
     [3230, 3030, 2910, 2854, 2747, 2697, 2601, 2470],
     [2429, 2314, 2244, 2210, 2145, 2115, 2055, 1973],
     [1947, 1872, 1826, 1803, 1760, 1739, 1699, 1642],
     [1624, 1572, 1539, 1523, 1492, 1477, 1448, 1406],
     [1393, 1354, 1330, 1318, 1295, 1283, 1261, 1230],
     [1219, 1190, 1171, 1162, 1143, 1135, 1117, 1092],
     [1084, 1061, 1046, 1038, 1024, 1017, 1003, 983], [976, 957, 945, 939, 927, 921, 910, 893],
     [888, 872, 862, 857, 847, 842, 832, 818], [814, 801, 792, 788, 779, 775, 767, 755],
     [751, 740, 733, 729, 722, 718, 711, 701], [698, 688, 682, 678, 672, 669, 663, 654],
     [651, 643, 637, 634, 629, 626, 621, 613], [611, 603, 598, 596, 591, 589, 584, 577],
     [575, 568, 564, 562, 557, 555, 551, 545], [543, 537, 533, 531, 527, 525, 522, 516]]"

definition wheel_373379_1 :: "nat list list" where
  "wheel_373379_1 =
    [[12044, 10091, 9106, 8683, 7944, 7619, 7044, 6328],
     [6120, 5572, 5258, 5114, 4849, 4726, 4498, 4195],
     [4103, 3849, 3696, 3625, 3489, 3425, 3304, 3137],
     [3085, 2939, 2850, 2807, 2725, 2686, 2611, 2505],
     [2472, 2378, 2319, 2290, 2235, 2209, 2158, 2085],
     [2062, 1996, 1954, 1934, 1895, 1876, 1839, 1786],
     [1769, 1720, 1689, 1674, 1644, 1630, 1602, 1562],
     [1549, 1511, 1487, 1475, 1452, 1441, 1419, 1388],
     [1377, 1347, 1328, 1319, 1300, 1291, 1274, 1248],
     [1240, 1216, 1200, 1192, 1177, 1170, 1155, 1134],
     [1128, 1107, 1094, 1088, 1076, 1069, 1057, 1040],
     [1034, 1017, 1006, 1001, 990, 985, 974, 959], [954, 940, 931, 926, 917, 912, 904, 891],
     [886, 874, 866, 862, 854, 850, 842, 831], [827, 817, 809, 806, 799, 796, 789, 779],
     [776, 766, 760, 757, 751, 748, 742, 733], [730, 722, 716, 713, 708, 705, 700, 692],
     [690, 682, 677, 675, 670, 667, 663, 656], [653, 647, 642, 640, 636, 633, 629, 623],
     [621, 615, 611, 609, 605, 603, 599, 593]]"

definition wheel_373393_1 :: "nat list list" where
  "wheel_373393_1 =
    [[12044, 10091, 9107, 8683, 7944, 7620, 7045, 6328],
     [6121, 5573, 5259, 5114, 4849, 4726, 4498, 4195],
     [4103, 3849, 3696, 3625, 3489, 3425, 3304, 3137],
     [3085, 2940, 2850, 2807, 2725, 2686, 2611, 2505],
     [2472, 2378, 2319, 2290, 2235, 2209, 2158, 2085],
     [2062, 1996, 1954, 1934, 1895, 1876, 1839, 1786],
     [1769, 1720, 1689, 1674, 1644, 1630, 1602, 1562],
     [1549, 1511, 1487, 1475, 1452, 1441, 1419, 1388],
     [1377, 1347, 1328, 1319, 1301, 1292, 1274, 1248],
     [1240, 1216, 1200, 1192, 1177, 1170, 1156, 1134],
     [1128, 1107, 1094, 1088, 1076, 1069, 1057, 1040],
     [1034, 1017, 1006, 1001, 990, 985, 974, 959], [954, 940, 931, 926, 917, 912, 904, 891],
     [886, 874, 866, 862, 854, 850, 842, 831], [827, 817, 809, 806, 799, 796, 789, 779],
     [776, 766, 760, 757, 751, 748, 742, 733], [730, 722, 716, 713, 708, 705, 700, 692],
     [690, 682, 677, 675, 670, 667, 663, 656], [653, 647, 642, 640, 636, 633, 629, 623],
     [621, 615, 611, 609, 605, 603, 599, 593]]"

definition wheel_593933_1 :: "nat list list" where
  "wheel_593933_1 =
    [[19159, 16052, 14486, 13812, 12636, 12121, 11206, 10066],
     [9736, 8864, 8365, 8136, 7713, 7518, 7155, 6673],
     [6526, 6123, 5880, 5766, 5550, 5448, 5256, 4991],
     [4908, 4676, 4533, 4465, 4335, 4272, 4153, 3986],
     [3933, 3783, 3689, 3643, 3556, 3514, 3433, 3318],
     [3281, 3176, 3109, 3077, 3014, 2984, 2925, 2841],
     [2814, 2737, 2687, 2663, 2616, 2593, 2549, 2485],
     [2464, 2404, 2366, 2347, 2311, 2293, 2258, 2207],
     [2191, 2144, 2113, 2098, 2069, 2055, 2027, 1986],
     [1973, 1934, 1909, 1897, 1873, 1861, 1838, 1805],
     [1794, 1762, 1741, 1731, 1711, 1701, 1682, 1654],
     [1645, 1618, 1600, 1592, 1575, 1567, 1550, 1526],
     [1519, 1496, 1481, 1473, 1459, 1452, 1438, 1417],
     [1410, 1390, 1378, 1371, 1359, 1352, 1340, 1322],
     [1316, 1299, 1288, 1282, 1271, 1266, 1255, 1239],
     [1234, 1219, 1209, 1204, 1195, 1190, 1180, 1166],
     [1162, 1148, 1139, 1135, 1127, 1122, 1114, 1101],
     [1097, 1085, 1077, 1074, 1066, 1062, 1054, 1043],
     [1040, 1029, 1022, 1018, 1011, 1008, 1001, 991], [988, 978, 972, 968, 962, 959, 953, 944],
     [941, 932, 926, 923, 917, 915, 909, 901], [898, 890, 885, 882, 877, 874, 869, 862],
     [859, 852, 847, 844, 840, 837, 833, 826], [823, 816, 812, 810, 805, 803, 799, 792],
     [790, 784, 780, 778, 774, 772, 768, 762]]"

definition wheel_593993_1 :: "nat list list" where
  "wheel_593993_1 =
    [[19161, 16053, 14487, 13813, 12638, 12122, 11207, 10067],
     [9737, 8865, 8366, 8136, 7714, 7518, 7156, 6674],
     [6527, 6123, 5881, 5766, 5551, 5449, 5256, 4991],
     [4909, 4677, 4534, 4466, 4335, 4273, 4153, 3986],
     [3933, 3783, 3689, 3644, 3556, 3514, 3433, 3318],
     [3281, 3176, 3109, 3077, 3015, 2984, 2926, 2842],
     [2815, 2737, 2687, 2663, 2616, 2593, 2549, 2485],
     [2464, 2404, 2366, 2347, 2311, 2293, 2258, 2208],
     [2191, 2144, 2113, 2098, 2069, 2055, 2027, 1986],
     [1973, 1934, 1909, 1897, 1873, 1862, 1838, 1805],
     [1794, 1762, 1741, 1731, 1711, 1701, 1682, 1654],
     [1645, 1618, 1601, 1592, 1575, 1567, 1550, 1526],
     [1519, 1496, 1481, 1473, 1459, 1452, 1438, 1417],
     [1410, 1391, 1378, 1371, 1359, 1353, 1340, 1322],
     [1317, 1299, 1288, 1282, 1271, 1266, 1255, 1240],
     [1234, 1219, 1209, 1204, 1195, 1190, 1180, 1166],
     [1162, 1148, 1140, 1135, 1127, 1122, 1114, 1102],
     [1097, 1085, 1078, 1074, 1066, 1062, 1055, 1043],
     [1040, 1029, 1022, 1018, 1011, 1008, 1001, 991], [988, 978, 972, 968, 962, 959, 953, 944],
     [941, 932, 926, 923, 918, 915, 909, 901], [898, 890, 885, 882, 877, 874, 869, 862],
     [859, 852, 847, 844, 840, 837, 833, 826], [823, 817, 812, 810, 805, 803, 799, 793],
     [790, 784, 780, 778, 774, 772, 768, 762]]"

definition wheel_719333_1 :: "nat list list" where
  "wheel_719333_1 =
    [[23204, 19441, 17544, 16728, 15304, 14680, 13572, 12192],
     [11792, 10736, 10131, 9853, 9341, 9105, 8666, 8082],
     [7904, 7415, 7122, 6983, 6722, 6599, 6365, 6044],
     [5944, 5664, 5491, 5408, 5250, 5175, 5030, 4827],
     [4763, 4581, 4467, 4413, 4307, 4256, 4157, 4018],
     [3974, 3846, 3766, 3727, 3651, 3614, 3543, 3441],
     [3409, 3314, 3254, 3225, 3168, 3141, 3087, 3009],
     [2984, 2912, 2865, 2843, 2798, 2777, 2735, 2674],
     [2654, 2596, 2559, 2541, 2506, 2489, 2455, 2405],
     [2389, 2343, 2312, 2298, 2269, 2254, 2227, 2186],
     [2173, 2134, 2109, 2097, 2073, 2061, 2037, 2003],
     [1992, 1960, 1938, 1928, 1908, 1897, 1878, 1849],
     [1839, 1811, 1793, 1784, 1767, 1758, 1741, 1716],
     [1708, 1684, 1668, 1661, 1646, 1638, 1623, 1602],
     [1594, 1574, 1560, 1553, 1540, 1533, 1520, 1501],
     [1495, 1477, 1465, 1459, 1447, 1441, 1430, 1413],
     [1407, 1391, 1380, 1375, 1364, 1359, 1349, 1334],
     [1329, 1315, 1305, 1300, 1291, 1286, 1277, 1264],
     [1259, 1246, 1238, 1233, 1225, 1221, 1213, 1200],
     [1196, 1185, 1177, 1173, 1165, 1162, 1154, 1143],
     [1139, 1129, 1122, 1118, 1111, 1108, 1101, 1091],
     [1088, 1078, 1072, 1068, 1062, 1059, 1053, 1044],
     [1041, 1032, 1026, 1023, 1017, 1014, 1008, 1000], [997, 989, 984, 981, 976, 973, 968, 960],
     [957, 950, 945, 942, 937, 935, 930, 923], [921, 914, 909, 907, 902, 900, 895, 889],
     [886, 880, 876, 874, 869, 867, 863, 857], [855, 849, 845, 843, 839, 837, 833, 827]]"

definition wheel_739391_1 :: "nat list list" where
  "wheel_739391_1 =
    [[23851, 19983, 18033, 17195, 15731, 15089, 13950, 12532],
     [12121, 11035, 10413, 10128, 9602, 9359, 8908, 8307],
     [8125, 7622, 7320, 7178, 6910, 6783, 6543, 6213],
     [6110, 5821, 5644, 5559, 5397, 5319, 5170, 4962],
     [4896, 4709, 4592, 4536, 4427, 4375, 4273, 4130],
     [4085, 3953, 3871, 3831, 3753, 3715, 3642, 3537],
     [3504, 3407, 3345, 3315, 3257, 3228, 3173, 3093],
     [3068, 2993, 2945, 2922, 2877, 2854, 2811, 2748],
     [2728, 2669, 2631, 2612, 2576, 2558, 2523, 2472],
     [2456, 2408, 2377, 2362, 2332, 2317, 2289, 2247],
     [2233, 2194, 2168, 2155, 2130, 2118, 2094, 2059],
     [2048, 2014, 1992, 1982, 1961, 1950, 1930, 1900],
     [1891, 1862, 1843, 1834, 1816, 1807, 1790, 1764],
     [1756, 1731, 1715, 1707, 1691, 1684, 1669, 1646],
     [1639, 1617, 1603, 1596, 1583, 1576, 1563, 1543],
     [1537, 1518, 1505, 1499, 1487, 1481, 1469, 1452],
     [1446, 1430, 1419, 1413, 1403, 1397, 1387, 1371],
     [1366, 1351, 1341, 1337, 1327, 1322, 1313, 1299],
     [1294, 1281, 1272, 1268, 1259, 1255, 1246, 1234],
     [1230, 1218, 1210, 1206, 1198, 1194, 1186, 1175],
     [1171, 1160, 1153, 1149, 1142, 1139, 1132, 1121],
     [1118, 1108, 1101, 1098, 1092, 1088, 1082, 1073],
     [1070, 1060, 1054, 1051, 1045, 1042, 1037, 1028],
     [1025, 1017, 1011, 1008, 1003, 1000, 995, 987], [984, 976, 971, 969, 964, 961, 956, 949],
     [946, 939, 934, 932, 927, 925, 920, 913], [911, 905, 900, 898, 894, 891, 887, 881],
     [879, 872, 868, 866, 862, 860, 856, 850]]"

definition wheel_739393_1 :: "nat list list" where
  "wheel_739393_1 =
    [[23851, 19983, 18033, 17195, 15731, 15089, 13950, 12532],
     [12121, 11035, 10413, 10128, 9602, 9359, 8908, 8307],
     [8125, 7622, 7320, 7178, 6910, 6783, 6543, 6213],
     [6110, 5821, 5644, 5559, 5397, 5319, 5170, 4962],
     [4896, 4709, 4592, 4536, 4427, 4375, 4273, 4130],
     [4085, 3953, 3871, 3831, 3753, 3715, 3642, 3537],
     [3504, 3407, 3345, 3315, 3257, 3228, 3173, 3093],
     [3068, 2993, 2945, 2922, 2877, 2854, 2811, 2748],
     [2728, 2669, 2631, 2612, 2576, 2558, 2523, 2472],
     [2456, 2408, 2377, 2362, 2332, 2317, 2289, 2247],
     [2233, 2194, 2168, 2155, 2130, 2118, 2094, 2059],
     [2048, 2014, 1992, 1982, 1961, 1950, 1930, 1900],
     [1891, 1862, 1843, 1834, 1816, 1807, 1790, 1764],
     [1756, 1731, 1715, 1707, 1691, 1684, 1669, 1646],
     [1639, 1617, 1603, 1596, 1583, 1576, 1563, 1543],
     [1537, 1518, 1505, 1499, 1487, 1481, 1469, 1452],
     [1446, 1430, 1419, 1413, 1403, 1397, 1387, 1371],
     [1366, 1351, 1341, 1337, 1327, 1322, 1313, 1299],
     [1294, 1281, 1272, 1268, 1259, 1255, 1246, 1234],
     [1230, 1218, 1210, 1206, 1198, 1194, 1186, 1175],
     [1171, 1160, 1153, 1149, 1142, 1139, 1132, 1121],
     [1118, 1108, 1101, 1098, 1092, 1088, 1082, 1073],
     [1070, 1060, 1054, 1051, 1045, 1042, 1037, 1028],
     [1025, 1017, 1011, 1008, 1003, 1000, 995, 987], [984, 976, 971, 969, 964, 961, 956, 949],
     [946, 939, 934, 932, 927, 925, 920, 913], [911, 905, 900, 898, 894, 891, 887, 881],
     [879, 872, 868, 866, 862, 860, 856, 850]]"

definition wheel_739397_1 :: "nat list list" where
  "wheel_739397_1 =
    [[23851, 19983, 18034, 17195, 15731, 15089, 13950, 12532],
     [12121, 11035, 10414, 10128, 9602, 9359, 8908, 8307],
     [8125, 7622, 7320, 7178, 6910, 6783, 6543, 6213],
     [6110, 5822, 5644, 5559, 5397, 5319, 5170, 4962],
     [4896, 4709, 4592, 4536, 4427, 4375, 4273, 4130],
     [4085, 3953, 3871, 3831, 3753, 3715, 3642, 3537],
     [3504, 3407, 3345, 3315, 3257, 3228, 3173, 3093],
     [3068, 2993, 2945, 2922, 2877, 2854, 2811, 2748],
     [2728, 2669, 2631, 2612, 2576, 2558, 2523, 2472],
     [2456, 2408, 2377, 2362, 2332, 2317, 2289, 2247],
     [2233, 2194, 2168, 2155, 2130, 2118, 2094, 2059],
     [2048, 2014, 1992, 1982, 1961, 1950, 1930, 1900],
     [1891, 1862, 1843, 1834, 1816, 1807, 1790, 1764],
     [1756, 1731, 1715, 1707, 1691, 1684, 1669, 1646],
     [1639, 1617, 1603, 1596, 1583, 1576, 1563, 1543],
     [1537, 1518, 1505, 1499, 1487, 1481, 1469, 1452],
     [1446, 1430, 1419, 1413, 1403, 1397, 1387, 1371],
     [1366, 1351, 1341, 1337, 1327, 1322, 1313, 1299],
     [1294, 1281, 1272, 1268, 1259, 1255, 1246, 1234],
     [1230, 1218, 1210, 1206, 1198, 1194, 1186, 1175],
     [1171, 1160, 1153, 1149, 1142, 1139, 1132, 1121],
     [1118, 1108, 1101, 1098, 1092, 1088, 1082, 1073],
     [1070, 1060, 1054, 1051, 1045, 1042, 1037, 1028],
     [1025, 1017, 1011, 1008, 1003, 1000, 995, 987], [984, 976, 971, 969, 964, 961, 956, 949],
     [946, 939, 934, 932, 927, 925, 920, 913], [911, 905, 900, 898, 894, 891, 887, 881],
     [879, 872, 868, 866, 862, 860, 856, 850]]"

definition wheel_739399_1 :: "nat list list" where
  "wheel_739399_1 =
    [[23851, 19983, 18034, 17195, 15731, 15089, 13950, 12532],
     [12121, 11035, 10414, 10128, 9602, 9359, 8908, 8307],
     [8125, 7622, 7320, 7178, 6910, 6783, 6543, 6213],
     [6110, 5822, 5644, 5559, 5397, 5319, 5170, 4962],
     [4896, 4709, 4592, 4536, 4427, 4375, 4273, 4130],
     [4085, 3954, 3871, 3831, 3753, 3715, 3642, 3537],
     [3504, 3407, 3345, 3315, 3257, 3228, 3173, 3093],
     [3068, 2993, 2945, 2922, 2877, 2854, 2811, 2748],
     [2728, 2669, 2631, 2612, 2576, 2558, 2523, 2472],
     [2456, 2408, 2377, 2362, 2332, 2317, 2289, 2247],
     [2233, 2194, 2168, 2155, 2130, 2118, 2094, 2059],
     [2048, 2014, 1992, 1982, 1961, 1950, 1930, 1900],
     [1891, 1862, 1843, 1834, 1816, 1807, 1790, 1764],
     [1756, 1731, 1715, 1707, 1691, 1684, 1669, 1646],
     [1639, 1617, 1603, 1596, 1583, 1576, 1563, 1543],
     [1537, 1518, 1505, 1499, 1487, 1481, 1469, 1452],
     [1446, 1430, 1419, 1413, 1403, 1397, 1387, 1371],
     [1366, 1351, 1341, 1337, 1327, 1322, 1313, 1299],
     [1294, 1281, 1272, 1268, 1259, 1255, 1246, 1234],
     [1230, 1218, 1210, 1206, 1198, 1194, 1186, 1175],
     [1171, 1160, 1153, 1149, 1142, 1139, 1132, 1122],
     [1118, 1108, 1101, 1098, 1092, 1088, 1082, 1073],
     [1070, 1060, 1054, 1051, 1045, 1042, 1037, 1028],
     [1025, 1017, 1011, 1008, 1003, 1000, 995, 987], [984, 976, 971, 969, 964, 961, 956, 949],
     [946, 939, 934, 932, 927, 925, 920, 913], [911, 905, 900, 898, 894, 891, 887, 881],
     [879, 872, 868, 866, 862, 860, 856, 850]]"

definition certs_6 :: "cert list" where
  "certs_6 =
    [Composite_cert 3 77777,
     Composite_cert 353 661,
     Composite_cert 3 77779,
     Composite_cert 19 12281,
     Composite_cert 3 77797,
     Composite_cert 17 13729,
     Composite_cert 3 77799,
     Composite_cert 31 7529,
     Composite_cert 3 77997,
     Prime_cert [116996, 77997, 46798, 33427, 21272, 17999, 13764, 12315, 10173, 8068] (wheel_233993_1),
     Composite_cert 3 77999,
     Composite_cert 211 1109,
     Composite_cert 3 79977,
     Prime_cert [119966, 79977, 47986, 34276, 21812, 18456, 14113, 12628, 10431, 8273] (wheel_239933_1),
     Composite_cert 3 79979,
     Composite_cert 7 34277,
     Composite_cert 3 97997,
     Composite_cert 7 41999,
     Composite_cert 3 97999,
     Prime_cert [146999, 97999, 58799, 41999, 26727, 22615, 17294, 15473, 12782, 10137] (wheel_293999_1),
     Composite_cert 3 103977,
     Composite_cert 17 18349,
     Composite_cert 3 103979,
     Composite_cert 47 6637,
     Composite_cert 3 104597,
     Composite_cert 167 1879,
     Composite_cert 3 104599,
     Composite_cert 311 1009,
     Composite_cert 3 124457,
     Composite_cert 7 53339,
     Composite_cert 3 124459,
     Prime_cert [186689, 124459, 74675, 53339, 33943, 28721, 21963, 19651, 16233, 12875] (wheel_373379_1),
     Composite_cert 67 5573,
     Prime_cert [186696, 124464, 74678, 53341, 33944, 28722, 21964, 19652, 16234, 12875] (wheel_373393_1),
     Composite_cert 101 3697,
     Composite_cert 13 28723,
     Composite_cert 3 124657,
     Composite_cert 367 1019,
     Composite_cert 3 124659,
     Composite_cert 47 7957,
     Composite_cert 3 197977,
     Prime_cert [296966, 197977, 118786, 84847, 53993, 45687, 34937, 31259, 25823, 20480] (wheel_593933_1),
     Composite_cert 3 197979,
     Composite_cert 47 12637,
     Composite_cert 3 197997,
     Prime_cert [296996, 197997, 118798, 84856, 53999, 45691, 34940, 31262, 25825, 20482] (wheel_593993_1),
     Composite_cert 3 197999,
     Composite_cert 7 84857,
     Composite_cert 3 239777,
     Prime_cert [359666, 239777, 143866, 102761, 65393, 55333, 42313, 37859, 31275, 24804] (wheel_719333_1),
     Composite_cert 3 239779,
     Composite_cert 431 1669,
     Composite_cert 3 244437,
     Composite_cert 7 104759,
     Composite_cert 3 244439,
     Composite_cert 653 1123,
     Prime_cert [369695, 246463, 147878, 105627, 67217, 56876, 43493, 38915, 32147, 25496] (wheel_739391_1),
     Prime_cert [369696, 246464, 147878, 105627, 67217, 56876, 43493, 38915, 32147, 25496] (wheel_739393_1),
     Prime_cert [369698, 246465, 147879, 105628, 67217, 56876, 43493, 38915, 32147, 25496] (wheel_739397_1),
     Prime_cert [369699, 246466, 147879, 105628, 67218, 56876, 43494, 38915, 32147, 25496] (wheel_739399_1)]"

definition wheel_2339933_1 :: "nat list list" where
  "wheel_2339933_1 =
    [[75481, 63241, 57071, 54417, 49785, 47753, 44149, 39659],
     [38359, 34924, 32956, 32053, 30388, 29619, 28191, 26291],
     [25713, 24123, 23167, 22717, 21868, 21467, 20707, 19663],
     [19338, 18424, 17862, 17593, 17079, 16834, 16363, 15704],
     [15496, 14904, 14533, 14355, 14011, 13845, 13525, 13072],
     [12927, 12513, 12250, 12124, 11877, 11758, 11526, 11195],
     [11089, 10783, 10587, 10492, 10308, 10218, 10042, 9790],
     [9709, 9473, 9322, 9248, 9104, 9034, 8897, 8698],
     [8634, 8447, 8327, 8268, 8153, 8096, 7986, 7825],
     [7773, 7621, 7523, 7475, 7381, 7335, 7244, 7112],
     [7069, 6943, 6861, 6821, 6743, 6704, 6628, 6517],
     [6481, 6375, 6307, 6273, 6206, 6173, 6109, 6015],
     [5984, 5894, 5835, 5806, 5749, 5721, 5665, 5584],
     [5558, 5479, 5429, 5404, 5354, 5330, 5282, 5211],
     [5188, 5120, 5075, 5053, 5010, 4989, 4947, 4885],
     [4864, 4804, 4765, 4746, 4708, 4689, 4651, 4597],
     [4579, 4525, 4491, 4474, 4440, 4423, 4390, 4341],
     [4325, 4277, 4246, 4231, 4200, 4185, 4156, 4112],
     [4097, 4055, 4027, 4013, 3986, 3972, 3945, 3906],
     [3893, 3854, 3829, 3817, 3792, 3780, 3755, 3720],
     [3708, 3673, 3650, 3639, 3616, 3605, 3583, 3550],
     [3539, 3508, 3487, 3476, 3456, 3446, 3425, 3396],
     [3386, 3357, 3337, 3328, 3309, 3300, 3281, 3254],
     [3245, 3218, 3201, 3192, 3174, 3166, 3149, 3124],
     [3115, 3091, 3074, 3066, 3050, 3042, 3027, 3003],
     [2996, 2973, 2958, 2950, 2935, 2928, 2913, 2892],
     [2885, 2864, 2850, 2843, 2829, 2822, 2809, 2788],
     [2782, 2762, 2749, 2743, 2730, 2724, 2711, 2692],
     [2686, 2668, 2655, 2649, 2638, 2632, 2620, 2602],
     [2597, 2579, 2568, 2562, 2551, 2546, 2535, 2518],
     [2513, 2497, 2486, 2481, 2470, 2465, 2455, 2439],
     [2434, 2419, 2409, 2404, 2395, 2390, 2380, 2365],
     [2361, 2346, 2337, 2332, 2323, 2319, 2309, 2296],
     [2291, 2278, 2269, 2265, 2256, 2252, 2243, 2230],
     [2226, 2213, 2205, 2201, 2193, 2188, 2180, 2168],
     [2164, 2152, 2144, 2140, 2133, 2129, 2121, 2109],
     [2106, 2094, 2087, 2083, 2076, 2072, 2065, 2054],
     [2050, 2040, 2032, 2029, 2022, 2018, 2011, 2001],
     [1998, 1988, 1981, 1977, 1971, 1967, 1961, 1951],
     [1948, 1938, 1932, 1929, 1922, 1919, 1913, 1903],
     [1900, 1891, 1885, 1882, 1876, 1873, 1867, 1858],
     [1855, 1846, 1841, 1838, 1832, 1829, 1823, 1815],
     [1812, 1804, 1798, 1795, 1790, 1787, 1782, 1774],
     [1771, 1763, 1758, 1755, 1750, 1747, 1742, 1734],
     [1732, 1724, 1719, 1716, 1711, 1709, 1704, 1696],
     [1694, 1687, 1682, 1679, 1674, 1672, 1667, 1660],
     [1658, 1651, 1646, 1644, 1639, 1637, 1632, 1626],
     [1623, 1617, 1612, 1610, 1605, 1603, 1599, 1592],
     [1590, 1584, 1579, 1577, 1573, 1571, 1567, 1560],
     [1558, 1552, 1548, 1546, 1542, 1540, 1536, 1530]]"

definition wheel_2399333_1 :: "nat list list" where
  "wheel_2399333_1 =
    [[77397, 64846, 58520, 55798, 51049, 48965, 45270, 40666],
     [39333, 35810, 33793, 32867, 31160, 30371, 28907, 26958],
     [26366, 24735, 23755, 23294, 22423, 22012, 21233, 20162],
     [19829, 18892, 18315, 18040, 17513, 17261, 16778, 16102],
     [15889, 15282, 14902, 14719, 14367, 14197, 13868, 13404],
     [13255, 12830, 12561, 12431, 12179, 12056, 11819, 11480],
     [11371, 11056, 10856, 10759, 10569, 10477, 10297, 10039],
     [9955, 9713, 9559, 9483, 9335, 9263, 9122, 8919],
     [8853, 8661, 8538, 8478, 8360, 8302, 8188, 8024],
     [7971, 7815, 7714, 7665, 7568, 7521, 7428, 7292],
     [7248, 7119, 7036, 6995, 6914, 6874, 6796, 6683],
     [6646, 6537, 6467, 6432, 6364, 6330, 6264, 6167],
     [6136, 6043, 5983, 5953, 5895, 5866, 5809, 5726],
     [5699, 5619, 5566, 5541, 5490, 5465, 5416, 5343],
     [5320, 5250, 5204, 5182, 5137, 5115, 5072, 5009],
     [4988, 4926, 4886, 4866, 4827, 4808, 4770, 4713],
     [4695, 4640, 4605, 4587, 4552, 4535, 4501, 4451],
     [4434, 4386, 4354, 4338, 4307, 4292, 4261, 4216],
     [4201, 4158, 4129, 4115, 4087, 4073, 4046, 4005],
     [3992, 3952, 3926, 3914, 3888, 3876, 3851, 3814],
     [3802, 3766, 3743, 3731, 3708, 3696, 3674, 3640],
     [3629, 3597, 3575, 3565, 3544, 3533, 3512, 3482],
     [3472, 3442, 3422, 3412, 3393, 3384, 3365, 3337],
     [3327, 3300, 3282, 3273, 3255, 3246, 3229, 3203],
     [3194, 3169, 3152, 3144, 3128, 3120, 3103, 3080],
     [3072, 3048, 3033, 3025, 3010, 3002, 2987, 2965],
     [2958, 2936, 2922, 2915, 2901, 2894, 2880, 2859],
     [2852, 2832, 2819, 2812, 2799, 2793, 2780, 2761],
     [2754, 2735, 2723, 2717, 2704, 2698, 2686, 2668],
     [2662, 2645, 2633, 2627, 2616, 2610, 2599, 2582],
     [2577, 2560, 2549, 2544, 2533, 2528, 2517, 2501],
     [2496, 2481, 2470, 2465, 2455, 2450, 2440, 2426],
     [2421, 2406, 2396, 2392, 2382, 2377, 2368, 2354],
     [2349, 2336, 2327, 2322, 2313, 2309, 2300, 2287],
     [2282, 2269, 2261, 2257, 2248, 2244, 2236, 2223],
     [2219, 2207, 2199, 2195, 2187, 2183, 2175, 2163],
     [2159, 2148, 2140, 2136, 2128, 2125, 2117, 2106],
     [2102, 2091, 2084, 2080, 2073, 2070, 2063, 2052],
     [2048, 2038, 2031, 2028, 2021, 2017, 2011, 2001],
     [1997, 1987, 1981, 1978, 1971, 1968, 1961, 1952],
     [1949, 1939, 1933, 1930, 1924, 1921, 1914, 1905],
     [1902, 1893, 1887, 1884, 1878, 1875, 1870, 1861],
     [1858, 1849, 1844, 1841, 1835, 1832, 1827, 1819],
     [1816, 1808, 1802, 1799, 1794, 1791, 1786, 1778],
     [1775, 1768, 1762, 1760, 1755, 1752, 1747, 1739],
     [1737, 1729, 1724, 1722, 1717, 1715, 1710, 1702],
     [1700, 1693, 1688, 1686, 1681, 1679, 1674, 1667],
     [1665, 1658, 1653, 1651, 1646, 1644, 1640, 1633],
     [1631, 1624, 1620, 1617, 1613, 1611, 1607, 1600],
     [1598, 1592, 1587, 1585, 1581, 1579, 1575, 1569],
     [1567, 1561, 1556, 1554, 1550, 1548, 1544, 1539]]"

definition wheel_2939999_1 :: "nat list list" where
  "wheel_2939999_1 =
    [[94838, 79459, 71707, 68372, 62553, 59999, 55471, 49830],
     [48196, 43880, 41408, 40273, 38181, 37215, 35421, 33033],
     [32307, 30309, 29108, 28543, 27476, 26972, 26017, 24705],
     [24297, 23149, 22442, 22105, 21459, 21151, 20559, 19731],
     [19470, 18726, 18260, 18036, 17604, 17396, 16994, 16424],
     [16243, 15721, 15392, 15233, 14923, 14773, 14482, 14066],
     [13933, 13548, 13303, 13183, 12951, 12838, 12618, 12301],
     [12199, 11902, 11713, 11620, 11439, 11351, 11178, 10929],
     [10848, 10613, 10462, 10388, 10243, 10173, 10034, 9832],
     [9767, 9576, 9453, 9392, 9274, 9216, 9102, 8936],
     [8882, 8724, 8621, 8571, 8472, 8424, 8328, 8189],
     [8144, 8010, 7924, 7882, 7798, 7757, 7676, 7557],
     [7519, 7405, 7331, 7295, 7223, 7188, 7118, 7016],
     [6983, 6885, 6821, 6789, 6727, 6697, 6636, 6547],
     [6518, 6433, 6377, 6349, 6295, 6268, 6215, 6137],
     [6112, 6036, 5987, 5963, 5915, 5891, 5844, 5776],
     [5753, 5686, 5642, 5621, 5578, 5557, 5515, 5454],
     [5434, 5374, 5335, 5316, 5278, 5259, 5222, 5166],
     [5148, 5095, 5060, 5042, 5008, 4991, 4957, 4908],
     [4891, 4843, 4811, 4796, 4764, 4749, 4719, 4674],
     [4659, 4615, 4586, 4572, 4544, 4530, 4502, 4461],
     [4447, 4407, 4381, 4368, 4342, 4329, 4304, 4267],
     [4254, 4218, 4194, 4182, 4158, 4146, 4123, 4089],
     [4077, 4044, 4021, 4010, 3989, 3978, 3956, 3925],
     [3914, 3883, 3863, 3853, 3833, 3823, 3803, 3774],
     [3764, 3735, 3716, 3707, 3688, 3679, 3661, 3634],
     [3625, 3598, 3580, 3572, 3555, 3546, 3529, 3504],
     [3495, 3471, 3454, 3446, 3430, 3422, 3406, 3383],
     [3375, 3352, 3337, 3329, 3314, 3307, 3292, 3270],
     [3263, 3241, 3227, 3220, 3206, 3199, 3185, 3164],
     [3157, 3137, 3124, 3117, 3104, 3097, 3084, 3065],
     [3059, 3040, 3027, 3021, 3009, 3003, 2990, 2972],
     [2966, 2948, 2937, 2931, 2919, 2913, 2902, 2885],
     [2879, 2862, 2851, 2846, 2835, 2829, 2818, 2802],
     [2797, 2781, 2770, 2765, 2755, 2750, 2739, 2724],
     [2719, 2704, 2694, 2689, 2680, 2675, 2665, 2651],
     [2646, 2632, 2622, 2617, 2608, 2604, 2594, 2581],
     [2576, 2563, 2554, 2549, 2541, 2536, 2527, 2514],
     [2510, 2497, 2489, 2485, 2476, 2472, 2464, 2452],
     [2447, 2435, 2427, 2423, 2415, 2411, 2403, 2392],
     [2388, 2376, 2369, 2365, 2357, 2353, 2346, 2335],
     [2331, 2320, 2313, 2309, 2302, 2298, 2291, 2280],
     [2277, 2266, 2259, 2256, 2249, 2245, 2239, 2228],
     [2225, 2215, 2208, 2205, 2198, 2195, 2189, 2179],
     [2176, 2166, 2160, 2157, 2150, 2147, 2141, 2131],
     [2128, 2119, 2113, 2110, 2104, 2101, 2095, 2086],
     [2083, 2074, 2068, 2066, 2060, 2057, 2051, 2043],
     [2040, 2031, 2026, 2023, 2017, 2015, 2009, 2001],
     [1998, 1990, 1985, 1982, 1977, 1974, 1969, 1961],
     [1958, 1950, 1945, 1943, 1938, 1935, 1930, 1922],
     [1920, 1912, 1907, 1905, 1900, 1897, 1893, 1885],
     [1883, 1876, 1871, 1869, 1864, 1861, 1857, 1850],
     [1847, 1840, 1836, 1834, 1829, 1827, 1822, 1815],
     [1813, 1807, 1802, 1800, 1795, 1793, 1789, 1782],
     [1780, 1774, 1770, 1767, 1763, 1761, 1757, 1751],
     [1748, 1742, 1738, 1736, 1732, 1730, 1726, 1720],
     [1718, 1712, 1708, 1706, 1702, 1700, 1696, 1690]]"

definition wheel_3733799_1 :: "nat list list" where
  "wheel_3733799_1 =
    [[120445, 100913, 91068, 86832, 79442, 76199, 70449, 63284],
     [61209, 55728, 52588, 51147, 48490, 47263, 44985, 41952],
     [41030, 38492, 36968, 36250, 34895, 34255, 33042, 31376],
     [30857, 29399, 28502, 28073, 27254, 26861, 26110, 25059],
     [24727, 23782, 23191, 22906, 22358, 22093, 21582, 20859],
     [20628, 19966, 19548, 19346, 18953, 18762, 18393, 17865],
     [17695, 17206, 16895, 16743, 16448, 16304, 16024, 15622],
     [15492, 15116, 14875, 14758, 14528, 14416, 14196, 13880],
     [13777, 13479, 13287, 13193, 13009, 12919, 12743, 12487],
     [12404, 12162, 12005, 11929, 11778, 11704, 11559, 11348],
     [11280, 11079, 10949, 10885, 10760, 10698, 10577, 10400],
     [10342, 10173, 10064, 10010, 9903, 9851, 9748, 9598],
     [9549, 9405, 9311, 9265, 9173, 9129, 9040, 8911],
     [8868, 8744, 8663, 8623, 8544, 8505, 8428, 8315],
     [8278, 8170, 8099, 8064, 7995, 7961, 7893, 7794],
     [7762, 7666, 7604, 7573, 7512, 7482, 7423, 7335],
     [7306, 7222, 7166, 7139, 7085, 7058, 7005, 6927],
     [6901, 6825, 6776, 6751, 6703, 6679, 6631, 6562],
     [6539, 6471, 6426, 6404, 6360, 6339, 6296, 6233],
     [6212, 6151, 6110, 6091, 6051, 6031, 5993, 5936],
     [5917, 5861, 5824, 5806, 5770, 5753, 5717, 5665],
     [5648, 5597, 5564, 5547, 5515, 5498, 5466, 5419],
     [5403, 5356, 5326, 5311, 5281, 5266, 5236, 5193],
     [5178, 5135, 5107, 5093, 5066, 5052, 5025, 4985],
     [4971, 4932, 4906, 4893, 4868, 4855, 4830, 4793],
     [4780, 4744, 4720, 4708, 4684, 4673, 4649, 4615],
     [4603, 4570, 4547, 4536, 4514, 4503, 4482, 4450],
     [4439, 4408, 4387, 4377, 4356, 4346, 4326, 4296],
     [4286, 4257, 4238, 4228, 4209, 4199, 4181, 4153],
     [4144, 4116, 4098, 4089, 4071, 4062, 4045, 4019],
     [4010, 3984, 3967, 3959, 3942, 3934, 3917, 3893],
     [3885, 3861, 3845, 3837, 3821, 3813, 3798, 3775],
     [3767, 3745, 3730, 3722, 3707, 3700, 3685, 3664],
     [3657, 3635, 3621, 3614, 3600, 3593, 3579, 3559],
     [3552, 3532, 3519, 3512, 3499, 3492, 3479, 3460],
     [3454, 3434, 3422, 3416, 3403, 3397, 3385, 3366],
     [3360, 3342, 3330, 3324, 3313, 3307, 3295, 3278],
     [3272, 3255, 3243, 3238, 3227, 3221, 3210, 3194],
     [3188, 3172, 3161, 3156, 3145, 3140, 3129, 3114],
     [3108, 3093, 3083, 3078, 3068, 3063, 3052, 3038],
     [3033, 3018, 3008, 3003, 2994, 2989, 2979, 2965],
     [2960, 2946, 2937, 2933, 2923, 2919, 2910, 2896],
     [2892, 2878, 2869, 2865, 2856, 2852, 2843, 2830],
     [2826, 2813, 2805, 2801, 2792, 2788, 2780, 2767],
     [2763, 2751, 2743, 2739, 2731, 2727, 2719, 2707],
     [2703, 2691, 2684, 2680, 2672, 2668, 2661, 2649],
     [2646, 2635, 2627, 2623, 2616, 2612, 2605, 2594],
     [2591, 2580, 2573, 2569, 2562, 2559, 2552, 2541],
     [2538, 2527, 2521, 2517, 2510, 2507, 2500, 2490],
     [2487, 2477, 2471, 2467, 2461, 2458, 2451, 2441],
     [2438, 2429, 2422, 2419, 2413, 2410, 2404, 2394],
     [2391, 2382, 2376, 2373, 2367, 2364, 2358, 2349],
     [2346, 2338, 2332, 2329, 2323, 2320, 2314, 2306],
     [2303, 2294, 2289, 2286, 2280, 2278, 2272, 2264],
     [2261, 2253, 2247, 2245, 2239, 2237, 2231, 2223],
     [2221, 2213, 2208, 2205, 2200, 2197, 2192, 2184],
     [2182, 2174, 2169, 2167, 2162, 2159, 2154, 2147],
     [2144, 2137, 2132, 2129, 2125, 2122, 2117, 2110],
     [2108, 2101, 2096, 2094, 2089, 2087, 2082, 2075],
     [2073, 2066, 2061, 2059, 2054, 2052, 2048, 2041],
     [2039, 2032, 2028, 2025, 2021, 2019, 2015, 2008],
     [2006, 1999, 1995, 1993, 1989, 1987, 1982, 1976],
     [1974, 1968, 1964, 1962, 1957, 1955, 1951, 1945],
     [1943, 1937, 1933, 1931, 1927, 1925, 1921, 1915]]"

definition wheel_5939333_1 :: "nat list list" where
  "wheel_5939333_1 =
    [[191591, 160522, 144861, 138124, 126368, 121210, 112062, 100666],
     [97366, 88646, 83652, 81360, 77134, 75181, 71558, 66734],
     [65267, 61230, 58805, 57663, 55507, 54489, 52560, 49910],
     [49085, 46766, 45338, 44656, 43352, 42729, 41533, 39861],
     [39333, 37830, 36890, 36437, 35564, 35143, 34331, 33180],
     [32813, 31761, 31095, 30773, 30148, 29845, 29257, 28417],
     [28148, 27370, 26874, 26633, 26164, 25935, 25490, 24850],
     [24644, 24045, 23662, 23475, 23110, 22931, 22583, 22079],
     [21916, 21441, 21136, 20987, 20694, 20551, 20270, 19863],
     [19732, 19346, 19097, 18975, 18736, 18618, 18388, 18052],
     [17943, 17624, 17417, 17315, 17116, 17018, 16825, 16544],
     [16452, 16183, 16008, 15923, 15754, 15671, 15507, 15268],
     [15190, 14960, 14811, 14737, 14592, 14521, 14380, 14175],
     [14107, 13909, 13780, 13716, 13591, 13529, 13407, 13227],
     [13169, 12996, 12883, 12827, 12718, 12663, 12556, 12399],
     [12347, 12195, 12096, 12047, 11950, 11902, 11807, 11668],
     [11622, 11488, 11399, 11356, 11270, 11227, 11143, 11019],
     [10978, 10858, 10779, 10740, 10663, 10624, 10549, 10438],
     [10401, 10293, 10222, 10187, 10118, 10083, 10015, 9915],
     [9882, 9784, 9720, 9688, 9626, 9595, 9533, 9442],
     [9412, 9323, 9265, 9236, 9179, 9151, 9095, 9012],
     [8985, 8904, 8851, 8825, 8773, 8747, 8695, 8620],
     [8595, 8521, 8472, 8448, 8400, 8377, 8330, 8260],
     [8237, 8169, 8124, 8102, 8058, 8036, 7993, 7929],
     [7908, 7845, 7804, 7784, 7743, 7723, 7683, 7624],
     [7604, 7546, 7508, 7489, 7452, 7433, 7396, 7341],
     [7323, 7269, 7234, 7216, 7181, 7164, 7130, 7079],
     [7062, 7012, 6979, 6962, 6930, 6914, 6882, 6834],
     [6818, 6772, 6741, 6726, 6695, 6680, 6650, 6606],
     [6591, 6548, 6519, 6505, 6476, 6462, 6434, 6393],
     [6379, 6338, 6311, 6298, 6271, 6258, 6232, 6193],
     [6180, 6142, 6116, 6104, 6079, 6066, 6042, 6005],
     [5993, 5957, 5933, 5921, 5898, 5886, 5863, 5828],
     [5817, 5783, 5760, 5749, 5727, 5716, 5694, 5661],
     [5651, 5619, 5597, 5587, 5566, 5555, 5535, 5504],
     [5494, 5463, 5443, 5433, 5414, 5404, 5384, 5355],
     [5345, 5317, 5298, 5288, 5270, 5260, 5242, 5214],
     [5205, 5178, 5160, 5151, 5133, 5124, 5106, 5080],
     [5072, 5046, 5029, 5020, 5003, 4995, 4978, 4953],
     [4945, 4920, 4904, 4896, 4880, 4872, 4856, 4832],
     [4824, 4801, 4785, 4778, 4762, 4755, 4740, 4717],
     [4710, 4687, 4672, 4665, 4651, 4643, 4629, 4607],
     [4600, 4579, 4565, 4558, 4544, 4537, 4523, 4502],
     [4496, 4475, 4462, 4455, 4442, 4435, 4422, 4402],
     [4396, 4376, 4363, 4357, 4344, 4338, 4325, 4306],
     [4300, 4282, 4269, 4263, 4251, 4245, 4233, 4215],
     [4209, 4191, 4179, 4173, 4162, 4156, 4144, 4127],
     [4121, 4104, 4093, 4087, 4076, 4070, 4059, 4043],
     [4037, 4021, 4010, 4004, 3994, 3988, 3978, 3962],
     [3956, 3941, 3930, 3925, 3915, 3910, 3899, 3884],
     [3879, 3864, 3854, 3849, 3839, 3834, 3824, 3809],
     [3804, 3790, 3780, 3775, 3766, 3761, 3751, 3737],
     [3733, 3719, 3709, 3705, 3695, 3691, 3682, 3668],
     [3663, 3650, 3641, 3637, 3628, 3623, 3614, 3601],
     [3597, 3584, 3575, 3571, 3562, 3558, 3550, 3537],
     [3533, 3520, 3512, 3508, 3499, 3495, 3487, 3475],
     [3471, 3459, 3451, 3447, 3439, 3435, 3427, 3415],
     [3411, 3399, 3391, 3388, 3380, 3376, 3368, 3357],
     [3353, 3342, 3334, 3331, 3323, 3319, 3312, 3301],
     [3297, 3286, 3279, 3275, 3268, 3265, 3257, 3247],
     [3243, 3233, 3226, 3222, 3215, 3212, 3205, 3194],
     [3191, 3181, 3174, 3171, 3164, 3160, 3154, 3144],
     [3140, 3130, 3124, 3121, 3114, 3111, 3104, 3095],
     [3091, 3082, 3075, 3072, 3066, 3063, 3056, 3047],
     [3044, 3034, 3028, 3025, 3019, 3016, 3010, 3001],
     [2998, 2989, 2983, 2980, 2974, 2971, 2965, 2956],
     [2953, 2944, 2938, 2935, 2930, 2927, 2921, 2912],
     [2910, 2901, 2895, 2893, 2887, 2884, 2878, 2870],
     [2867, 2859, 2854, 2851, 2845, 2843, 2837, 2829],
     [2826, 2818, 2813, 2810, 2805, 2802, 2797, 2789],
     [2787, 2779, 2774, 2771, 2766, 2763, 2758, 2750],
     [2748, 2740, 2735, 2733, 2728, 2725, 2720, 2713],
     [2710, 2703, 2698, 2696, 2691, 2688, 2683, 2676],
     [2674, 2666, 2662, 2659, 2655, 2652, 2647, 2640],
     [2638, 2631, 2626, 2624, 2619, 2617, 2612, 2606],
     [2603, 2596, 2592, 2590, 2585, 2583, 2578, 2572],
     [2570, 2563, 2558, 2556, 2552, 2550, 2545, 2539],
     [2537, 2530, 2526, 2524, 2519, 2517, 2513, 2507],
     [2504, 2498, 2494, 2492, 2488, 2486, 2481, 2475],
     [2473, 2467, 2463, 2461, 2457, 2455, 2451, 2445],
     [2443, 2437, 2433, 2431, 2427, 2425, 2421, 2415]]"

definition wheel_7393913_1 :: "nat list list" where
  "wheel_7393913_1 =
    [[238513, 199835, 180339, 171951, 157317, 150896, 139507, 125320],
     [121211, 110356, 104139, 101286, 96024, 93593, 89083, 83077],
     [81251, 76225, 73207, 71785, 69101, 67834, 65432, 62133],
     [61106, 58219, 56442, 55593, 53970, 53193, 51705, 49623],
     [48966, 47094, 45924, 45361, 44274, 43750, 42739, 41306],
     [40850, 39539, 38711, 38310, 37532, 37155, 36423, 35377],
     [35042, 34073, 33456, 33156, 32572, 32287, 31733, 30936],
     [30680, 29934, 29457, 29224, 28770, 28547, 28113, 27486],
     [27283, 26692, 26312, 26126, 25762, 25584, 25235, 24728],
     [24564, 24084, 23774, 23622, 23324, 23178, 22891, 22473],
     [22338, 21940, 21683, 21556, 21308, 21185, 20945, 20595],
     [20481, 20146, 19929, 19822, 19612, 19509, 19305, 19007],
     [18910, 18624, 18438, 18347, 18166, 18078, 17902, 17646],
     [17562, 17315, 17155, 17076, 16919, 16842, 16690, 16467],
     [16394, 16179, 16038, 15969, 15832, 15765, 15631, 15436],
     [15371, 15182, 15058, 14997, 14877, 14817, 14699, 14526],
     [14469, 14301, 14191, 14137, 14030, 13977, 13872, 13717],
     [13667, 13517, 13419, 13370, 13274, 13227, 13133, 12994],
     [12949, 12814, 12726, 12682, 12596, 12553, 12468, 12343],
     [12302, 12181, 12101, 12061, 11983, 11944, 11868, 11755],
     [11717, 11607, 11534, 11499, 11427, 11392, 11322, 11219],
     [11185, 11085, 11019, 10986, 10921, 10889, 10825, 10731],
     [10700, 10608, 10547, 10517, 10458, 10428, 10370, 10283],
     [10255, 10170, 10114, 10087, 10032, 10005, 9951, 9871],
     [9845, 9767, 9716, 9690, 9640, 9614, 9565, 9491],
     [9467, 9395, 9347, 9323, 9277, 9253, 9207, 9139],
     [9117, 9050, 9005, 8984, 8940, 8919, 8876, 8812],
     [8791, 8729, 8688, 8668, 8627, 8607, 8567, 8508],
     [8488, 8430, 8392, 8373, 8335, 8317, 8279, 8224],
     [8206, 8152, 8116, 8098, 8063, 8045, 8010, 7959],
     [7941, 7891, 7857, 7840, 7807, 7791, 7758, 7710],
     [7693, 7646, 7614, 7599, 7567, 7552, 7521, 7476],
     [7461, 7416, 7386, 7371, 7342, 7327, 7299, 7256],
     [7241, 7199, 7171, 7157, 7130, 7116, 7089, 7048],
     [7035, 6995, 6968, 6955, 6929, 6916, 6890, 6852],
     [6839, 6802, 6777, 6764, 6740, 6727, 6703, 6667],
     [6655, 6619, 6595, 6584, 6560, 6549, 6525, 6491],
     [6480, 6446, 6423, 6412, 6390, 6379, 6357, 6324],
     [6314, 6281, 6260, 6250, 6229, 6218, 6197, 6166],
     [6156, 6125, 6105, 6095, 6075, 6065, 6045, 6016],
     [6006, 5977, 5958, 5948, 5929, 5919, 5900, 5872],
     [5863, 5835, 5817, 5808, 5790, 5781, 5762, 5736],
     [5727, 5700, 5683, 5674, 5657, 5648, 5631, 5605],
     [5597, 5571, 5555, 5546, 5530, 5521, 5505, 5481],
     [5472, 5448, 5432, 5424, 5408, 5400, 5385, 5361],
     [5354, 5330, 5315, 5307, 5292, 5285, 5270, 5247],
     [5240, 5218, 5203, 5196, 5181, 5174, 5159, 5138],
     [5131, 5109, 5095, 5088, 5074, 5067, 5053, 5033],
     [5026, 5006, 4992, 4985, 4972, 4965, 4952, 4932],
     [4925, 4906, 4893, 4886, 4874, 4867, 4854, 4835],
     [4829, 4810, 4798, 4791, 4779, 4773, 4761, 4742],
     [4736, 4718, 4706, 4700, 4688, 4682, 4670, 4653],
     [4647, 4629, 4618, 4612, 4601, 4595, 4583, 4566],
     [4561, 4544, 4533, 4527, 4516, 4511, 4500, 4483],
     [4478, 4462, 4451, 4446, 4435, 4430, 4419, 4403],
     [4398, 4382, 4372, 4367, 4357, 4351, 4341, 4326],
     [4321, 4306, 4296, 4291, 4281, 4276, 4266, 4251],
     [4246, 4232, 4222, 4217, 4208, 4203, 4193, 4179],
     [4174, 4160, 4151, 4146, 4137, 4132, 4123, 4110],
     [4105, 4091, 4082, 4078, 4069, 4064, 4055, 4042],
     [4038, 4024, 4016, 4011, 4003, 3998, 3990, 3977],
     [3973, 3960, 3951, 3947, 3939, 3935, 3926, 3914],
     [3910, 3897, 3889, 3885, 3877, 3873, 3865, 3853],
     [3848, 3837, 3829, 3825, 3817, 3813, 3805, 3793],
     [3789, 3778, 3770, 3766, 3758, 3755, 3747, 3736],
     [3732, 3721, 3713, 3709, 3702, 3698, 3691, 3680],
     [3676, 3665, 3658, 3654, 3647, 3644, 3636, 3626],
     [3622, 3612, 3605, 3601, 3594, 3591, 3584, 3573],
     [3570, 3559, 3553, 3549, 3542, 3539, 3532, 3522],
     [3519, 3509, 3502, 3499, 3492, 3489, 3482, 3472],
     [3469, 3459, 3453, 3450, 3443, 3440, 3434, 3424],
     [3421, 3412, 3405, 3402, 3396, 3393, 3387, 3377],
     [3374, 3365, 3359, 3356, 3350, 3347, 3341, 3332],
     [3329, 3320, 3314, 3311, 3305, 3302, 3296, 3287],
     [3284, 3275, 3270, 3267, 3261, 3258, 3252, 3244],
     [3241, 3233, 3227, 3224, 3218, 3216, 3210, 3202],
     [3199, 3191, 3185, 3182, 3177, 3174, 3169, 3161],
     [3158, 3150, 3145, 3142, 3137, 3134, 3129, 3121],
     [3118, 3110, 3105, 3102, 3097, 3094, 3089, 3082],
     [3079, 3071, 3066, 3064, 3059, 3056, 3051, 3044],
     [3041, 3034, 3029, 3026, 3021, 3019, 3014, 3006],
     [3004, 2997, 2992, 2989, 2985, 2982, 2977, 2970],
     [2968, 2961, 2956, 2954, 2949, 2946, 2942, 2935],
     [2932, 2925, 2921, 2919, 2914, 2912, 2907, 2900],
     [2898, 2891, 2887, 2884, 2880, 2878, 2873, 2866],
     [2864, 2858, 2853, 2851, 2847, 2844, 2840, 2834],
     [2831, 2825, 2821, 2818, 2814, 2812, 2808, 2801],
     [2799, 2793, 2789, 2787, 2782, 2780, 2776, 2770],
     [2768, 2762, 2757, 2755, 2751, 2749, 2745, 2739],
     [2737, 2731, 2727, 2725, 2721, 2719, 2715, 2709]]"

definition wheel_7393931_1 :: "nat list list" where
  "wheel_7393931_1 =
    [[238513, 199835, 180339, 171951, 157317, 150896, 139508, 125320],
     [121211, 110357, 104139, 101286, 96025, 93594, 89083, 83077],
     [81251, 76226, 73207, 71785, 69102, 67834, 65433, 62133],
     [61106, 58219, 56442, 55593, 53970, 53193, 51705, 49623],
     [48966, 47095, 45925, 45361, 44275, 43751, 42739, 41306],
     [40850, 39539, 38711, 38310, 37532, 37155, 36423, 35377],
     [35042, 34073, 33456, 33156, 32572, 32287, 31733, 30936],
     [30680, 29934, 29457, 29225, 28770, 28547, 28113, 27486],
     [27283, 26692, 26312, 26126, 25762, 25584, 25235, 24728],
     [24564, 24084, 23774, 23622, 23324, 23178, 22891, 22473],
     [22338, 21940, 21683, 21556, 21308, 21186, 20945, 20595],
     [20481, 20146, 19929, 19822, 19612, 19509, 19305, 19007],
     [18910, 18624, 18438, 18347, 18166, 18078, 17902, 17646],
     [17562, 17315, 17155, 17076, 16919, 16842, 16690, 16467],
     [16394, 16179, 16038, 15969, 15832, 15765, 15631, 15436],
     [15371, 15182, 15058, 14997, 14877, 14817, 14699, 14526],
     [14469, 14301, 14191, 14137, 14030, 13977, 13872, 13717],
     [13667, 13517, 13419, 13370, 13274, 13227, 13133, 12994],
     [12949, 12814, 12726, 12682, 12596, 12553, 12468, 12343],
     [12302, 12181, 12101, 12061, 11983, 11944, 11868, 11755],
     [11717, 11607, 11534, 11499, 11428, 11392, 11323, 11219],
     [11185, 11085, 11019, 10986, 10921, 10889, 10825, 10731],
     [10700, 10608, 10547, 10517, 10458, 10428, 10370, 10283],
     [10255, 10170, 10114, 10087, 10032, 10005, 9951, 9871],
     [9845, 9767, 9716, 9690, 9640, 9614, 9565, 9491],
     [9467, 9395, 9347, 9323, 9277, 9253, 9207, 9139],
     [9117, 9050, 9006, 8984, 8940, 8919, 8876, 8812],
     [8791, 8729, 8688, 8668, 8627, 8607, 8567, 8508],
     [8489, 8430, 8392, 8373, 8335, 8317, 8279, 8224],
     [8206, 8152, 8116, 8098, 8063, 8045, 8010, 7959],
     [7941, 7891, 7857, 7840, 7807, 7791, 7758, 7710],
     [7693, 7646, 7614, 7599, 7567, 7552, 7521, 7476],
     [7461, 7416, 7386, 7371, 7342, 7327, 7299, 7256],
     [7241, 7199, 7171, 7157, 7130, 7116, 7089, 7048],
     [7035, 6995, 6968, 6955, 6929, 6916, 6890, 6852],
     [6839, 6802, 6777, 6764, 6740, 6727, 6703, 6667],
     [6655, 6619, 6595, 6584, 6560, 6549, 6525, 6491],
     [6480, 6446, 6423, 6412, 6390, 6379, 6357, 6325],
     [6314, 6282, 6260, 6250, 6229, 6218, 6197, 6166],
     [6156, 6125, 6105, 6095, 6075, 6065, 6045, 6016],
     [6006, 5977, 5958, 5948, 5929, 5919, 5900, 5872],
     [5863, 5835, 5817, 5808, 5790, 5781, 5763, 5736],
     [5727, 5700, 5683, 5674, 5657, 5648, 5631, 5605],
     [5597, 5571, 5555, 5546, 5530, 5521, 5505, 5481],
     [5472, 5448, 5432, 5424, 5408, 5400, 5385, 5361],
     [5354, 5330, 5315, 5307, 5292, 5285, 5270, 5247],
     [5240, 5218, 5203, 5196, 5181, 5174, 5159, 5138],
     [5131, 5109, 5095, 5088, 5074, 5067, 5053, 5033],
     [5026, 5006, 4992, 4985, 4972, 4965, 4952, 4932],
     [4926, 4906, 4893, 4886, 4874, 4867, 4854, 4835],
     [4829, 4810, 4798, 4791, 4779, 4773, 4761, 4742],
     [4736, 4718, 4706, 4700, 4688, 4682, 4670, 4653],
     [4647, 4629, 4618, 4612, 4601, 4595, 4583, 4566],
     [4561, 4544, 4533, 4527, 4516, 4511, 4500, 4483],
     [4478, 4462, 4451, 4446, 4435, 4430, 4419, 4403],
     [4398, 4382, 4372, 4367, 4357, 4351, 4341, 4326],
     [4321, 4306, 4296, 4291, 4281, 4276, 4266, 4251],
     [4246, 4232, 4222, 4217, 4208, 4203, 4193, 4179],
     [4175, 4160, 4151, 4146, 4137, 4132, 4123, 4110],
     [4105, 4091, 4082, 4078, 4069, 4064, 4055, 4042],
     [4038, 4025, 4016, 4011, 4003, 3998, 3990, 3977],
     [3973, 3960, 3951, 3947, 3939, 3935, 3926, 3914],
     [3910, 3897, 3889, 3885, 3877, 3873, 3865, 3853],
     [3849, 3837, 3829, 3825, 3817, 3813, 3805, 3793],
     [3789, 3778, 3770, 3766, 3758, 3755, 3747, 3736],
     [3732, 3721, 3713, 3709, 3702, 3698, 3691, 3680],
     [3676, 3665, 3658, 3654, 3647, 3644, 3636, 3626],
     [3622, 3612, 3605, 3601, 3594, 3591, 3584, 3573],
     [3570, 3559, 3553, 3549, 3542, 3539, 3532, 3522],
     [3519, 3509, 3502, 3499, 3492, 3489, 3482, 3472],
     [3469, 3459, 3453, 3450, 3443, 3440, 3434, 3424],
     [3421, 3412, 3405, 3402, 3396, 3393, 3387, 3377],
     [3374, 3365, 3359, 3356, 3350, 3347, 3341, 3332],
     [3329, 3320, 3314, 3311, 3305, 3302, 3296, 3287],
     [3284, 3275, 3270, 3267, 3261, 3258, 3252, 3244],
     [3241, 3233, 3227, 3224, 3218, 3216, 3210, 3202],
     [3199, 3191, 3185, 3182, 3177, 3174, 3169, 3161],
     [3158, 3150, 3145, 3142, 3137, 3134, 3129, 3121],
     [3118, 3110, 3105, 3102, 3097, 3094, 3089, 3082],
     [3079, 3071, 3066, 3064, 3059, 3056, 3051, 3044],
     [3041, 3034, 3029, 3026, 3021, 3019, 3014, 3006],
     [3004, 2997, 2992, 2989, 2985, 2982, 2977, 2970],
     [2968, 2961, 2956, 2954, 2949, 2946, 2942, 2935],
     [2932, 2925, 2921, 2919, 2914, 2912, 2907, 2900],
     [2898, 2891, 2887, 2884, 2880, 2878, 2873, 2866],
     [2864, 2858, 2853, 2851, 2847, 2844, 2840, 2834],
     [2831, 2825, 2821, 2818, 2814, 2812, 2808, 2801],
     [2799, 2793, 2789, 2787, 2782, 2780, 2776, 2770],
     [2768, 2762, 2757, 2755, 2751, 2749, 2745, 2739],
     [2737, 2731, 2727, 2725, 2721, 2719, 2715, 2709]]"

definition wheel_7393933_1 :: "nat list list" where
  "wheel_7393933_1 =
    [[238513, 199836, 180339, 171951, 157317, 150896, 139508, 125320],
     [121212, 110357, 104139, 101286, 96025, 93594, 89083, 83077],
     [81252, 76226, 73207, 71785, 69102, 67834, 65433, 62133],
     [61106, 58219, 56442, 55593, 53970, 53193, 51705, 49623],
     [48966, 47095, 45925, 45361, 44275, 43751, 42739, 41306],
     [40850, 39539, 38711, 38310, 37532, 37155, 36423, 35377],
     [35042, 34073, 33456, 33156, 32572, 32287, 31733, 30936],
     [30680, 29934, 29457, 29225, 28770, 28548, 28113, 27486],
     [27283, 26692, 26312, 26126, 25762, 25584, 25235, 24728],
     [24564, 24084, 23774, 23622, 23324, 23178, 22891, 22473],
     [22338, 21940, 21683, 21556, 21308, 21186, 20945, 20595],
     [20481, 20146, 19929, 19822, 19612, 19509, 19305, 19007],
     [18910, 18624, 18438, 18347, 18166, 18078, 17902, 17646],
     [17562, 17316, 17155, 17076, 16919, 16842, 16690, 16467],
     [16394, 16179, 16038, 15969, 15832, 15765, 15631, 15436],
     [15372, 15182, 15058, 14997, 14877, 14817, 14699, 14526],
     [14469, 14301, 14191, 14137, 14030, 13977, 13872, 13717],
     [13667, 13517, 13419, 13370, 13274, 13227, 13133, 12994],
     [12949, 12814, 12726, 12682, 12596, 12553, 12468, 12343],
     [12302, 12181, 12101, 12061, 11983, 11944, 11868, 11755],
     [11717, 11607, 11534, 11499, 11428, 11392, 11323, 11219],
     [11185, 11085, 11019, 10986, 10921, 10889, 10825, 10731],
     [10700, 10608, 10547, 10517, 10458, 10428, 10370, 10283],
     [10255, 10170, 10114, 10087, 10032, 10005, 9951, 9871],
     [9845, 9767, 9716, 9690, 9640, 9614, 9565, 9491],
     [9467, 9395, 9347, 9324, 9277, 9253, 9207, 9139],
     [9117, 9050, 9006, 8984, 8940, 8919, 8876, 8812],
     [8791, 8729, 8688, 8668, 8627, 8607, 8567, 8508],
     [8489, 8430, 8392, 8373, 8335, 8317, 8279, 8224],
     [8206, 8152, 8116, 8098, 8063, 8045, 8010, 7959],
     [7941, 7891, 7857, 7840, 7807, 7791, 7758, 7710],
     [7693, 7646, 7614, 7599, 7567, 7552, 7521, 7476],
     [7461, 7416, 7386, 7371, 7342, 7327, 7299, 7256],
     [7241, 7199, 7171, 7157, 7130, 7116, 7089, 7048],
     [7035, 6995, 6968, 6955, 6929, 6916, 6890, 6852],
     [6839, 6802, 6777, 6764, 6740, 6727, 6703, 6667],
     [6655, 6619, 6595, 6584, 6560, 6549, 6525, 6491],
     [6480, 6446, 6423, 6412, 6390, 6379, 6357, 6325],
     [6314, 6282, 6260, 6250, 6229, 6218, 6197, 6166],
     [6156, 6125, 6105, 6095, 6075, 6065, 6045, 6016],
     [6006, 5977, 5958, 5948, 5929, 5919, 5900, 5872],
     [5863, 5835, 5817, 5808, 5790, 5781, 5763, 5736],
     [5727, 5700, 5683, 5674, 5657, 5648, 5631, 5605],
     [5597, 5571, 5555, 5546, 5530, 5521, 5505, 5481],
     [5472, 5448, 5432, 5424, 5408, 5400, 5385, 5361],
     [5354, 5330, 5315, 5307, 5292, 5285, 5270, 5247],
     [5240, 5218, 5203, 5196, 5181, 5174, 5159, 5138],
     [5131, 5109, 5095, 5088, 5074, 5067, 5053, 5033],
     [5026, 5006, 4992, 4985, 4972, 4965, 4952, 4932],
     [4926, 4906, 4893, 4886, 4874, 4867, 4854, 4835],
     [4829, 4810, 4798, 4791, 4779, 4773, 4761, 4742],
     [4736, 4718, 4706, 4700, 4688, 4682, 4670, 4653],
     [4647, 4629, 4618, 4612, 4601, 4595, 4583, 4566],
     [4561, 4544, 4533, 4527, 4516, 4511, 4500, 4483],
     [4478, 4462, 4451, 4446, 4435, 4430, 4419, 4403],
     [4398, 4382, 4372, 4367, 4357, 4351, 4341, 4326],
     [4321, 4306, 4296, 4291, 4281, 4276, 4266, 4251],
     [4246, 4232, 4222, 4217, 4208, 4203, 4193, 4179],
     [4175, 4160, 4151, 4146, 4137, 4132, 4123, 4110],
     [4105, 4091, 4082, 4078, 4069, 4064, 4055, 4042],
     [4038, 4025, 4016, 4011, 4003, 3998, 3990, 3977],
     [3973, 3960, 3951, 3947, 3939, 3935, 3926, 3914],
     [3910, 3897, 3889, 3885, 3877, 3873, 3865, 3853],
     [3849, 3837, 3829, 3825, 3817, 3813, 3805, 3793],
     [3789, 3778, 3770, 3766, 3758, 3755, 3747, 3736],
     [3732, 3721, 3713, 3709, 3702, 3698, 3691, 3680],
     [3676, 3665, 3658, 3654, 3647, 3644, 3636, 3626],
     [3622, 3612, 3605, 3601, 3594, 3591, 3584, 3573],
     [3570, 3559, 3553, 3549, 3542, 3539, 3532, 3522],
     [3519, 3509, 3502, 3499, 3492, 3489, 3482, 3472],
     [3469, 3459, 3453, 3450, 3443, 3440, 3434, 3424],
     [3421, 3412, 3405, 3402, 3396, 3393, 3387, 3377],
     [3374, 3365, 3359, 3356, 3350, 3347, 3341, 3332],
     [3329, 3320, 3314, 3311, 3305, 3302, 3296, 3287],
     [3284, 3276, 3270, 3267, 3261, 3258, 3252, 3244],
     [3241, 3233, 3227, 3224, 3218, 3216, 3210, 3202],
     [3199, 3191, 3185, 3182, 3177, 3174, 3169, 3161],
     [3158, 3150, 3145, 3142, 3137, 3134, 3129, 3121],
     [3118, 3110, 3105, 3102, 3097, 3094, 3089, 3082],
     [3079, 3071, 3066, 3064, 3059, 3056, 3051, 3044],
     [3041, 3034, 3029, 3026, 3021, 3019, 3014, 3006],
     [3004, 2997, 2992, 2989, 2985, 2982, 2977, 2970],
     [2968, 2961, 2956, 2954, 2949, 2946, 2942, 2935],
     [2932, 2925, 2921, 2919, 2914, 2912, 2907, 2900],
     [2898, 2891, 2887, 2884, 2880, 2878, 2873, 2866],
     [2864, 2858, 2853, 2851, 2847, 2844, 2840, 2834],
     [2831, 2825, 2821, 2818, 2814, 2812, 2808, 2801],
     [2799, 2793, 2789, 2787, 2782, 2780, 2776, 2770],
     [2768, 2762, 2757, 2755, 2751, 2749, 2745, 2739],
     [2737, 2731, 2727, 2725, 2721, 2719, 2715, 2709]]"

definition certs_7 :: "cert list" where
  "certs_7 =
    [Composite_cert 3 779977,
     Prime_cert [1169966, 779977, 467986, 334276, 212721, 179994, 137643, 123154, 101736, 80687] (wheel_2339933_1),
     Composite_cert 3 779979,
     Composite_cert 7 334277,
     Composite_cert 3 799777,
     Prime_cert [1199666, 799777, 479866, 342761, 218121, 184564, 141137, 126280, 104318, 82735] (wheel_2399333_1),
     Composite_cert 3 799779,
     Composite_cert 19 126281,
     Composite_cert 3 979997,
     Composite_cert 7 419999,
     Composite_cert 3 979999,
     Prime_cert [1469999, 979999, 587999, 419999, 267272, 226153, 172941, 154736, 127826, 101379] (wheel_2939999_1),
     Composite_cert 3 1244597,
     Composite_cert 7 533399,
     Composite_cert 3 1244599,
     Prime_cert [1866899, 1244599, 746759, 533399, 339436, 287215, 219635, 196515, 162339, 128751] (wheel_3733799_1),
     Composite_cert 17 219643,
     Composite_cert 7 533419,
     Composite_cert 19 196523,
     Composite_cert 11 339449,
     Composite_cert 3 1979777,
     Prime_cert [2969666, 1979777, 1187866, 848476, 539939, 456871, 349372, 312596, 258231, 204804] (wheel_5939333_1),
     Composite_cert 3 1979779,
     Composite_cert 7 848477,
     Composite_cert 3 1979977,
     Composite_cert 131 45343,
     Composite_cert 3 1979979,
     Composite_cert 487 12197,
     Composite_cert 3 2397777,
     Composite_cert 7 1027619,
     Composite_cert 3 2397779,
     Composite_cert 59 121921,
     Composite_cert 3 2464637,
     Prime_cert [3696956, 2464637, 1478782, 1056273, 672173, 568762, 434936, 389153, 321474, 254962] (wheel_7393913_1),
     Composite_cert 3 2464639,
     Composite_cert 13 568763,
     Prime_cert [3696965, 2464643, 1478786, 1056275, 672175, 568763, 434937, 389154, 321475, 254963] (wheel_7393931_1),
     Prime_cert [3696966, 2464644, 1478786, 1056276, 672175, 568764, 434937, 389154, 321475, 254963] (wheel_7393933_1),
     Composite_cert 1789 4133,
     Composite_cert 7 1056277,
     Composite_cert 3 2464657,
     Composite_cert 1619 4567,
     Composite_cert 3 2464659,
     Composite_cert 43 171953,
     Composite_cert 11 672181,
     Composite_cert 47 157319,
     Composite_cert 13 568769,
     Composite_cert 313 23623]"

definition wheel_23399339_1 :: "nat list list" where
  "wheel_23399339_1 =
    [[754817, 632414, 570715, 544170, 497858, 477537, 441496, 396598],
     [383595, 349243, 329568, 320538, 303887, 296194, 281919, 262913],
     [257135, 241230, 231676, 227178, 218685, 214672, 207073, 196633],
     [193382, 184246, 178620, 175934, 170798, 168340, 163631, 157042],
     [154962, 149040, 145337, 143554, 140115, 138457, 135256, 130722],
     [129278, 125130, 122509, 121240, 118778, 117584, 115267, 111958],
     [110897, 107831, 105879, 104929, 103080, 102180, 100426, 97905],
     [97092, 94734, 93224, 92487, 91048, 90344, 88970, 86986],
     [86344, 84474, 83271, 82683, 81530, 80966, 79861, 78258],
     [77738, 76219, 75239, 74758, 73814, 73352, 72443, 71122],
     [70692, 69434, 68619, 68219, 67433, 67046, 66287, 65179],
     [64818, 63758, 63070, 62732, 62067, 61739, 61094, 60152],
     [59844, 58940, 58352, 58062, 57492, 57211, 56656, 55845],
     [55580, 54799, 54290, 54040, 53545, 53301, 52820, 52114],
     [51883, 51202, 50757, 50538, 50105, 49891, 49470, 48850],
     [48647, 48047, 47656, 47463, 47081, 46892, 46519, 45971],
     [45791, 45259, 44912, 44740, 44401, 44233, 43901, 43412],
     [43252, 42777, 42467, 42313, 42009, 41859, 41561, 41123],
     [40979, 40553, 40274, 40136, 39862, 39727, 39459, 39064],
     [38934, 38549, 38296, 38171, 37924, 37801, 37559, 37200],
     [37082, 36733, 36504, 36390, 36165, 36054, 35833, 35507],
     [35399, 35081, 34872, 34768, 34563, 34461, 34259, 33961],
     [33863, 33571, 33379, 33284, 33096, 33003, 32818, 32544],
     [32454, 32186, 32010, 31922, 31749, 31663, 31493, 31240],
     [31157, 30910, 30748, 30667, 30507, 30428, 30270, 30037],
     [29960, 29732, 29581, 29507, 29359, 29285, 29139, 28923],
     [28852, 28640, 28501, 28431, 28294, 28225, 28090, 27889],
     [27823, 27626, 27496, 27431, 27303, 27240, 27113, 26926],
     [26864, 26681, 26559, 26499, 26380, 26320, 26203, 26028],
     [25970, 25798, 25685, 25629, 25517, 25461, 25351, 25187],
     [25133, 24972, 24866, 24813, 24708, 24656, 24553, 24399],
     [24348, 24197, 24098, 24048, 23950, 23901, 23804, 23659],
     [23611, 23469, 23375, 23329, 23236, 23190, 23099, 22963],
     [22918, 22784, 22695, 22651, 22564, 22521, 22434, 22306],
     [22263, 22137, 22054, 22012, 21930, 21888, 21807, 21686],
     [21646, 21526, 21447, 21408, 21330, 21291, 21214, 21099],
     [21061, 20948, 20873, 20836, 20762, 20725, 20652, 20543],
     [20507, 20400, 20329, 20294, 20224, 20189, 20119, 20016],
     [19982, 19880, 19813, 19779, 19713, 19679, 19613, 19515],
     [19483, 19386, 19322, 19290, 19227, 19195, 19132, 19039],
     [19008, 18916, 18855, 18824, 18764, 18734, 18674, 18585],
     [18556, 18468, 18410, 18381, 18323, 18295, 18237, 18153],
     [18124, 18041, 17985, 17958, 17903, 17875, 17821, 17740],
     [17713, 17633, 17580, 17553, 17501, 17475, 17423, 17345],
     [17320, 17243, 17192, 17167, 17117, 17092, 17042, 16968],
     [16943, 16870, 16821, 16797, 16749, 16725, 16678, 16607],
     [16583, 16513, 16466, 16443, 16397, 16374, 16328, 16260],
     [16238, 16170, 16126, 16104, 16059, 16037, 15994, 15928],
     [15907, 15842, 15799, 15778, 15735, 15714, 15672, 15609],
     [15589, 15527, 15485, 15465, 15424, 15404, 15363, 15303],
     [15283, 15224, 15184, 15164, 15125, 15106, 15067, 15009],
     [14989, 14932, 14894, 14875, 14837, 14819, 14781, 14725],
     [14707, 14652, 14615, 14597, 14560, 14542, 14506, 14452],
     [14435, 14381, 14346, 14329, 14294, 14276, 14241, 14190],
     [14172, 14121, 14087, 14070, 14036, 14019, 13986, 13936],
     [13919, 13870, 13837, 13821, 13788, 13772, 13740, 13691],
     [13675, 13628, 13596, 13580, 13549, 13533, 13502, 13455],
     [13440, 13394, 13363, 13348, 13317, 13302, 13272, 13227],
     [13212, 13167, 13138, 13123, 13094, 13079, 13050, 13006],
     [12992, 12949, 12920, 12906, 12878, 12863, 12835, 12793],
     [12779, 12737, 12710, 12696, 12668, 12655, 12627, 12587],
     [12573, 12533, 12506, 12492, 12466, 12453, 12426, 12387],
     [12374, 12334, 12308, 12296, 12270, 12257, 12231, 12193],
     [12180, 12142, 12117, 12105, 12080, 12067, 12042, 12005],
     [11993, 11956, 11932, 11920, 11895, 11883, 11859, 11823],
     [11811, 11776, 11752, 11740, 11717, 11705, 11682, 11647],
     [11635, 11601, 11578, 11566, 11543, 11532, 11509, 11475],
     [11464, 11431, 11408, 11397, 11375, 11364, 11342, 11309],
     [11298, 11265, 11244, 11233, 11211, 11201, 11179, 11147],
     [11137, 11105, 11084, 11073, 11053, 11042, 11021, 10990],
     [10980, 10949, 10929, 10918, 10898, 10888, 10868, 10838],
     [10828, 10798, 10778, 10768, 10748, 10738, 10718, 10689],
     [10679, 10650, 10631, 10621, 10602, 10592, 10573, 10544],
     [10535, 10507, 10488, 10478, 10460, 10450, 10432, 10404],
     [10395, 10367, 10349, 10339, 10321, 10312, 10294, 10267],
     [10258, 10231, 10213, 10204, 10186, 10178, 10160, 10133],
     [10125, 10098, 10081, 10072, 10055, 10046, 10029, 10003],
     [9995, 9969, 9952, 9944, 9927, 9919, 9902, 9877],
     [9868, 9844, 9827, 9819, 9802, 9794, 9778, 9753],
     [9745, 9721, 9705, 9697, 9681, 9673, 9657, 9633],
     [9625, 9601, 9585, 9578, 9562, 9554, 9539, 9515],
     [9508, 9484, 9469, 9461, 9446, 9439, 9423, 9401],
     [9393, 9370, 9355, 9348, 9333, 9326, 9311, 9289],
     [9281, 9259, 9245, 9237, 9223, 9215, 9201, 9179],
     [9172, 9151, 9136, 9129, 9115, 9108, 9094, 9073],
     [9065, 9044, 9031, 9024, 9010, 9003, 8989, 8968],
     [8961, 8941, 8927, 8920, 8907, 8900, 8886, 8866],
     [8860, 8839, 8826, 8819, 8806, 8800, 8786, 8767],
     [8760, 8740, 8727, 8721, 8708, 8701, 8688, 8669],
     [8663, 8644, 8631, 8624, 8612, 8605, 8593, 8574],
     [8568, 8549, 8536, 8530, 8518, 8511, 8499, 8481],
     [8474, 8456, 8444, 8438, 8426, 8420, 8407, 8389],
     [8383, 8365, 8353, 8347, 8336, 8330, 8318, 8300],
     [8294, 8277, 8265, 8259, 8247, 8242, 8230, 8213],
     [8207, 8190, 8178, 8173, 8161, 8155, 8144, 8127],
     [8121, 8105, 8093, 8088, 8077, 8071, 8060, 8043],
     [8038, 8021, 8010, 8005, 7994, 7988, 7977, 7961],
     [7956, 7940, 7929, 7923, 7913, 7907, 7897, 7881],
     [7875, 7860, 7849, 7844, 7833, 7828, 7818, 7802],
     [7797, 7781, 7771, 7766, 7755, 7750, 7740, 7725]]"

definition wheel_23399339_2 :: "nat list list" where
  "wheel_23399339_2 =
    [[7720, 7704, 7694, 7689, 7679, 7674, 7664, 7649],
     [7644, 7629, 7619, 7614, 7604, 7599, 7589, 7575],
     [7570, 7555, 7545, 7540, 7531, 7526, 7516, 7502],
     [7497, 7482, 7473, 7468, 7459, 7454, 7444, 7430],
     [7426, 7411, 7402, 7397, 7388, 7383, 7374, 7360],
     [7355, 7342, 7332, 7328, 7319, 7314, 7305, 7291],
     [7287, 7273, 7264, 7260, 7251, 7246, 7237, 7224],
     [7219, 7206, 7197, 7193, 7184, 7179, 7171, 7157],
     [7153, 7140, 7131, 7127, 7118, 7114, 7105, 7092],
     [7088, 7075, 7067, 7062, 7054, 7050, 7041, 7028],
     [7024, 7012, 7003, 6999, 6991, 6986, 6978, 6966],
     [6962, 6949, 6941, 6937, 6929, 6924, 6916, 6904],
     [6900, 6888, 6880, 6876, 6868, 6863, 6855, 6843],
     [6839, 6827, 6819, 6816, 6808, 6804, 6796, 6784],
     [6780, 6768, 6760, 6756, 6749, 6745, 6737, 6725],
     [6722, 6710, 6702, 6698, 6691, 6687, 6679, 6668],
     [6664, 6653, 6645, 6641, 6634, 6630, 6623, 6611],
     [6608, 6596, 6589, 6585, 6578, 6574, 6567, 6556],
     [6552, 6541, 6534, 6530, 6523, 6519, 6512, 6501],
     [6498, 6487, 6480, 6476, 6469, 6465, 6458, 6447],
     [6444, 6433, 6426, 6423, 6416, 6412, 6405, 6395],
     [6391, 6381, 6374, 6370, 6363, 6360, 6353, 6343],
     [6339, 6329, 6322, 6319, 6312, 6308, 6302, 6291],
     [6288, 6278, 6271, 6268, 6261, 6258, 6251, 6241],
     [6238, 6228, 6221, 6218, 6211, 6208, 6201, 6191],
     [6188, 6178, 6172, 6169, 6162, 6159, 6152, 6143],
     [6139, 6130, 6123, 6120, 6114, 6111, 6104, 6095],
     [6091, 6082, 6076, 6073, 6066, 6063, 6057, 6047],
     [6044, 6035, 6029, 6026, 6019, 6016, 6010, 6001],
     [5998, 5989, 5982, 5979, 5973, 5970, 5964, 5955],
     [5952, 5943, 5937, 5934, 5928, 5925, 5919, 5910],
     [5907, 5898, 5892, 5889, 5883, 5880, 5874, 5865],
     [5863, 5854, 5848, 5845, 5839, 5836, 5830, 5822],
     [5819, 5810, 5804, 5801, 5796, 5793, 5787, 5779],
     [5776, 5767, 5761, 5759, 5753, 5750, 5744, 5736],
     [5733, 5725, 5719, 5716, 5711, 5708, 5702, 5694],
     [5691, 5683, 5678, 5675, 5669, 5667, 5661, 5653],
     [5650, 5642, 5637, 5634, 5628, 5626, 5620, 5612],
     [5610, 5601, 5596, 5593, 5588, 5585, 5580, 5572],
     [5569, 5562, 5556, 5554, 5548, 5546, 5540, 5533],
     [5530, 5522, 5517, 5514, 5509, 5507, 5501, 5494],
     [5491, 5483, 5478, 5476, 5470, 5468, 5463, 5455],
     [5453, 5445, 5440, 5437, 5432, 5430, 5425, 5417],
     [5415, 5407, 5402, 5400, 5395, 5392, 5387, 5380],
     [5377, 5370, 5365, 5363, 5358, 5355, 5350, 5343],
     [5341, 5333, 5328, 5326, 5321, 5319, 5314, 5307],
     [5304, 5297, 5292, 5290, 5285, 5283, 5278, 5271],
     [5268, 5261, 5257, 5254, 5250, 5247, 5242, 5235],
     [5233, 5226, 5221, 5219, 5214, 5212, 5207, 5201],
     [5198, 5191, 5187, 5184, 5180, 5177, 5173, 5166],
     [5164, 5157, 5152, 5150, 5146, 5143, 5139, 5132],
     [5130, 5123, 5119, 5116, 5112, 5110, 5105, 5099],
     [5096, 5090, 5085, 5083, 5079, 5076, 5072, 5065],
     [5063, 5057, 5052, 5050, 5046, 5044, 5039, 5033],
     [5031, 5024, 5020, 5018, 5013, 5011, 5007, 5000],
     [4998, 4992, 4988, 4986, 4981, 4979, 4975, 4969],
     [4966, 4960, 4956, 4954, 4950, 4948, 4943, 4937],
     [4935, 4929, 4925, 4923, 4918, 4916, 4912, 4906],
     [4904, 4898, 4894, 4892, 4888, 4886, 4881, 4875],
     [4873, 4867, 4863, 4861, 4857, 4855, 4851, 4845],
     [4843, 4837, 4833, 4831, 4827, 4825, 4821, 4815]]"

definition wheel_29399999_1 :: "nat list list" where
  "wheel_29399999_1 =
    [[948387, 794594, 717073, 683720, 625531, 599999, 554716, 498305],
     [481967, 438805, 414084, 402739, 381818, 372151, 354216, 330337],
     [323076, 303092, 291089, 285436, 274766, 269724, 260176, 247058],
     [242975, 231496, 224427, 221052, 214598, 211510, 205594, 197315],
     [194701, 187261, 182608, 180368, 176047, 173964, 169942, 164245],
     [162430, 157219, 153926, 152331, 149238, 147738, 144827, 140669],
     [139336, 135483, 133031, 131838, 129515, 128384, 126180, 123012],
     [121991, 119028, 117131, 116205, 114396, 113513, 111787, 109293],
     [108487, 106137, 104626, 103886, 102439, 101730, 100341, 98327],
     [97674, 95765, 94533, 93929, 92744, 92163, 91021, 89361],
     [88821, 87240, 86217, 85714, 84726, 84240, 83286, 81894],
     [81440, 80108, 79245, 78820, 77984, 77572, 76762, 75578],
     [75191, 74055, 73316, 72952, 72235, 71882, 71186, 70167],
     [69833, 68852, 68213, 67898, 67276, 66970, 66365, 65478],
     [65188, 64332, 63774, 63498, 62955, 62686, 62156, 61377],
     [61122, 60369, 59877, 59634, 59154, 58917, 58449, 57760],
     [57534, 56866, 56429, 56214, 55787, 55576, 55159, 54545],
     [54343, 53747, 53357, 53164, 52782, 52593, 52220, 51669],
     [51488, 50953, 50602, 50428, 50085, 49915, 49578, 49081],
     [48918, 48434, 48117, 47960, 47649, 47495, 47191, 46740],
     [46592, 46153, 45865, 45723, 45440, 45300, 45022, 44613],
     [44478, 44077, 43815, 43684, 43426, 43298, 43045, 42670],
     [42547, 42180, 41940, 41820, 41584, 41466, 41234, 40890],
     [40776, 40440, 40218, 40109, 39891, 39783, 39569, 39252],
     [39147, 38837, 38633, 38532, 38331, 38231, 38033, 37740],
     [37644, 37357, 37168, 37074, 36888, 36795, 36612, 36341],
     [36251, 35985, 35809, 35722, 35550, 35464, 35294, 35041],
     [34958, 34710, 34547, 34466, 34305, 34225, 34067, 33831],
     [33754, 33523, 33371, 33295, 33145, 33070, 32922, 32703],
     [32630, 32414, 32272, 32201, 32061, 31991, 31852, 31646],
     [31578, 31376, 31243, 31177, 31045, 30979, 30849, 30656],
     [30593, 30403, 30278, 30215, 30092, 30030, 29908, 29726],
     [29667, 29488, 29370, 29312, 29195, 29137, 29022, 28851],
     [28795, 28627, 28516, 28460, 28351, 28296, 28187, 28026],
     [27973, 27814, 27709, 27657, 27553, 27502, 27399, 27247],
     [27197, 27046, 26947, 26898, 26800, 26751, 26654, 26510],
     [26462, 26320, 26226, 26179, 26086, 26040, 25948, 25812],
     [25766, 25632, 25543, 25498, 25410, 25366, 25279, 25149],
     [25106, 24978, 24894, 24852, 24768, 24726, 24643, 24520],
     [24479, 24357, 24277, 24237, 24157, 24118, 24039, 23921],
     [23883, 23767, 23690, 23652, 23576, 23538, 23463, 23351],
     [23314, 23204, 23131, 23095, 23022, 22986, 22915, 22808],
     [22773, 22667, 22598, 22563, 22494, 22459, 22391, 22289],
     [22255, 22155, 22088, 22055, 21989, 21956, 21891, 21793],
     [21761, 21665, 21601, 21570, 21506, 21475, 21412, 21319],
     [21288, 21196, 21135, 21105, 21045, 21015, 20955, 20865],
     [20836, 20748, 20689, 20660, 20602, 20573, 20516, 20430],
     [20402, 20317, 20261, 20233, 20178, 20150, 20095, 20013],
     [19986, 19905, 19851, 19824, 19771, 19744, 19691, 19613],
     [19586, 19508, 19457, 19431, 19380, 19354, 19304, 19228],
     [19203, 19128, 19078, 19053, 19004, 18979, 18931, 18858],
     [18834, 18761, 18714, 18690, 18642, 18619, 18572, 18502],
     [18478, 18409, 18363, 18340, 18294, 18272, 18226, 18159],
     [18136, 18070, 18025, 18003, 17959, 17937, 17894, 17828],
     [17807, 17742, 17700, 17678, 17636, 17615, 17573, 17510],
     [17489, 17427, 17386, 17365, 17324, 17304, 17263, 17203],
     [17182, 17122, 17083, 17063, 17023, 17004, 16964, 16906],
     [16886, 16828, 16790, 16771, 16733, 16714, 16676, 16619],
     [16600, 16544, 16507, 16489, 16452, 16433, 16397, 16342],
     [16324, 16270, 16234, 16216, 16180, 16162, 16127, 16074],
     [16056, 16004, 15969, 15952, 15917, 15900, 15866, 15814],
     [15797, 15747, 15713, 15696, 15663, 15646, 15613, 15563],
     [15547, 15498, 15465, 15449, 15416, 15400, 15368, 15320],
     [15304, 15256, 15225, 15209, 15178, 15162, 15131, 15084],
     [15069, 15022, 14992, 14977, 14946, 14931, 14901, 14855],
     [14840, 14796, 14766, 14751, 14722, 14707, 14677, 14634],
     [14619, 14576, 14547, 14532, 14504, 14489, 14461, 14418],
     [14404, 14362, 14334, 14320, 14292, 14278, 14251, 14209],
     [14196, 14155, 14127, 14114, 14087, 14073, 14046, 14006],
     [13993, 13953, 13927, 13913, 13887, 13874, 13848, 13809],
     [13796, 13757, 13731, 13719, 13693, 13680, 13655, 13617],
     [13604, 13567, 13542, 13529, 13504, 13492, 13467, 13430],
     [13418, 13381, 13357, 13345, 13321, 13309, 13285, 13249],
     [13237, 13201, 13177, 13166, 13142, 13130, 13107, 13072],
     [13060, 13026, 13003, 12991, 12968, 12957, 12934, 12900],
     [12889, 12855, 12832, 12821, 12799, 12788, 12765, 12732],
     [12721, 12688, 12666, 12656, 12634, 12623, 12601, 12569],
     [12558, 12526, 12505, 12494, 12473, 12462, 12441, 12410],
     [12399, 12368, 12347, 12337, 12316, 12306, 12285, 12255],
     [12244, 12214, 12194, 12184, 12163, 12153, 12133, 12103],
     [12093, 12064, 12044, 12034, 12014, 12004, 11985, 11956],
     [11946, 11917, 11898, 11888, 11869, 11859, 11840, 11811],
     [11802, 11774, 11755, 11745, 11727, 11717, 11699, 11671],
     [11662, 11634, 11615, 11606, 11588, 11579, 11561, 11533],
     [11524, 11497, 11479, 11470, 11453, 11444, 11426, 11399],
     [11390, 11364, 11346, 11338, 11320, 11312, 11294, 11268],
     [11260, 11234, 11217, 11208, 11191, 11182, 11165, 11140],
     [11132, 11106, 11090, 11081, 11065, 11056, 11040, 11015],
     [11007, 10982, 10966, 10957, 10941, 10933, 10917, 10892],
     [10884, 10860, 10844, 10836, 10820, 10812, 10796, 10773],
     [10765, 10741, 10726, 10718, 10702, 10694, 10679, 10656],
     [10648, 10625, 10609, 10602, 10586, 10579, 10564, 10541],
     [10533, 10511, 10496, 10488, 10473, 10466, 10451, 10429],
     [10421, 10399, 10385, 10377, 10363, 10355, 10341, 10319],
     [10312, 10290, 10276, 10268, 10254, 10247, 10233, 10211],
     [10204, 10183, 10169, 10162, 10148, 10141, 10127, 10106],
     [10099, 10078, 10065, 10058, 10044, 10037, 10023, 10003],
     [9996, 9976, 9962, 9955, 9942, 9935, 9922, 9902],
     [9895, 9875, 9862, 9855, 9842, 9836, 9822, 9803],
     [9796, 9777, 9764, 9757, 9744, 9738, 9725, 9706]]"

definition wheel_29399999_2 :: "nat list list" where
  "wheel_29399999_2 =
    [[9699, 9680, 9667, 9661, 9648, 9642, 9629, 9610],
     [9604, 9585, 9573, 9567, 9554, 9548, 9536, 9517],
     [9511, 9493, 9480, 9474, 9462, 9456, 9444, 9426],
     [9420, 9401, 9389, 9383, 9372, 9366, 9354, 9336],
     [9330, 9312, 9300, 9294, 9283, 9277, 9265, 9248],
     [9242, 9224, 9213, 9207, 9196, 9190, 9178, 9161],
     [9156, 9138, 9127, 9121, 9110, 9104, 9093, 9076],
     [9071, 9054, 9043, 9037, 9026, 9021, 9010, 8993],
     [8988, 8971, 8960, 8955, 8944, 8938, 8928, 8911],
     [8906, 8890, 8879, 8874, 8863, 8858, 8847, 8831],
     [8826, 8810, 8799, 8794, 8783, 8778, 8768, 8752],
     [8747, 8731, 8721, 8716, 8705, 8700, 8690, 8675],
     [8670, 8654, 8644, 8639, 8629, 8624, 8614, 8599],
     [8593, 8578, 8568, 8563, 8553, 8548, 8539, 8524],
     [8519, 8504, 8494, 8489, 8479, 8475, 8465, 8450],
     [8445, 8431, 8421, 8416, 8407, 8402, 8392, 8378],
     [8373, 8359, 8349, 8345, 8335, 8330, 8321, 8307],
     [8302, 8288, 8279, 8274, 8265, 8260, 8251, 8237],
     [8232, 8219, 8209, 8205, 8196, 8191, 8182, 8168],
     [8164, 8150, 8141, 8137, 8128, 8123, 8114, 8101],
     [8096, 8083, 8074, 8070, 8061, 8057, 8048, 8034],
     [8030, 8017, 8008, 8004, 7995, 7991, 7982, 7969],
     [7965, 7952, 7943, 7939, 7930, 7926, 7918, 7905],
     [7901, 7888, 7879, 7875, 7867, 7863, 7854, 7842],
     [7837, 7825, 7817, 7812, 7804, 7800, 7792, 7779],
     [7775, 7763, 7755, 7751, 7742, 7738, 7730, 7718],
     [7714, 7702, 7694, 7690, 7682, 7678, 7670, 7658],
     [7654, 7642, 7634, 7630, 7622, 7618, 7610, 7598],
     [7594, 7583, 7575, 7571, 7563, 7559, 7552, 7540],
     [7536, 7524, 7517, 7513, 7505, 7501, 7494, 7482],
     [7479, 7467, 7460, 7456, 7448, 7444, 7437, 7426],
     [7422, 7411, 7403, 7399, 7392, 7388, 7381, 7370],
     [7366, 7355, 7348, 7344, 7337, 7333, 7326, 7315],
     [7311, 7300, 7293, 7289, 7282, 7279, 7271, 7261],
     [7257, 7246, 7239, 7236, 7228, 7225, 7218, 7207],
     [7204, 7193, 7186, 7182, 7175, 7172, 7165, 7155],
     [7151, 7141, 7134, 7130, 7123, 7120, 7113, 7103],
     [7099, 7089, 7082, 7079, 7072, 7069, 7062, 7052],
     [7048, 7038, 7031, 7028, 7021, 7018, 7011, 7001],
     [6998, 6988, 6981, 6978, 6971, 6968, 6961, 6951],
     [6948, 6938, 6932, 6929, 6922, 6919, 6912, 6903],
     [6899, 6890, 6883, 6880, 6873, 6870, 6864, 6854],
     [6851, 6841, 6835, 6832, 6826, 6822, 6816, 6807],
     [6803, 6794, 6788, 6785, 6778, 6775, 6769, 6760],
     [6757, 6747, 6741, 6738, 6732, 6729, 6723, 6713],
     [6710, 6701, 6695, 6692, 6686, 6683, 6677, 6668],
     [6665, 6656, 6650, 6647, 6641, 6638, 6632, 6623],
     [6620, 6611, 6605, 6602, 6596, 6593, 6587, 6578],
     [6575, 6566, 6561, 6558, 6552, 6549, 6543, 6534],
     [6531, 6523, 6517, 6514, 6508, 6505, 6500, 6491],
     [6488, 6480, 6474, 6471, 6465, 6462, 6457, 6448],
     [6445, 6437, 6431, 6429, 6423, 6420, 6415, 6406],
     [6403, 6395, 6389, 6387, 6381, 6378, 6373, 6365],
     [6362, 6354, 6348, 6345, 6340, 6337, 6332, 6323],
     [6321, 6313, 6307, 6304, 6299, 6296, 6291, 6283],
     [6280, 6272, 6267, 6264, 6259, 6256, 6251, 6243],
     [6240, 6232, 6227, 6224, 6219, 6216, 6211, 6203],
     [6201, 6193, 6188, 6185, 6180, 6177, 6172, 6164],
     [6162, 6154, 6149, 6146, 6141, 6139, 6133, 6126],
     [6123, 6116, 6110, 6108, 6103, 6100, 6095, 6088],
     [6085, 6078, 6073, 6070, 6065, 6063, 6058, 6050],
     [6048, 6040, 6035, 6033, 6028, 6025, 6020, 6013],
     [6011, 6003, 5998, 5996, 5991, 5988, 5984, 5976],
     [5974, 5967, 5962, 5959, 5955, 5952, 5947, 5940],
     [5938, 5931, 5926, 5923, 5919, 5916, 5911, 5904],
     [5902, 5895, 5890, 5888, 5883, 5881, 5876, 5869],
     [5867, 5860, 5855, 5853, 5848, 5846, 5841, 5834],
     [5832, 5825, 5820, 5818, 5813, 5811, 5806, 5799],
     [5797, 5790, 5786, 5783, 5779, 5777, 5772, 5765],
     [5763, 5756, 5752, 5750, 5745, 5743, 5738, 5732],
     [5729, 5723, 5718, 5716, 5712, 5709, 5705, 5698],
     [5696, 5689, 5685, 5683, 5678, 5676, 5672, 5665],
     [5663, 5657, 5652, 5650, 5646, 5644, 5639, 5633],
     [5631, 5624, 5620, 5618, 5613, 5611, 5607, 5601],
     [5598, 5592, 5588, 5586, 5581, 5579, 5575, 5569],
     [5567, 5560, 5556, 5554, 5550, 5548, 5544, 5537],
     [5535, 5529, 5525, 5523, 5519, 5516, 5512, 5506],
     [5504, 5498, 5494, 5492, 5488, 5486, 5482, 5475],
     [5473, 5467, 5463, 5461, 5457, 5455, 5451, 5445],
     [5443, 5437, 5433, 5431, 5427, 5425, 5421, 5415]]"

definition wheel_37337999_1 :: "nat list list" where
  "wheel_37337999_1 =
    [[1204451, 1009135, 910682, 868325, 794425, 761999, 704490, 632847],
     [612098, 557283, 525887, 511479, 484909, 472632, 449855, 419528],
     [410307, 384927, 369683, 362504, 348953, 342550, 330424, 313764],
     [308578, 293999, 285022, 280736, 272540, 268618, 261104, 250590],
     [247271, 237821, 231913, 229067, 223580, 220934, 215826, 208592],
     [206287, 199668, 195486, 193461, 189532, 187628, 183931, 178650],
     [176957, 172064, 168950, 167434, 164484, 163048, 160248, 156225],
     [154929, 151165, 148756, 147581, 145284, 144162, 141969, 138802],
     [137778, 134794, 132875, 131936, 130097, 129197, 127433, 124876],
     [124046, 121622, 120057, 119290, 117785, 117047, 115597, 113489],
     [112803, 110795, 109495, 108857, 107602, 106985, 105773, 104005],
     [103429, 101738, 100641, 100101, 99039, 98517, 97488, 95984],
     [95493, 94050, 93112, 92650, 91739, 91290, 90406, 89112],
     [88688, 87442, 86631, 86230, 85441, 85052, 84284, 83158],
     [82789, 81702, 80993, 80643, 79952, 79611, 78938, 77949],
     [77625, 76669, 76044, 75736, 75126, 74825, 74230, 73355],
     [73068, 72220, 71666, 71391, 70850, 70582, 70052, 69272],
     [69016, 68259, 67764, 67518, 67034, 66794, 66319, 65620],
     [65390, 64710, 64265, 64044, 63608, 63392, 62964, 62333],
     [62126, 61512, 61109, 60910, 60515, 60319, 59932, 59360],
     [59172, 58615, 58249, 58068, 57709, 57531, 57179, 56658],
     [56487, 55979, 55645, 55479, 55152, 54989, 54667, 54191],
     [54034, 53569, 53263, 53112, 52811, 52662, 52367, 51930],
     [51786, 51359, 51077, 50938, 50662, 50525, 50253, 49850],
     [49717, 49323, 49064, 48935, 48680, 48553, 48302, 47930],
     [47807, 47443, 47203, 47084, 46848, 46730, 46498, 46153],
     [46039, 45701, 45478, 45368, 45148, 45039, 44823, 44502],
     [44397, 44082, 43875, 43772, 43568, 43466, 43265, 42966],
     [42867, 42574, 42381, 42285, 42094, 41999, 41811, 41532],
     [41440, 41166, 40985, 40895, 40717, 40628, 40452, 40191],
     [40105, 39848, 39679, 39594, 39427, 39344, 39179, 38934],
     [38853, 38612, 38453, 38374, 38216, 38138, 37983, 37753],
     [37677, 37450, 37300, 37226, 37078, 37004, 36858, 36641],
     [36570, 36356, 36215, 36145, 36005, 35936, 35798, 35593],
     [35526, 35324, 35191, 35125, 34993, 34927, 34797, 34604],
     [34540, 34349, 34223, 34161, 34036, 33974, 33851, 33668],
     [33607, 33427, 33307, 33248, 33130, 33071, 32954, 32781],
     [32723, 32552, 32439, 32383, 32271, 32215, 32104, 31940],
     [31885, 31723, 31615, 31562, 31455, 31402, 31297, 31140],
     [31089, 30934, 30832, 30781, 30680, 30630, 30529, 30380],
     [30331, 30184, 30087, 30038, 29942, 29894, 29798, 29656],
     [29609, 29469, 29376, 29330, 29238, 29193, 29102, 28966],
     [28921, 28787, 28699, 28655, 28567, 28524, 28437, 28307],
     [28264, 28137, 28052, 28010, 27926, 27884, 27801, 27678],
     [27637, 27515, 27434, 27393, 27313, 27273, 27194, 27076],
     [27036, 26919, 26842, 26804, 26727, 26689, 26612, 26499],
     [26462, 26350, 26275, 26238, 26165, 26128, 26055, 25947],
     [25911, 25803, 25732, 25697, 25626, 25591, 25521, 25417],
     [25382, 25279, 25211, 25177, 25109, 25075, 25008, 24908],
     [24875, 24776, 24710, 24678, 24613, 24580, 24516, 24419],
     [24387, 24292, 24229, 24198, 24135, 24104, 24042, 23949],
     [23919, 23827, 23767, 23736, 23676, 23646, 23586, 23497],
     [23468, 23380, 23321, 23292, 23234, 23205, 23148, 23062],
     [23033, 22948, 22892, 22864, 22808, 22780, 22725, 22642],
     [22615, 22533, 22479, 22452, 22398, 22371, 22317, 22238],
     [22211, 22132, 22080, 22054, 22002, 21976, 21924, 21847],
     [21822, 21746, 21695, 21670, 21620, 21595, 21545, 21470],
     [21446, 21372, 21323, 21299, 21250, 21226, 21178, 21106],
     [21083, 21011, 20964, 20941, 20894, 20870, 20824, 20754],
     [20731, 20662, 20617, 20594, 20549, 20526, 20481, 20414],
     [20392, 20325, 20281, 20259, 20215, 20193, 20150, 20084],
     [20063, 19998, 19956, 19934, 19892, 19871, 19828, 19766],
     [19745, 19682, 19641, 19620, 19579, 19558, 19518, 19457],
     [19436, 19376, 19336, 19316, 19276, 19256, 19216, 19157],
     [19137, 19079, 19040, 19020, 18982, 18962, 18924, 18867],
     [18848, 18791, 18753, 18734, 18697, 18678, 18641, 18585],
     [18566, 18511, 18475, 18456, 18420, 18402, 18365, 18311],
     [18293, 18240, 18204, 18187, 18151, 18134, 18098, 18046],
     [18028, 17976, 17942, 17925, 17890, 17873, 17839, 17788],
     [17771, 17720, 17687, 17670, 17637, 17620, 17587, 17537],
     [17521, 17472, 17439, 17423, 17390, 17374, 17342, 17294],
     [17278, 17230, 17198, 17182, 17151, 17135, 17103, 17057],
     [17041, 16994, 16964, 16948, 16917, 16902, 16872, 16826],
     [16811, 16766, 16735, 16721, 16691, 16676, 16646, 16602],
     [16587, 16543, 16513, 16499, 16470, 16455, 16426, 16383],
     [16369, 16326, 16297, 16283, 16255, 16240, 16212, 16170],
     [16156, 16114, 16087, 16073, 16045, 16031, 16004, 15963],
     [15949, 15908, 15881, 15868, 15841, 15827, 15801, 15761],
     [15747, 15708, 15681, 15668, 15642, 15629, 15603, 15563],
     [15551, 15512, 15486, 15473, 15448, 15435, 15409, 15371],
     [15359, 15321, 15296, 15283, 15258, 15246, 15221, 15184],
     [15171, 15134, 15110, 15098, 15073, 15061, 15037, 15001],
     [14989, 14953, 14929, 14917, 14893, 14881, 14857, 14822],
     [14810, 14775, 14752, 14740, 14717, 14705, 14682, 14648],
     [14636, 14602, 14579, 14568, 14545, 14534, 14511, 14477],
     [14466, 14432, 14410, 14399, 14377, 14366, 14344, 14311],
     [14300, 14267, 14245, 14234, 14213, 14202, 14180, 14148],
     [14137, 14105, 14084, 14073, 14052, 14042, 14021, 13989],
     [13979, 13947, 13926, 13916, 13895, 13885, 13864, 13834],
     [13823, 13793, 13772, 13762, 13742, 13732, 13712, 13681],
     [13671, 13641, 13622, 13612, 13592, 13582, 13562, 13533],
     [13523, 13494, 13474, 13464, 13445, 13435, 13416, 13387],
     [13378, 13349, 13330, 13320, 13301, 13292, 13273, 13245],
     [13235, 13207, 13188, 13179, 13161, 13151, 13133, 13105],
     [13096, 13068, 13050, 13041, 13023, 13014, 12996, 12969],
     [12960, 12933, 12915, 12906, 12888, 12879, 12861, 12835],
     [12826, 12800, 12782, 12773, 12756, 12747, 12730, 12704],
     [12695, 12669, 12652, 12644, 12626, 12618, 12601, 12575],
     [12567, 12542, 12525, 12516, 12500, 12491, 12475, 12450],
     [12441, 12417, 12400, 12392, 12375, 12367, 12351, 12326]]"

definition wheel_37337999_2 :: "nat list list" where
  "wheel_37337999_2 =
    [[12318, 12294, 12278, 12270, 12254, 12245, 12229, 12205],
     [12197, 12174, 12158, 12150, 12134, 12126, 12110, 12087],
     [12079, 12056, 12040, 12032, 12017, 12009, 11994, 11971],
     [11963, 11940, 11925, 11917, 11902, 11894, 11879, 11857],
     [11849, 11827, 11812, 11804, 11789, 11782, 11767, 11745],
     [11737, 11715, 11701, 11693, 11679, 11671, 11657, 11635],
     [11628, 11606, 11592, 11584, 11570, 11563, 11549, 11527],
     [11520, 11499, 11485, 11478, 11463, 11456, 11442, 11421],
     [11414, 11393, 11380, 11373, 11359, 11352, 11338, 11317],
     [11311, 11290, 11276, 11270, 11256, 11249, 11236, 11215],
     [11209, 11189, 11175, 11169, 11155, 11148, 11135, 11115],
     [11109, 11089, 11076, 11069, 11056, 11050, 11036, 11017],
     [11010, 10991, 10978, 10972, 10959, 10952, 10939, 10920],
     [10914, 10895, 10882, 10876, 10863, 10857, 10844, 10825],
     [10819, 10800, 10788, 10781, 10769, 10763, 10750, 10732],
     [10726, 10707, 10695, 10689, 10677, 10671, 10658, 10640],
     [10634, 10616, 10604, 10598, 10586, 10580, 10568, 10550],
     [10544, 10526, 10514, 10508, 10497, 10491, 10479, 10461],
     [10455, 10438, 10426, 10420, 10409, 10403, 10391, 10374],
     [10368, 10351, 10340, 10334, 10322, 10317, 10305, 10288],
     [10283, 10266, 10254, 10249, 10238, 10232, 10221, 10204],
     [10198, 10182, 10171, 10165, 10154, 10148, 10137, 10121],
     [10115, 10099, 10088, 10083, 10072, 10066, 10056, 10039],
     [10034, 10018, 10007, 10002, 9991, 9986, 9975, 9959],
     [9954, 9938, 9927, 9922, 9911, 9906, 9896, 9880],
     [9875, 9859, 9849, 9843, 9833, 9828, 9818, 9802],
     [9797, 9782, 9771, 9766, 9756, 9751, 9741, 9725],
     [9720, 9705, 9695, 9690, 9680, 9675, 9665, 9650],
     [9645, 9630, 9620, 9615, 9605, 9600, 9591, 9576],
     [9571, 9556, 9546, 9542, 9532, 9527, 9517, 9503],
     [9498, 9483, 9474, 9469, 9459, 9455, 9445, 9431],
     [9426, 9412, 9402, 9397, 9388, 9383, 9374, 9360],
     [9355, 9341, 9332, 9327, 9318, 9313, 9304, 9290],
     [9285, 9271, 9262, 9258, 9248, 9244, 9235, 9221],
     [9216, 9203, 9194, 9189, 9180, 9176, 9167, 9153],
     [9149, 9135, 9126, 9122, 9113, 9109, 9100, 9086],
     [9082, 9069, 9060, 9056, 9047, 9042, 9034, 9021],
     [9016, 9003, 8994, 8990, 8981, 8977, 8969, 8956],
     [8951, 8938, 8930, 8926, 8917, 8913, 8904, 8892],
     [8887, 8875, 8866, 8862, 8854, 8849, 8841, 8829],
     [8824, 8812, 8804, 8799, 8791, 8787, 8779, 8766],
     [8762, 8750, 8742, 8738, 8729, 8725, 8717, 8705],
     [8701, 8689, 8681, 8677, 8669, 8665, 8657, 8645],
     [8641, 8629, 8621, 8617, 8609, 8605, 8597, 8585],
     [8581, 8569, 8561, 8557, 8550, 8546, 8538, 8526],
     [8522, 8511, 8503, 8499, 8491, 8487, 8480, 8468],
     [8464, 8453, 8445, 8441, 8434, 8430, 8422, 8411],
     [8407, 8396, 8388, 8384, 8377, 8373, 8366, 8354],
     [8351, 8339, 8332, 8328, 8321, 8317, 8310, 8299],
     [8295, 8284, 8277, 8273, 8266, 8262, 8255, 8244],
     [8240, 8229, 8222, 8218, 8211, 8207, 8200, 8189],
     [8186, 8175, 8168, 8164, 8157, 8154, 8147, 8136],
     [8132, 8122, 8115, 8111, 8104, 8101, 8094, 8083],
     [8080, 8069, 8062, 8059, 8052, 8048, 8041, 8031],
     [8027, 8017, 8010, 8007, 8000, 7997, 7990, 7979],
     [7976, 7966, 7959, 7956, 7949, 7945, 7939, 7929],
     [7925, 7915, 7908, 7905, 7898, 7895, 7888, 7878],
     [7875, 7865, 7858, 7855, 7849, 7845, 7839, 7829],
     [7826, 7816, 7809, 7806, 7799, 7796, 7790, 7780],
     [7777, 7767, 7760, 7757, 7751, 7748, 7741, 7732],
     [7728, 7719, 7712, 7709, 7703, 7700, 7693, 7684],
     [7681, 7671, 7665, 7662, 7655, 7652, 7646, 7637],
     [7634, 7624, 7618, 7615, 7609, 7606, 7599, 7590],
     [7587, 7578, 7572, 7569, 7562, 7559, 7553, 7544],
     [7541, 7532, 7526, 7523, 7517, 7514, 7508, 7499],
     [7496, 7487, 7481, 7478, 7472, 7469, 7463, 7454],
     [7451, 7442, 7436, 7433, 7427, 7424, 7418, 7409],
     [7406, 7398, 7392, 7389, 7383, 7380, 7374, 7365],
     [7363, 7354, 7348, 7345, 7339, 7337, 7331, 7322],
     [7319, 7311, 7305, 7302, 7296, 7294, 7288, 7279],
     [7276, 7268, 7262, 7259, 7254, 7251, 7245, 7237],
     [7234, 7226, 7220, 7217, 7212, 7209, 7203, 7195],
     [7192, 7184, 7179, 7176, 7170, 7167, 7162, 7154],
     [7151, 7143, 7137, 7135, 7129, 7126, 7121, 7113],
     [7110, 7102, 7097, 7094, 7089, 7086, 7080, 7072],
     [7070, 7062, 7056, 7054, 7048, 7046, 7040, 7032],
     [7030, 7022, 7017, 7014, 7009, 7006, 7001, 6993],
     [6990, 6982, 6977, 6975, 6969, 6967, 6962, 6954],
     [6951, 6944, 6938, 6936, 6931, 6928, 6923, 6915],
     [6913, 6905, 6900, 6897, 6892, 6890, 6885, 6877],
     [6874, 6867, 6862, 6859, 6854, 6852, 6847, 6839],
     [6837, 6829, 6824, 6822, 6817, 6814, 6809, 6802],
     [6799, 6792, 6787, 6785, 6780, 6777, 6772, 6765],
     [6762, 6755, 6750, 6748, 6743, 6740, 6736, 6728],
     [6726, 6719, 6714, 6711, 6707, 6704, 6699, 6692],
     [6690, 6683, 6678, 6675, 6671, 6668, 6663, 6656],
     [6654, 6647, 6642, 6640, 6635, 6633, 6628, 6621],
     [6619, 6612, 6607, 6604, 6600, 6597, 6593, 6586],
     [6584, 6577, 6572, 6570, 6565, 6563, 6558, 6551],
     [6549, 6542, 6537, 6535, 6531, 6528, 6524, 6517],
     [6515, 6508, 6503, 6501, 6496, 6494, 6490, 6483],
     [6481, 6474, 6469, 6467, 6463, 6460, 6456, 6449],
     [6447, 6440, 6436, 6434, 6429, 6427, 6423, 6416],
     [6414, 6407, 6403, 6401, 6396, 6394, 6390, 6383],
     [6381, 6374, 6370, 6368, 6364, 6361, 6357, 6351],
     [6348, 6342, 6338, 6335, 6331, 6329, 6325, 6318],
     [6316, 6310, 6306, 6303, 6299, 6297, 6293, 6286],
     [6284, 6278, 6274, 6272, 6267, 6265, 6261, 6255],
     [6253, 6246, 6242, 6240, 6236, 6234, 6230, 6224],
     [6221, 6215, 6211, 6209, 6205, 6203, 6199, 6193]]"

definition wheel_37337999_3 :: "nat list list" where
  "wheel_37337999_3 =
    [[6191, 6184, 6180, 6178, 6174, 6172, 6168, 6162],
     [6160, 6154, 6150, 6148, 6144, 6142, 6138, 6132],
     [6130, 6123, 6119, 6117, 6113, 6111, 6107, 6101]]"

definition wheel_59393339_1 :: "nat list list" where
  "wheel_59393339_1 =
    [[1915914, 1605225, 1448618, 1381240, 1263688, 1212108, 1120629, 1006666],
     [973661, 886467, 836525, 813607, 771342, 751814, 715582, 667340],
     [652674, 612302, 588052, 576634, 555077, 544893, 525604, 499103],
     [490854, 467664, 453384, 446566, 433528, 427290, 415338, 398613],
     [393333, 378301, 368902, 364376, 355648, 351439, 343314, 331806],
     [328139, 317611, 310959, 307737, 301489, 298458, 292578, 284178],
     [281485, 273702, 268748, 266337, 261644, 259359, 254907, 248507],
     [246445, 240458, 236626, 234756, 231102, 229317, 225830, 220793],
     [219163, 214416, 211364, 209870, 206945, 205513, 202707, 198639],
     [197320, 193463, 190975, 189755, 187360, 186186, 183880, 180526],
     [179436, 176241, 174174, 173158, 171162, 170181, 168253, 165441],
     [164524, 161834, 160089, 159231, 157542, 156710, 155073, 152682],
     [151901, 149605, 148113, 147378, 145929, 145215, 143809, 141750],
     [141076, 139094, 137803, 137167, 135911, 135292, 134070, 132279],
     [131692, 129963, 128835, 128279, 127180, 126638, 125567, 123994],
     [123478, 121957, 120964, 120473, 119503, 119024, 118078, 116686],
     [116229, 114880, 113998, 113562, 112700, 112274, 111432, 110191],
     [109784, 108580, 107791, 107402, 106630, 106249, 105494, 104381],
     [104016, 102934, 102226, 101875, 101181, 100837, 100157, 99154],
     [98824, 97847, 97206, 96889, 96261, 95950, 95334, 94425],
     [94125, 93239, 92657, 92369, 91798, 91515, 90954, 90126],
     [89853, 89045, 88514, 88251, 87730, 87471, 86959, 86202],
     [85952, 85212, 84726, 84485, 84007, 83770, 83300, 82605],
     [82376, 81696, 81249, 81027, 80587, 80369, 79937, 79296],
     [79085, 78458, 78046, 77841, 77435, 77234, 76834, 76243],
     [76047, 75468, 75086, 74897, 74521, 74334, 73964, 73415],
     [73234, 72696, 72342, 72166, 71817, 71644, 71300, 70790],
     [70622, 70122, 69792, 69628, 69303, 69142, 68821, 68346],
     [68189, 67723, 67415, 67263, 66959, 66809, 66509, 66066],
     [65919, 65483, 65195, 65052, 64769, 64628, 64348, 63932],
     [63795, 63386, 63117, 62983, 62717, 62585, 62322, 61932],
     [61803, 61420, 61167, 61041, 60791, 60667, 60420, 60053],
     [59932, 59572, 59334, 59215, 58980, 58863, 58631, 58285],
     [58171, 57831, 57607, 57495, 57274, 57163, 56944, 56619],
     [56511, 56190, 55978, 55873, 55663, 55559, 55352, 55044],
     [54942, 54639, 54439, 54339, 54141, 54043, 53847, 53555],
     [53459, 53172, 52982, 52888, 52700, 52607, 52421, 52145],
     [52053, 51781, 51601, 51512, 51333, 51245, 51069, 50806],
     [50720, 50461, 50290, 50205, 50036, 49952, 49784, 49535],
     [49453, 49207, 49044, 48964, 48803, 48723, 48563, 48326],
     [48248, 48014, 47859, 47782, 47628, 47552, 47400, 47175],
     [47100, 46877, 46729, 46656, 46510, 46437, 46292, 46077],
     [46005, 45792, 45652, 45581, 45442, 45373, 45234, 45029],
     [44960, 44757, 44623, 44556, 44422, 44356, 44224, 44027],
     [43962, 43768, 43639, 43575, 43447, 43384, 43258, 43069],
     [43007, 42821, 42698, 42636, 42514, 42454, 42333, 42152],
     [42093, 41914, 41796, 41738, 41621, 41562, 41446, 41274],
     [41216, 41045, 40932, 40876, 40764, 40708, 40596, 40431],
     [40376, 40212, 40103, 40049, 39941, 39888, 39781, 39621],
     [39569, 39411, 39307, 39255, 39151, 39100, 38997, 38844],
     [38793, 38642, 38542, 38492, 38392, 38343, 38244, 38097],
     [38048, 37902, 37806, 37758, 37662, 37614, 37519, 37377],
     [37330, 37190, 37097, 37051, 36959, 36913, 36821, 36685],
     [36639, 36504, 36415, 36370, 36281, 36237, 36149, 36017],
     [35974, 35843, 35757, 35714, 35628, 35586, 35501, 35374],
     [35332, 35206, 35123, 35081, 34999, 34957, 34875, 34753],
     [34712, 34591, 34510, 34470, 34391, 34351, 34271, 34153],
     [34114, 33997, 33919, 33880, 33803, 33765, 33688, 33574],
     [33536, 33423, 33348, 33310, 33236, 33199, 33125, 33014],
     [32977, 32868, 32795, 32759, 32687, 32651, 32579, 32473],
     [32437, 32331, 32261, 32226, 32156, 32121, 32052, 31949],
     [31914, 31812, 31744, 31710, 31642, 31609, 31541, 31441],
     [31408, 31309, 31243, 31210, 31144, 31112, 31047, 30950],
     [30917, 30821, 30757, 30725, 30662, 30630, 30567, 30473],
     [30442, 30349, 30287, 30256, 30194, 30164, 30103, 30011],
     [29981, 29890, 29830, 29800, 29741, 29711, 29652, 29563],
     [29534, 29446, 29388, 29359, 29301, 29272, 29214, 29128],
     [29100, 29014, 28958, 28930, 28873, 28845, 28789, 28706],
     [28678, 28595, 28540, 28513, 28458, 28431, 28377, 28296],
     [28269, 28188, 28135, 28108, 28055, 28028, 27976, 27897],
     [27871, 27792, 27740, 27715, 27663, 27637, 27586, 27509],
     [27484, 27408, 27357, 27332, 27282, 27257, 27207, 27132],
     [27107, 27033, 26984, 26960, 26911, 26886, 26838, 26765],
     [26741, 26669, 26621, 26598, 26550, 26526, 26479, 26408],
     [26385, 26315, 26268, 26245, 26199, 26175, 26129, 26061],
     [26038, 25969, 25924, 25902, 25856, 25834, 25789, 25722],
     [25700, 25633, 25589, 25567, 25523, 25501, 25457, 25392],
     [25370, 25306, 25263, 25241, 25198, 25177, 25134, 25071],
     [25049, 24986, 24944, 24923, 24882, 24861, 24819, 24757],
     [24736, 24675, 24634, 24613, 24573, 24552, 24512, 24451],
     [24431, 24371, 24331, 24311, 24271, 24252, 24212, 24153],
     [24133, 24075, 24036, 24016, 23977, 23958, 23919, 23862],
     [23843, 23785, 23747, 23728, 23691, 23672, 23634, 23578],
     [23559, 23503, 23466, 23447, 23410, 23392, 23355, 23300],
     [23282, 23227, 23191, 23173, 23137, 23119, 23083, 23029],
     [23011, 22958, 22922, 22905, 22869, 22852, 22817, 22764],
     [22747, 22695, 22660, 22643, 22608, 22591, 22557, 22506],
     [22488, 22437, 22404, 22387, 22353, 22336, 22303, 22253],
     [22236, 22186, 22153, 22136, 22103, 22087, 22054, 22005],
     [21989, 21940, 21908, 21892, 21859, 21843, 21811, 21763],
     [21747, 21700, 21668, 21652, 21621, 21605, 21574, 21527],
     [21511, 21464, 21433, 21418, 21387, 21372, 21341, 21295],
     [21280, 21234, 21204, 21189, 21159, 21143, 21113, 21068],
     [21054, 21009, 20979, 20964, 20935, 20920, 20891, 20847],
     [20832, 20788, 20759, 20745, 20716, 20701, 20672, 20629],
     [20615, 20572, 20544, 20530, 20501, 20487, 20459, 20417],
     [20403, 20361, 20333, 20319, 20291, 20277, 20250, 20208],
     [20194, 20153, 20126, 20112, 20085, 20072, 20045, 20004],
     [19991, 19950, 19923, 19910, 19883, 19870, 19844, 19804],
     [19791, 19751, 19725, 19712, 19686, 19673, 19647, 19608]]"

definition wheel_59393339_2 :: "nat list list" where
  "wheel_59393339_2 =
    [[19595, 19556, 19530, 19518, 19492, 19479, 19454, 19415],
     [19403, 19365, 19340, 19327, 19302, 19289, 19264, 19227],
     [19214, 19177, 19152, 19140, 19115, 19103, 19079, 19042],
     [19030, 18993, 18969, 18957, 18933, 18921, 18897, 18861],
     [18849, 18813, 18789, 18777, 18753, 18741, 18718, 18683],
     [18671, 18636, 18612, 18601, 18577, 18566, 18543, 18508],
     [18496, 18462, 18439, 18427, 18405, 18393, 18370, 18336],
     [18325, 18291, 18269, 18258, 18235, 18224, 18202, 18168],
     [18157, 18124, 18102, 18091, 18069, 18058, 18036, 18003],
     [17992, 17959, 17938, 17927, 17905, 17894, 17873, 17841],
     [17830, 17798, 17777, 17766, 17745, 17734, 17713, 17681],
     [17671, 17639, 17618, 17608, 17587, 17577, 17556, 17525],
     [17514, 17484, 17463, 17453, 17432, 17422, 17402, 17371],
     [17361, 17331, 17310, 17300, 17280, 17270, 17250, 17220],
     [17210, 17180, 17160, 17150, 17131, 17121, 17101, 17071],
     [17062, 17032, 17013, 17003, 16984, 16974, 16954, 16926],
     [16916, 16887, 16868, 16858, 16839, 16830, 16811, 16782],
     [16773, 16744, 16725, 16716, 16697, 16688, 16669, 16641],
     [16632, 16604, 16585, 16576, 16557, 16548, 16530, 16502],
     [16493, 16466, 16447, 16438, 16420, 16411, 16393, 16366],
     [16357, 16330, 16312, 16303, 16285, 16276, 16258, 16232],
     [16223, 16196, 16179, 16170, 16152, 16143, 16126, 16100],
     [16091, 16065, 16047, 16039, 16021, 16013, 15996, 15970],
     [15961, 15935, 15918, 15910, 15893, 15884, 15867, 15842],
     [15834, 15808, 15791, 15783, 15766, 15758, 15741, 15716],
     [15708, 15683, 15666, 15658, 15642, 15633, 15617, 15592],
     [15584, 15560, 15543, 15535, 15519, 15511, 15495, 15471],
     [15462, 15438, 15422, 15414, 15398, 15390, 15374, 15351],
     [15343, 15319, 15303, 15295, 15279, 15272, 15256, 15232],
     [15225, 15201, 15186, 15178, 15162, 15155, 15139, 15116],
     [15108, 15085, 15070, 15062, 15047, 15040, 15024, 15002],
     [14994, 14971, 14956, 14949, 14934, 14926, 14911, 14889],
     [14881, 14859, 14844, 14837, 14822, 14815, 14800, 14778],
     [14770, 14748, 14734, 14726, 14712, 14704, 14690, 14668],
     [14661, 14639, 14625, 14618, 14603, 14596, 14582, 14560],
     [14553, 14532, 14518, 14510, 14496, 14489, 14475, 14454],
     [14447, 14426, 14412, 14405, 14391, 14384, 14370, 14349],
     [14342, 14322, 14308, 14301, 14287, 14280, 14266, 14246],
     [14239, 14219, 14205, 14198, 14185, 14178, 14164, 14144],
     [14137, 14117, 14104, 14097, 14084, 14077, 14064, 14044],
     [14037, 14017, 14004, 13997, 13984, 13978, 13965, 13945],
     [13938, 13919, 13906, 13899, 13886, 13880, 13867, 13847],
     [13841, 13822, 13809, 13802, 13789, 13783, 13770, 13751],
     [13745, 13726, 13713, 13707, 13694, 13688, 13675, 13656],
     [13650, 13631, 13619, 13612, 13600, 13594, 13581, 13563],
     [13557, 13538, 13526, 13519, 13507, 13501, 13489, 13470],
     [13464, 13446, 13434, 13428, 13416, 13410, 13398, 13379],
     [13373, 13355, 13343, 13337, 13325, 13319, 13307, 13290],
     [13284, 13266, 13254, 13248, 13236, 13230, 13219, 13201],
     [13195, 13178, 13166, 13160, 13148, 13143, 13131, 13114],
     [13108, 13090, 13079, 13073, 13062, 13056, 13044, 13027],
     [13021, 13004, 12993, 12987, 12976, 12970, 12959, 12942],
     [12936, 12920, 12908, 12903, 12891, 12886, 12875, 12858],
     [12852, 12836, 12825, 12819, 12808, 12803, 12792, 12775],
     [12770, 12753, 12742, 12737, 12726, 12720, 12709, 12693],
     [12688, 12671, 12661, 12655, 12644, 12639, 12628, 12612],
     [12607, 12591, 12580, 12575, 12564, 12559, 12548, 12532],
     [12527, 12511, 12501, 12495, 12485, 12480, 12469, 12454],
     [12448, 12433, 12422, 12417, 12407, 12402, 12391, 12376],
     [12371, 12355, 12345, 12340, 12329, 12324, 12314, 12299],
     [12294, 12278, 12268, 12263, 12253, 12248, 12238, 12223],
     [12218, 12203, 12193, 12188, 12178, 12173, 12163, 12148],
     [12143, 12128, 12118, 12113, 12103, 12098, 12089, 12074],
     [12069, 12054, 12044, 12040, 12030, 12025, 12015, 12001],
     [11996, 11981, 11972, 11967, 11957, 11952, 11943, 11928],
     [11923, 11909, 11900, 11895, 11885, 11881, 11871, 11857],
     [11852, 11838, 11828, 11824, 11814, 11810, 11800, 11786],
     [11782, 11768, 11758, 11754, 11744, 11740, 11730, 11716],
     [11712, 11698, 11689, 11684, 11675, 11670, 11661, 11648],
     [11643, 11629, 11620, 11616, 11607, 11602, 11593, 11579],
     [11575, 11561, 11552, 11548, 11539, 11534, 11525, 11512],
     [11508, 11494, 11485, 11481, 11472, 11468, 11459, 11446],
     [11441, 11428, 11419, 11415, 11406, 11402, 11393, 11380],
     [11375, 11362, 11354, 11349, 11341, 11336, 11328, 11315],
     [11310, 11297, 11289, 11285, 11276, 11272, 11263, 11250],
     [11246, 11233, 11225, 11221, 11212, 11208, 11199, 11187],
     [11183, 11170, 11162, 11157, 11149, 11145, 11136, 11124],
     [11120, 11107, 11099, 11095, 11087, 11082, 11074, 11062],
     [11058, 11045, 11037, 11033, 11025, 11021, 11013, 11000],
     [10996, 10984, 10976, 10972, 10964, 10960, 10952, 10940],
     [10935, 10923, 10915, 10911, 10903, 10899, 10891, 10879],
     [10875, 10863, 10856, 10852, 10844, 10840, 10832, 10820],
     [10816, 10804, 10796, 10792, 10785, 10781, 10773, 10761],
     [10757, 10746, 10738, 10734, 10726, 10722, 10715, 10703],
     [10699, 10688, 10680, 10676, 10668, 10664, 10657, 10645],
     [10642, 10630, 10623, 10619, 10611, 10607, 10600, 10588],
     [10585, 10573, 10566, 10562, 10555, 10551, 10543, 10532],
     [10528, 10517, 10510, 10506, 10499, 10495, 10487, 10476],
     [10473, 10462, 10454, 10451, 10443, 10440, 10432, 10421],
     [10418, 10407, 10399, 10396, 10388, 10385, 10378, 10367],
     [10363, 10352, 10345, 10341, 10334, 10331, 10323, 10313],
     [10309, 10298, 10291, 10288, 10281, 10277, 10270, 10259],
     [10256, 10245, 10238, 10234, 10227, 10224, 10217, 10206],
     [10203, 10192, 10185, 10182, 10175, 10171, 10164, 10154],
     [10150, 10140, 10133, 10130, 10123, 10119, 10112, 10102],
     [10099, 10088, 10082, 10078, 10071, 10068, 10061, 10051],
     [10047, 10037, 10030, 10027, 10020, 10017, 10010, 10000],
     [9997, 9987, 9980, 9977, 9970, 9966, 9960, 9950],
     [9946, 9936, 9930, 9927, 9920, 9917, 9910, 9900],
     [9897, 9887, 9880, 9877, 9870, 9867, 9861, 9851]]"

definition wheel_59393339_3 :: "nat list list" where
  "wheel_59393339_3 =
    [[9848, 9838, 9831, 9828, 9821, 9818, 9812, 9802],
     [9799, 9789, 9783, 9779, 9773, 9770, 9763, 9754],
     [9750, 9741, 9735, 9731, 9725, 9722, 9715, 9706],
     [9703, 9693, 9687, 9684, 9677, 9674, 9668, 9659],
     [9655, 9646, 9640, 9637, 9630, 9627, 9621, 9612],
     [9609, 9599, 9593, 9590, 9584, 9581, 9574, 9565],
     [9562, 9553, 9547, 9544, 9538, 9534, 9528, 9519],
     [9516, 9507, 9501, 9498, 9492, 9489, 9483, 9474],
     [9471, 9462, 9456, 9453, 9447, 9444, 9438, 9429],
     [9426, 9417, 9411, 9408, 9402, 9399, 9393, 9384],
     [9381, 9372, 9366, 9363, 9357, 9354, 9348, 9340],
     [9337, 9328, 9322, 9319, 9313, 9310, 9304, 9296],
     [9293, 9284, 9278, 9275, 9270, 9267, 9261, 9252],
     [9249, 9241, 9235, 9232, 9226, 9224, 9218, 9209],
     [9206, 9198, 9192, 9189, 9184, 9181, 9175, 9167],
     [9164, 9155, 9150, 9147, 9141, 9138, 9133, 9124],
     [9121, 9113, 9108, 9105, 9099, 9096, 9091, 9082],
     [9080, 9071, 9066, 9063, 9058, 9055, 9049, 9041],
     [9038, 9030, 9024, 9022, 9016, 9014, 9008, 9000],
     [8997, 8989, 8984, 8981, 8975, 8973, 8967, 8959],
     [8956, 8948, 8943, 8940, 8935, 8932, 8927, 8919],
     [8916, 8908, 8903, 8900, 8895, 8892, 8887, 8879],
     [8876, 8868, 8863, 8860, 8855, 8852, 8847, 8839],
     [8836, 8829, 8823, 8821, 8815, 8813, 8808, 8800],
     [8797, 8789, 8784, 8782, 8776, 8774, 8769, 8761],
     [8758, 8751, 8745, 8743, 8738, 8735, 8730, 8722],
     [8720, 8712, 8707, 8704, 8699, 8697, 8692, 8684],
     [8681, 8674, 8669, 8666, 8661, 8659, 8654, 8646],
     [8644, 8636, 8631, 8628, 8623, 8621, 8616, 8608],
     [8606, 8599, 8594, 8591, 8586, 8584, 8579, 8571],
     [8569, 8561, 8556, 8554, 8549, 8547, 8542, 8534],
     [8532, 8524, 8520, 8517, 8512, 8510, 8505, 8498],
     [8495, 8488, 8483, 8481, 8476, 8473, 8469, 8461],
     [8459, 8452, 8447, 8444, 8440, 8437, 8432, 8425],
     [8423, 8416, 8411, 8409, 8404, 8401, 8397, 8390],
     [8387, 8380, 8375, 8373, 8368, 8366, 8361, 8354],
     [8352, 8345, 8340, 8338, 8333, 8331, 8326, 8319],
     [8317, 8310, 8305, 8303, 8298, 8296, 8291, 8284],
     [8282, 8275, 8270, 8268, 8263, 8261, 8257, 8250],
     [8247, 8241, 8236, 8234, 8229, 8227, 8222, 8215],
     [8213, 8206, 8202, 8200, 8195, 8193, 8188, 8182],
     [8179, 8173, 8168, 8166, 8161, 8159, 8155, 8148],
     [8146, 8139, 8134, 8132, 8128, 8126, 8121, 8114],
     [8112, 8106, 8101, 8099, 8095, 8092, 8088, 8081],
     [8079, 8073, 8068, 8066, 8062, 8059, 8055, 8048],
     [8046, 8040, 8035, 8033, 8029, 8027, 8022, 8016],
     [8014, 8007, 8003, 8001, 7996, 7994, 7990, 7984],
     [7981, 7975, 7971, 7969, 7964, 7962, 7958, 7951],
     [7949, 7943, 7939, 7937, 7932, 7930, 7926, 7920],
     [7918, 7911, 7907, 7905, 7901, 7899, 7894, 7888],
     [7886, 7880, 7876, 7873, 7869, 7867, 7863, 7857],
     [7855, 7848, 7844, 7842, 7838, 7836, 7832, 7826],
     [7824, 7817, 7813, 7811, 7807, 7805, 7801, 7795],
     [7793, 7787, 7783, 7781, 7777, 7775, 7770, 7764],
     [7762, 7756, 7752, 7750, 7746, 7744, 7740, 7734],
     [7732, 7726, 7722, 7720, 7716, 7714, 7710, 7704]]"

definition wheel_73939133_1 :: "nat list list" where
  "wheel_73939133_1 =
    [[2385133, 1998354, 1803393, 1719514, 1573173, 1508961, 1395077, 1253205],
     [1212116, 1103569, 1041396, 1012864, 960248, 935938, 890832, 830776],
     [812517, 762259, 732070, 717855, 691019, 678340, 654328, 621337],
     [611067, 582197, 564420, 555933, 539701, 531936, 517056, 496235],
     [489663, 470949, 459249, 453614, 442749, 437509, 427393, 413067],
     [408503, 395396, 387115, 383104, 375325, 371553, 364232, 353775],
     [350422, 340733, 334566, 331565, 325723, 322878, 317335, 309368],
     [306801, 299348, 294578, 292249, 287700, 285479, 281137, 274866],
     [272838, 266928, 263128, 261269, 257627, 255844, 252351, 247288],
     [245644, 240844, 237746, 236227, 233246, 231784, 228913, 224739],
     [223381, 219403, 216830, 215565, 213081, 211859, 209459, 205958],
     [204817, 201469, 199296, 198228, 196125, 195090, 193052, 190074],
     [189102, 186244, 184386, 183471, 181668, 180780, 179029, 176465],
     [175627, 173159, 171552, 170760, 169197, 168426, 166905, 164675],
     [163944, 161792, 160388, 159695, 158327, 157652, 156319, 154361],
     [153719, 151825, 150588, 149977, 148770, 148174, 146996, 145263],
     [144694, 143015, 141917, 141375, 140301, 139771, 138722, 137178],
     [136671, 135172, 134190, 133705, 132745, 132270, 131330, 129945],
     [129490, 128144, 127261, 126825, 125961, 125533, 124686, 123437],
     [123026, 121810, 121013, 120618, 119836, 119449, 118682, 117550],
     [117177, 116073, 115349, 114990, 114279, 113927, 113229, 112198],
     [111859, 110853, 110192, 109864, 109215, 108894, 108256, 107313],
     [107003, 106081, 105476, 105176, 104581, 104286, 103701, 102836],
     [102550, 101704, 101147, 100871, 100324, 100052, 99514, 98717],
     [98454, 97673, 97160, 96905, 96400, 96149, 95652, 94915],
     [94672, 93950, 93475, 93239, 92771, 92539, 92078, 91395],
     [91170, 90500, 90059, 89840, 89406, 89190, 88762, 88127],
     [87918, 87295, 86884, 86681, 86276, 86075, 85676, 85085],
     [84889, 84309, 83926, 83736, 83358, 83171, 82798, 82245],
     [82063, 81520, 81162, 80984, 80631, 80456, 80107, 79590],
     [79419, 78910, 78575, 78408, 78077, 77912, 77585, 77100],
     [76939, 76462, 76147, 75990, 75679, 75525, 75217, 74761],
     [74610, 74161, 73865, 73717, 73425, 73279, 72990, 72560],
     [72418, 71995, 71715, 71577, 71300, 71163, 70890, 70485],
     [70351, 69951, 69688, 69557, 69296, 69166, 68908, 68525],
     [68398, 68021, 67771, 67647, 67401, 67278, 67034, 66671],
     [66551, 66194, 65958, 65840, 65607, 65490, 65259, 64915],
     [64802, 64463, 64239, 64127, 63905, 63795, 63576, 63249],
     [63141, 62819, 62607, 62501, 62290, 62185, 61977, 61667],
     [61564, 61258, 61056, 60955, 60755, 60655, 60457, 60162],
     [60064, 59772, 59580, 59484, 59293, 59198, 59009, 58728],
     [58635, 58357, 58173, 58082, 57900, 57810, 57629, 57361],
     [57272, 57007, 56832, 56745, 56571, 56485, 56313, 56056],
     [55972, 55719, 55551, 55468, 55302, 55219, 55055, 54810],
     [54729, 54487, 54327, 54247, 54088, 54009, 53852, 53617],
     [53540, 53308, 53155, 53079, 52927, 52851, 52700, 52476],
     [52401, 52180, 52033, 51960, 51814, 51741, 51597, 51382],
     [51310, 51098, 50957, 50887, 50747, 50677, 50539, 50332],
     [50264, 50060, 49925, 49857, 49723, 49656, 49523, 49325],
     [49259, 49063, 48933, 48869, 48740, 48676, 48548, 48357],
     [48294, 48106, 47981, 47919, 47795, 47733, 47610, 47427],
     [47366, 47185, 47065, 47005, 46885, 46826, 46708, 46531],
     [46473, 46298, 46183, 46125, 46010, 45953, 45839, 45669],
     [45613, 45445, 45333, 45278, 45167, 45112, 45002, 44838],
     [44784, 44622, 44514, 44461, 44354, 44301, 44195, 44037],
     [43985, 43828, 43725, 43673, 43570, 43519, 43416, 43264],
     [43213, 43062, 42962, 42913, 42813, 42764, 42665, 42518],
     [42469, 42323, 42226, 42178, 42082, 42034, 41939, 41797],
     [41749, 41608, 41515, 41468, 41376, 41329, 41237, 41100],
     [41054, 40918, 40827, 40782, 40692, 40648, 40559, 40425],
     [40381, 40249, 40162, 40118, 40032, 39988, 39902, 39773],
     [39730, 39603, 39518, 39476, 39392, 39350, 39266, 39141],
     [39100, 38976, 38894, 38853, 38772, 38731, 38650, 38530],
     [38489, 38370, 38290, 38250, 38171, 38132, 38054, 37936],
     [37898, 37781, 37704, 37666, 37589, 37551, 37475, 37361],
     [37324, 37211, 37136, 37099, 37025, 36988, 36914, 36803],
     [36767, 36657, 36585, 36549, 36477, 36441, 36369, 36262],
     [36226, 36120, 36050, 36015, 35945, 35910, 35840, 35736],
     [35702, 35599, 35530, 35496, 35428, 35394, 35326, 35225],
     [35192, 35092, 35025, 34992, 34926, 34893, 34827, 34729],
     [34696, 34599, 34534, 34502, 34438, 34406, 34342, 34246],
     [34215, 34120, 34057, 34026, 33963, 33932, 33870, 33777],
     [33746, 33654, 33593, 33562, 33502, 33471, 33411, 33320],
     [33290, 33201, 33141, 33112, 33052, 33023, 32964, 32876],
     [32847, 32759, 32701, 32673, 32615, 32586, 32529, 32443],
     [32415, 32330, 32273, 32245, 32189, 32161, 32105, 32022],
     [31994, 31911, 31856, 31829, 31774, 31747, 31692, 31611],
     [31584, 31503, 31450, 31423, 31370, 31343, 31290, 31211],
     [31184, 31106, 31053, 31027, 30975, 30949, 30898, 30820],
     [30795, 30718, 30667, 30641, 30591, 30565, 30515, 30440],
     [30415, 30340, 30290, 30265, 30216, 30191, 30142, 30068],
     [30044, 29971, 29922, 29898, 29850, 29826, 29778, 29706],
     [29682, 29611, 29563, 29540, 29493, 29469, 29422, 29352],
     [29329, 29259, 29213, 29190, 29144, 29121, 29075, 29007],
     [28984, 28916, 28871, 28848, 28803, 28781, 28736, 28669],
     [28647, 28581, 28536, 28514, 28470, 28449, 28405, 28340],
     [28318, 28253, 28210, 28188, 28145, 28124, 28081, 28017],
     [27996, 27933, 27891, 27870, 27828, 27807, 27765, 27702],
     [27682, 27620, 27578, 27558, 27517, 27496, 27456, 27395],
     [27374, 27314, 27273, 27253, 27213, 27193, 27153, 27093],
     [27074, 27014, 26975, 26955, 26916, 26896, 26857, 26799],
     [26779, 26721, 26683, 26663, 26625, 26606, 26568, 26510],
     [26491, 26435, 26397, 26378, 26340, 26322, 26284, 26228],
     [26210, 26154, 26117, 26099, 26062, 26044, 26007, 25952],
     [25934, 25879, 25843, 25825, 25789, 25771, 25735, 25682],
     [25664, 25611, 25575, 25557, 25522, 25505, 25469, 25417],
     [25399, 25347, 25312, 25295, 25261, 25243, 25209, 25157],
     [25140, 25089, 25055, 25038, 25004, 24987, 24954, 24903],
     [24886, 24836, 24803, 24786, 24753, 24737, 24704, 24654],
     [24638, 24589, 24556, 24540, 24507, 24491, 24458, 24410]]"

definition wheel_73939133_2 :: "nat list list" where
  "wheel_73939133_2 =
    [[24394, 24346, 24314, 24298, 24266, 24250, 24218, 24171],
     [24155, 24107, 24076, 24060, 24029, 24014, 23982, 23936],
     [23920, 23874, 23843, 23828, 23797, 23782, 23751, 23706],
     [23690, 23645, 23615, 23600, 23570, 23554, 23525, 23480],
     [23465, 23420, 23391, 23376, 23346, 23332, 23302, 23258],
     [23243, 23200, 23171, 23156, 23127, 23113, 23084, 23041],
     [23026, 22983, 22955, 22941, 22912, 22898, 22870, 22827],
     [22813, 22771, 22743, 22729, 22701, 22687, 22659, 22618],
     [22604, 22563, 22535, 22521, 22494, 22480, 22453, 22412],
     [22399, 22358, 22331, 22317, 22290, 22277, 22250, 22210],
     [22197, 22157, 22130, 22117, 22091, 22077, 22051, 22012],
     [21999, 21959, 21933, 21920, 21894, 21881, 21856, 21817],
     [21804, 21766, 21740, 21727, 21702, 21689, 21663, 21625],
     [21613, 21575, 21550, 21537, 21512, 21500, 21475, 21437],
     [21425, 21388, 21363, 21351, 21326, 21314, 21289, 21252],
     [21240, 21204, 21179, 21167, 21143, 21131, 21107, 21071],
     [21059, 21023, 20999, 20987, 20963, 20951, 20928, 20892],
     [20880, 20845, 20822, 20810, 20786, 20775, 20751, 20717],
     [20705, 20670, 20647, 20636, 20613, 20601, 20578, 20544],
     [20532, 20498, 20476, 20464, 20442, 20430, 20408, 20374],
     [20363, 20329, 20307, 20296, 20273, 20262, 20240, 20207],
     [20196, 20163, 20141, 20130, 20108, 20097, 20075, 20043],
     [20032, 19999, 19978, 19967, 19945, 19935, 19913, 19881],
     [19870, 19838, 19817, 19806, 19785, 19775, 19753, 19722],
     [19711, 19680, 19659, 19648, 19628, 19617, 19596, 19565],
     [19555, 19524, 19503, 19493, 19473, 19462, 19442, 19411],
     [19401, 19371, 19350, 19340, 19320, 19310, 19290, 19259],
     [19249, 19219, 19199, 19190, 19170, 19160, 19140, 19110],
     [19100, 19071, 19051, 19041, 19022, 19012, 18992, 18963],
     [18953, 18924, 18905, 18895, 18876, 18866, 18847, 18818],
     [18809, 18780, 18761, 18751, 18732, 18723, 18704, 18676],
     [18666, 18638, 18619, 18610, 18591, 18582, 18563, 18535],
     [18526, 18498, 18480, 18470, 18452, 18443, 18424, 18397],
     [18388, 18360, 18342, 18333, 18315, 18306, 18288, 18261],
     [18252, 18225, 18207, 18198, 18180, 18171, 18153, 18126],
     [18117, 18091, 18073, 18064, 18047, 18038, 18020, 17994],
     [17985, 17959, 17942, 17933, 17915, 17907, 17889, 17864],
     [17855, 17829, 17812, 17803, 17786, 17778, 17761, 17735],
     [17726, 17701, 17684, 17676, 17659, 17650, 17633, 17608],
     [17600, 17575, 17558, 17550, 17533, 17525, 17508, 17483],
     [17475, 17450, 17434, 17426, 17409, 17401, 17385, 17360],
     [17352, 17328, 17311, 17303, 17287, 17279, 17263, 17239],
     [17231, 17207, 17191, 17183, 17167, 17159, 17143, 17119],
     [17111, 17087, 17072, 17064, 17048, 17040, 17024, 17001],
     [16993, 16970, 16954, 16946, 16931, 16923, 16908, 16884],
     [16877, 16854, 16838, 16831, 16815, 16808, 16792, 16770],
     [16762, 16739, 16724, 16716, 16701, 16694, 16679, 16656],
     [16649, 16626, 16611, 16604, 16589, 16581, 16567, 16544],
     [16537, 16515, 16500, 16493, 16478, 16471, 16456, 16434],
     [16427, 16405, 16390, 16383, 16369, 16361, 16347, 16325],
     [16318, 16296, 16282, 16275, 16261, 16253, 16239, 16218],
     [16211, 16189, 16175, 16168, 16154, 16147, 16133, 16112],
     [16105, 16084, 16070, 16063, 16049, 16042, 16028, 16007],
     [16000, 15979, 15966, 15959, 15945, 15938, 15924, 15904],
     [15897, 15876, 15863, 15856, 15842, 15836, 15822, 15802],
     [15795, 15775, 15761, 15755, 15741, 15735, 15721, 15701],
     [15694, 15675, 15661, 15655, 15641, 15635, 15622, 15602],
     [15595, 15575, 15562, 15556, 15543, 15536, 15523, 15504],
     [15497, 15478, 15465, 15458, 15445, 15439, 15426, 15407],
     [15400, 15381, 15368, 15362, 15349, 15343, 15330, 15311],
     [15305, 15286, 15273, 15267, 15254, 15248, 15235, 15216],
     [15210, 15191, 15179, 15173, 15160, 15154, 15142, 15123],
     [15117, 15098, 15086, 15080, 15068, 15061, 15049, 15031],
     [15025, 15006, 14994, 14988, 14976, 14970, 14958, 14940],
     [14934, 14916, 14904, 14898, 14886, 14880, 14868, 14850],
     [14844, 14826, 14814, 14808, 14796, 14790, 14778, 14761],
     [14755, 14737, 14725, 14720, 14708, 14702, 14690, 14673],
     [14667, 14650, 14638, 14632, 14621, 14615, 14603, 14586],
     [14580, 14563, 14552, 14546, 14534, 14529, 14517, 14500],
     [14495, 14477, 14466, 14461, 14449, 14444, 14432, 14415],
     [14410, 14393, 14382, 14376, 14365, 14359, 14348, 14332],
     [14326, 14309, 14298, 14293, 14282, 14276, 14265, 14249],
     [14243, 14227, 14216, 14210, 14199, 14194, 14183, 14167],
     [14161, 14145, 14134, 14129, 14118, 14113, 14102, 14086],
     [14080, 14064, 14054, 14048, 14038, 14032, 14022, 14006],
     [14000, 13985, 13974, 13969, 13958, 13953, 13942, 13927],
     [13921, 13906, 13895, 13890, 13880, 13874, 13864, 13848],
     [13843, 13828, 13817, 13812, 13802, 13797, 13786, 13771],
     [13766, 13751, 13740, 13735, 13725, 13720, 13710, 13694],
     [13689, 13674, 13664, 13659, 13649, 13644, 13634, 13619],
     [13614, 13599, 13589, 13584, 13574, 13569, 13559, 13544],
     [13539, 13524, 13514, 13509, 13499, 13495, 13485, 13470],
     [13465, 13450, 13441, 13436, 13426, 13421, 13411, 13397],
     [13392, 13377, 13368, 13363, 13353, 13348, 13339, 13324],
     [13319, 13305, 13296, 13291, 13281, 13276, 13267, 13253],
     [13248, 13234, 13224, 13219, 13210, 13205, 13196, 13182],
     [13177, 13163, 13154, 13149, 13140, 13135, 13126, 13112],
     [13107, 13093, 13084, 13079, 13070, 13065, 13056, 13042],
     [13038, 13024, 13015, 13010, 13001, 12996, 12987, 12974],
     [12969, 12955, 12946, 12942, 12933, 12928, 12919, 12906],
     [12901, 12888, 12879, 12874, 12865, 12861, 12852, 12838],
     [12834, 12821, 12812, 12807, 12798, 12794, 12785, 12772],
     [12767, 12754, 12745, 12741, 12732, 12728, 12719, 12706],
     [12702, 12689, 12680, 12676, 12667, 12662, 12654, 12641],
     [12637, 12624, 12615, 12611, 12602, 12598, 12589, 12576],
     [12572, 12559, 12551, 12546, 12538, 12534, 12525, 12512],
     [12508, 12496, 12487, 12483, 12474, 12470, 12462, 12449],
     [12445, 12433, 12424, 12420, 12412, 12407, 12399, 12387],
     [12383, 12370, 12362, 12358, 12349, 12345, 12337, 12325],
     [12321, 12308, 12300, 12296, 12288, 12284, 12276, 12263]]"

definition wheel_73939133_3 :: "nat list list" where
  "wheel_73939133_3 =
    [[12259, 12247, 12239, 12235, 12227, 12223, 12215, 12203],
     [12199, 12187, 12179, 12175, 12167, 12163, 12155, 12143],
     [12139, 12127, 12119, 12115, 12107, 12103, 12095, 12083],
     [12079, 12067, 12059, 12055, 12048, 12044, 12036, 12024],
     [12020, 12008, 12001, 11997, 11989, 11985, 11977, 11966],
     [11962, 11950, 11943, 11939, 11931, 11927, 11919, 11908],
     [11904, 11893, 11885, 11881, 11873, 11870, 11862, 11851],
     [11847, 11835, 11828, 11824, 11817, 11813, 11805, 11794],
     [11790, 11779, 11771, 11768, 11760, 11756, 11749, 11738],
     [11734, 11723, 11715, 11712, 11704, 11701, 11693, 11682],
     [11678, 11667, 11660, 11656, 11649, 11645, 11638, 11627],
     [11623, 11612, 11605, 11601, 11594, 11591, 11583, 11572],
     [11569, 11558, 11551, 11547, 11540, 11536, 11529, 11518],
     [11515, 11504, 11497, 11493, 11486, 11483, 11475, 11465],
     [11461, 11451, 11443, 11440, 11433, 11429, 11422, 11412],
     [11408, 11398, 11391, 11387, 11380, 11377, 11370, 11359],
     [11356, 11345, 11338, 11335, 11328, 11324, 11317, 11307],
     [11303, 11293, 11286, 11283, 11276, 11272, 11266, 11255],
     [11252, 11242, 11235, 11231, 11225, 11221, 11214, 11204],
     [11201, 11191, 11184, 11180, 11174, 11170, 11163, 11153],
     [11150, 11140, 11133, 11130, 11123, 11120, 11113, 11103],
     [11100, 11090, 11083, 11080, 11073, 11070, 11063, 11053],
     [11050, 11040, 11034, 11030, 11024, 11020, 11014, 11004],
     [11001, 10991, 10984, 10981, 10975, 10971, 10965, 10955],
     [10952, 10942, 10936, 10932, 10926, 10923, 10916, 10907],
     [10903, 10894, 10887, 10884, 10878, 10875, 10868, 10859],
     [10855, 10846, 10839, 10836, 10830, 10827, 10820, 10811],
     [10808, 10798, 10792, 10789, 10783, 10779, 10773, 10764],
     [10761, 10751, 10745, 10742, 10736, 10732, 10726, 10717],
     [10714, 10704, 10698, 10695, 10689, 10686, 10680, 10670],
     [10667, 10658, 10652, 10649, 10643, 10640, 10634, 10624],
     [10621, 10612, 10606, 10603, 10597, 10594, 10588, 10579],
     [10576, 10567, 10561, 10558, 10552, 10549, 10543, 10534],
     [10531, 10522, 10516, 10513, 10507, 10504, 10498, 10489],
     [10486, 10477, 10471, 10468, 10462, 10459, 10453, 10444],
     [10441, 10433, 10427, 10424, 10418, 10415, 10409, 10400],
     [10397, 10389, 10383, 10380, 10374, 10371, 10365, 10357],
     [10354, 10345, 10339, 10336, 10331, 10328, 10322, 10313],
     [10310, 10302, 10296, 10293, 10287, 10285, 10279, 10270],
     [10267, 10259, 10253, 10250, 10245, 10242, 10236, 10228],
     [10225, 10216, 10211, 10208, 10202, 10199, 10194, 10185],
     [10183, 10174, 10169, 10166, 10160, 10157, 10152, 10143],
     [10141, 10132, 10127, 10124, 10118, 10116, 10110, 10102],
     [10099, 10091, 10085, 10083, 10077, 10074, 10069, 10061],
     [10058, 10050, 10044, 10041, 10036, 10033, 10028, 10020],
     [10017, 10009, 10003, 10001, 9995, 9993, 9987, 9979],
     [9976, 9968, 9963, 9960, 9955, 9952, 9947, 9939],
     [9936, 9928, 9923, 9920, 9915, 9912, 9907, 9899],
     [9896, 9888, 9883, 9880, 9875, 9873, 9867, 9859],
     [9857, 9849, 9844, 9841, 9836, 9833, 9828, 9820],
     [9817, 9810, 9804, 9802, 9797, 9794, 9789, 9781],
     [9779, 9771, 9766, 9763, 9758, 9755, 9750, 9742],
     [9740, 9732, 9727, 9724, 9719, 9717, 9712, 9704],
     [9702, 9694, 9689, 9686, 9681, 9679, 9674, 9666],
     [9663, 9656, 9651, 9648, 9643, 9641, 9636, 9628],
     [9626, 9618, 9613, 9611, 9606, 9603, 9598, 9591],
     [9588, 9581, 9576, 9573, 9568, 9566, 9561, 9554],
     [9551, 9544, 9539, 9536, 9531, 9529, 9524, 9517],
     [9514, 9507, 9502, 9500, 9495, 9492, 9487, 9480],
     [9478, 9470, 9466, 9463, 9458, 9456, 9451, 9444],
     [9441, 9434, 9429, 9427, 9422, 9420, 9415, 9408],
     [9405, 9398, 9393, 9391, 9386, 9384, 9379, 9372],
     [9370, 9362, 9358, 9355, 9351, 9348, 9344, 9336],
     [9334, 9327, 9322, 9320, 9315, 9313, 9308, 9301],
     [9299, 9292, 9287, 9285, 9280, 9278, 9273, 9266],
     [9264, 9257, 9252, 9250, 9245, 9243, 9238, 9232],
     [9229, 9222, 9218, 9215, 9211, 9209, 9204, 9197],
     [9195, 9188, 9183, 9181, 9177, 9174, 9170, 9163],
     [9161, 9154, 9149, 9147, 9142, 9140, 9136, 9129],
     [9127, 9120, 9115, 9113, 9109, 9106, 9102, 9095],
     [9093, 9086, 9082, 9080, 9075, 9073, 9068, 9062],
     [9060, 9053, 9048, 9046, 9042, 9040, 9035, 9029],
     [9026, 9020, 9015, 9013, 9009, 9007, 9002, 8996],
     [8993, 8987, 8983, 8980, 8976, 8974, 8969, 8963],
     [8961, 8954, 8950, 8948, 8943, 8941, 8937, 8930],
     [8928, 8922, 8917, 8915, 8911, 8909, 8905, 8898],
     [8896, 8890, 8885, 8883, 8879, 8877, 8873, 8866],
     [8864, 8858, 8853, 8851, 8847, 8845, 8841, 8834],
     [8832, 8826, 8822, 8820, 8815, 8813, 8809, 8803],
     [8801, 8794, 8790, 8788, 8784, 8782, 8778, 8771],
     [8769, 8763, 8759, 8757, 8753, 8751, 8747, 8740],
     [8738, 8732, 8728, 8726, 8722, 8720, 8716, 8709],
     [8707, 8701, 8697, 8695, 8691, 8689, 8685, 8679],
     [8677, 8671, 8667, 8665, 8661, 8658, 8654, 8648],
     [8646, 8640, 8636, 8634, 8630, 8628, 8624, 8618],
     [8616, 8610, 8606, 8604, 8600, 8598, 8594, 8588]]"

definition certs_8 :: "cert list" where
  "certs_8 =
    [Composite_cert 3 7799777,
     Composite_cert 691 33863,
     Composite_cert 3 7799779,
     Prime_cert [11699669, 7799779, 4679867, 3342762, 2127212, 1799949, 1376431, 1231544, 1017362, 806873] (wheel_23399339_1 @ wheel_23399339_2),
     Composite_cert 3 7997777,
     Composite_cert 7 3427619,
     Composite_cert 3 7997779,
     Composite_cert 179 134041,
     Composite_cert 3 9799997,
     Composite_cert 7 4199999,
     Composite_cert 3 9799999,
     Prime_cert [14699999, 9799999, 5879999, 4199999, 2672727, 2261538, 1729411, 1547368, 1278260, 1013793] (wheel_29399999_1 @ wheel_29399999_2),
     Composite_cert 3 12445997,
     Composite_cert 7 5333999,
     Composite_cert 3 12445999,
     Prime_cert [18668999, 12445999, 7467599, 5333999, 3394363, 2872153, 2196352, 1965157, 1623391, 1287517] (wheel_37337999_1 @ wheel_37337999_2 @ wheel_37337999_3),
     Composite_cert 3 19797777,
     Composite_cert 197 301489,
     Composite_cert 3 19797779,
     Prime_cert [29696669, 19797779, 11878667, 8484762, 5399394, 4568718, 3493725, 3125965, 2582319, 2048046] (wheel_59393339_1 @ wheel_59393339_2 @ wheel_59393339_3),
     Composite_cert 3 24646377,
     Prime_cert [36969566, 24646377, 14787826, 10562733, 6721739, 5687625, 4349360, 3891533, 3214744, 2549625] (wheel_73939133_1 @ wheel_73939133_2 @ wheel_73939133_3),
     Composite_cert 3 24646379,
     Composite_cert 83 890833,
     Composite_cert 3 24646437,
     Composite_cert 7 10562759,
     Composite_cert 3 24646439,
     Composite_cert 23 3214753,
     Composite_cert 59 1253209,
     Composite_cert 13 5687641,
     Composite_cert 5003 14779,
     Composite_cert 79 935941]"


section \<open>Properties\<close>

subsection \<open>The truncation loop\<close>

lemma word_pos_iff: "(0 < (v :: ull)) = (v \<noteq> 0)"
  by (simp add: word_neq_0_conv)

lemma truncations_0: "truncations 0 = []"
  by (simp add: truncations.simps [of 0])

lemma truncations_nz: "v \<noteq> 0 \<Longrightarrow> truncations v = v # truncations (v div 10)"
  by (simp add: truncations.simps [of v])

lemma trunc_loop_0: "trunc_loop miss 0 = (1, [])"
  by (simp add: trunc_loop.simps [of miss 0])

lemma trunc_loop_miss: "v \<noteq> 0 \<Longrightarrow> miss v \<Longrightarrow> trunc_loop miss v = (0, [v])"
  by (simp add: trunc_loop.simps [of miss v] word_pos_iff)

lemma trunc_loop_hit:
  "v \<noteq> 0 \<Longrightarrow> \<not> miss v \<Longrightarrow>
   trunc_loop miss v = (fst (trunc_loop miss (v div 10)), v # snd (trunc_loop miss (v div 10)))"
  by (simp add: trunc_loop.simps [of miss v] word_pos_iff split: prod.splits)

lemma trunc_loop_fst:
  "fst (trunc_loop miss v) = (if \<forall>t \<in> set (truncations v). \<not> miss t then 1 else 0)"
proof (induction miss v rule: trunc_loop.induct)
  case (1 miss v)
  show ?case
  proof (cases "v = 0")
    case True
    then show ?thesis
      by (simp add: trunc_loop_0 truncations_0)
  next
    case False
    then have pos: "0 < v"
      by (simp add: word_pos_iff)
    show ?thesis
    proof (cases "miss v")
      case True
      with False show ?thesis
        by (simp add: trunc_loop_miss truncations_nz)
    next
      case nm: False
      from "1.IH" [OF pos nm] False nm show ?thesis
        by (simp add: trunc_loop_hit truncations_nz)
    qed
  qed
qed

lemma trunc_loop_snd:
  "snd (trunc_loop miss v) =
     takeWhile (\<lambda>t. \<not> miss t) (truncations v) @ take 1 (dropWhile (\<lambda>t. \<not> miss t) (truncations v))"
proof (induction miss v rule: trunc_loop.induct)
  case (1 miss v)
  show ?case
  proof (cases "v = 0")
    case True
    then show ?thesis
      by (simp add: trunc_loop_0 truncations_0)
  next
    case False
    then have pos: "0 < v"
      by (simp add: word_pos_iff)
    show ?thesis
    proof (cases "miss v")
      case True
      with False show ?thesis
        by (simp add: trunc_loop_miss truncations_nz)
    next
      case nm: False
      from "1.IH" [OF pos nm] False nm show ?thesis
        by (simp add: trunc_loop_hit truncations_nz)
    qed
  qed
qed

lemma truncations_length: "unat v < 10 ^ n \<Longrightarrow> length (truncations v) \<le> n"
proof (induction n arbitrary: v)
  case 0
  then have "v = 0"
    by (simp add: unat_eq_0)
  then show ?case
    by (simp add: truncations_0)
next
  case (Suc n)
  have "unat (v div 10) < 10 ^ n"
    using Suc.prems by (simp add: unat_div less_mult_imp_div_less mult.commute)
  from Suc.IH [OF this] show ?case
    by (cases "v = 0") (simp_all add: truncations_0 truncations_nz)
qed

lemma truncations_le_20: "length (truncations v) \<le> 20"
proof -
  have "unat v < 2 ^ 64"
    using unsigned_less [of v] by simp
  also have "(2 :: nat) ^ 64 < 10 ^ 20"
    by simp
  finally show ?thesis
    by (rule truncations_length)
qed

lemma tested_le_truncations:
  "length (snd (trunc_loop miss v)) \<le> length (truncations v)"
proof -
  let ?ts = "truncations v" and ?P = "\<lambda>t. \<not> miss t"
  have "length (takeWhile ?P ?ts @ take 1 (dropWhile ?P ?ts))
      \<le> length (takeWhile ?P ?ts) + length (dropWhile ?P ?ts)"
    by simp
  also have "\<dots> = length (takeWhile ?P ?ts @ dropWhile ?P ?ts)"
    by (simp only: length_append)
  also have "\<dots> = length ?ts"
    by simp
  finally show ?thesis
    by (simp add: trunc_loop_snd)
qed

subsection \<open>The hash table\<close>

lemma hash_table_contains_01: "hash_table_contains hto v = 0 \<or> hash_table_contains hto v = 1"
  by (simp add: hash_table_contains_def Let_def split: option.splits)

lemma hash_table_miss_iff: "(hash_table_contains hto v = 0) = (hash_table_contains hto v \<noteq> 1)"
  using hash_table_contains_01 [of hto v] by auto

lemma hash_7_8: "hash_ull 7 8 = 3"
  by (simp add: hash_ull_def)

text \<open>
  C5.  Hash-set insertion is idempotent: on a well-formed table that already holds \<open>v\<close>
  (\<open>hash_table_contains\<close> returns 1), \<open>hash_table_add\<close> returns 1 (success) and leaves the
  table as it was, so every membership answer and the entry count are unchanged; it
  allocates nothing and prints nothing, also when the heap is exhausted.
\<close>

theorem hash_table_add_idempotent:
  assumes "ht_inv ht" and "hash_table_contains (Some ht) v = 1"
  shows "hash_table_add (Some ht) v s = (1, Some ht, s)"
  using assms(2)
  by (simp add: hash_table_contains_def hash_table_add_def Let_def split: if_splits)

text \<open>Inserting 7 into the table of 2, 3, 5 and 7, with no allocation available.\<close>

theorem hash_table_add_idempotent_witness:
  "ht_inv ht_2357 \<and> hash_table_contains (Some ht_2357) 7 = 1
   \<and> hash_table_add (Some ht_2357) 7 (sys_start 0) = (1, Some ht_2357, sys_start 0)"
proof -
  have inv: "ht_inv ht_2357"
    by (simp add: ht_inv_def ht_2357_def)
  have present: "hash_table_contains (Some ht_2357) 7 = 1"
    by (simp add: hash_table_contains_def ht_2357_def hash_7_8)
  from inv present hash_table_add_idempotent [OF inv present, of "sys_start 0"] show ?thesis
    by simp
qed

subsection \<open>The bit table\<close>

lemma bitset_miss_cases:
  "bitset_miss bs v = (if length bs \<le> unat v then Some True else Some (\<not> bs ! unat v))"
  by (simp add: bitset_miss_def vec_at_def)

lemma bitset_hit_iff:
  "(bitset_miss bs v \<noteq> Some False) = (\<not> (unat v < length bs \<and> bs ! unat v))"
  by (auto simp add: bitset_miss_cases)

text \<open>
  C6.  The bit-table test is a bounds-checked read.  \<open>bitset_miss\<close> never is \<open>None\<close>, the
  read out of bounds; for a value at or beyond the table's length it is true without any
  read, so the value counts as no member and a candidate that reaches it is classified as
  not right-truncatable; for a value below the length the read is in bounds and the test
  is the negated bit.
\<close>

theorem bitset_miss_bounds_checked:
  "bitset_miss bs v \<noteq> None
   \<and> (length bs \<le> unat v \<longrightarrow> bitset_miss bs v = Some True)
   \<and> (unat v < length bs \<longrightarrow>
        vec_at bs (unat v) = Some (bs ! unat v) \<and> bitset_miss bs v = Some (\<not> bs ! unat v))
   \<and> (v \<noteq> 0 \<and> length bs \<le> unat v \<longrightarrow>
        is_r_truncatable (\<lambda>t. bitset_miss bs t \<noteq> Some False) v = 0)"
proof -
  have far: "is_r_truncatable (\<lambda>t. bitset_miss bs t \<noteq> Some False) v = 0"
    if "v \<noteq> 0" and "length bs \<le> unat v"
  proof -
    have "bitset_miss bs v \<noteq> Some False"
      using that(2) by (simp add: bitset_miss_cases)
    with that(1) have "trunc_loop (\<lambda>t. bitset_miss bs t \<noteq> Some False) v = (0, [v])"
      using trunc_loop_miss [of v "\<lambda>t. bitset_miss bs t \<noteq> Some False"] by simp
    then show ?thesis
      by (simp add: is_r_truncatable_def)
  qed
  have "bitset_miss bs v \<noteq> None"
    by (cases "length bs \<le> unat v") (simp_all add: bitset_miss_cases)
  moreover have "length bs \<le> unat v \<longrightarrow> bitset_miss bs v = Some True"
    by (simp add: bitset_miss_cases)
  moreover have "unat v < length bs \<longrightarrow>
        vec_at bs (unat v) = Some (bs ! unat v) \<and> bitset_miss bs v = Some (\<not> bs ! unat v)"
    by (simp add: bitset_miss_cases vec_at_def)
  ultimately show ?thesis
    using far by blast
qed

text \<open>A table of length 3, queried at 5 (beyond it) and at 2 (inside, bit set).\<close>

theorem bitset_miss_bounds_checked_witness:
  "length [False, False, True] \<le> unat (5 :: ull)
   \<and> bitset_miss [False, False, True] 5 = Some True
   \<and> is_r_truncatable (\<lambda>t. bitset_miss [False, False, True] t \<noteq> Some False) 5 = 0
   \<and> unat (2 :: ull) < length [False, False, True]
   \<and> bitset_miss [False, False, True] 2 = Some False"
  using bitset_miss_bounds_checked [of "[False, False, True]" 5]
    bitset_miss_bounds_checked [of "[False, False, True]" 2]
  by simp

subsection \<open>Classification\<close>

text \<open>
  C1.  The truncation counter classifies a candidate \<open>v\<close> as right-truncatable exactly
  when the membership test succeeds for \<open>v\<close> and for every successive truncation of \<open>v\<close>
  down to its leading digit; the values it tests are the truncations up to and including
  the first one that is no known prime, and no further; and for a candidate inside the
  window both programs add one to the window's count exactly when all truncations pass
  (the membership test is \<open>hash_table_contains = 1\<close> in the hash variant and an in-bounds
  set bit in the bitset variant).
\<close>

theorem truncation_counter_classifies:
  "(is_r_truncatable miss v \<noteq> 0) = (\<forall>t \<in> set (truncations v). \<not> miss t)
   \<and> snd (trunc_loop miss v) =
       takeWhile (\<lambda>t. \<not> miss t) (truncations v)
       @ take 1 (dropWhile (\<lambda>t. \<not> miss t) (truncations v))
   \<and> (lo \<le> v \<and> v \<le> hi \<longrightarrow>
        scan_hash ht lo hi (v # rest) c =
          scan_hash ht lo hi rest
            (if \<forall>t \<in> set (truncations v). hash_table_contains ht t = 1 then c + 1 else c))
   \<and> (lo \<le> v \<and> v \<le> hi \<longrightarrow>
        scan_bitset bs k lo hi (v # rest) ppd c =
          scan_bitset bs k lo hi rest (ppd[nat k := ppd ! nat k + 1])
            (if \<forall>t \<in> set (truncations v). unat t < length bs \<and> bs ! unat t
             then c + 1 else c))"
proof -
  have a: "(is_r_truncatable miss v \<noteq> 0) = (\<forall>t \<in> set (truncations v). \<not> miss t)" for miss
    by (simp add: is_r_truncatable_def trunc_loop_fst)
  have h: "(is_r_truncatable (\<lambda>t. hash_table_contains ht t = 0) v \<noteq> 0)
      = (\<forall>t \<in> set (truncations v). hash_table_contains ht t = 1)"
    using hash_table_miss_iff [of ht] by (simp add: a)
  have b: "(is_r_truncatable (\<lambda>t. bitset_miss bs t \<noteq> Some False) v \<noteq> 0)
      = (\<forall>t \<in> set (truncations v). unat t < length bs \<and> bs ! unat t)"
    by (simp add: a bitset_hit_iff)
  have in_window: "\<not> (v < lo \<or> hi < v)" if "lo \<le> v \<and> v \<le> hi"
    using that by (simp add: not_less)
  have sh: "scan_hash ht lo hi (v # rest) c =
          scan_hash ht lo hi rest
            (if \<forall>t \<in> set (truncations v). hash_table_contains ht t = 1 then c + 1 else c)"
    if "lo \<le> v \<and> v \<le> hi"
    using in_window [OF that] h by simp
  have sb: "scan_bitset bs k lo hi (v # rest) ppd c =
          scan_bitset bs k lo hi rest (ppd[nat k := ppd ! nat k + 1])
            (if \<forall>t \<in> set (truncations v). unat t < length bs \<and> bs ! unat t
             then c + 1 else c)"
    if "lo \<le> v \<and> v \<le> hi"
    using in_window [OF that] b by (simp add: Let_def)
  from a [of miss] trunc_loop_snd [of miss v] sh sb show ?thesis
    by blast
qed


text \<open>The candidate 7 in the window 1..9, against the table and the bit table of the
  primes below 10; and the window 10..99 against the bit table of the primes below 30:
  for 19 the test stops at the truncation 1 and the count stays, for 23 both truncations
  pass and the count goes up, and for 21 the test stops at 21 itself.\<close>

lemma truncations_7: "truncations 7 = [7]"
  by (simp add: truncations_nz truncations_0)

lemma truncations_2_digits:
  "truncations 19 = [19, 1]" "truncations 21 = [21, 2]" "truncations 23 = [23, 2]"
  by (simp_all add: truncations_nz truncations_0)

lemma bits_30_miss:
  "bitset_miss bits_30 19 = Some False" "bitset_miss bits_30 1 = Some True"
  "bitset_miss bits_30 21 = Some True" "bitset_miss bits_30 23 = Some False"
  "bitset_miss bits_30 2 = Some False"
  by (simp_all add: bitset_miss_def vec_at_def bits_30_def)

theorem truncation_counter_classifies_witness:
  "(1 :: ull) \<le> 7 \<and> (7 :: ull) \<le> 9
   \<and> set (truncations 7) = {7}
   \<and> hash_table_contains (Some ht_2357) 7 = 1
   \<and> is_r_truncatable (\<lambda>t. hash_table_contains (Some ht_2357) t = 0) 7 \<noteq> 0
   \<and> snd (trunc_loop (\<lambda>t. hash_table_contains (Some ht_2357) t = 0) 7) = [7]
   \<and> scan_hash (Some ht_2357) 1 9 [7] 0 = 1
   \<and> scan_bitset [False, False, True, True, False, True, False, True, False, False]
         1 1 9 [7] [0, 0] 0 = ([0, 1], 1)
   \<and> (10 :: ull) \<le> 19 \<and> (19 :: ull) \<le> 99 \<and> (10 :: ull) \<le> 23 \<and> (23 :: ull) \<le> 99
   \<and> truncations 19 = [19, 1] \<and> truncations 21 = [21, 2] \<and> truncations 23 = [23, 2]
   \<and> is_r_truncatable (\<lambda>t. bitset_miss bits_30 t \<noteq> Some False) 19 = 0
   \<and> snd (trunc_loop (\<lambda>t. bitset_miss bits_30 t \<noteq> Some False) 19) = [19, 1]
   \<and> is_r_truncatable (\<lambda>t. bitset_miss bits_30 t \<noteq> Some False) 21 = 0
   \<and> snd (trunc_loop (\<lambda>t. bitset_miss bits_30 t \<noteq> Some False) 21) = [21]
   \<and> is_r_truncatable (\<lambda>t. bitset_miss bits_30 t \<noteq> Some False) 23 \<noteq> 0
   \<and> snd (trunc_loop (\<lambda>t. bitset_miss bits_30 t \<noteq> Some False) 23) = [23, 2]
   \<and> scan_bitset bits_30 2 10 99 [19, 23] [0, 0, 0] 0 = ([0, 0, 2], 1)"
proof -
  let ?miss = "\<lambda>t. bitset_miss bits_30 t \<noteq> Some False"
  have present: "hash_table_contains (Some ht_2357) 7 = 1"
    by (simp add: hash_table_contains_def ht_2357_def hash_7_8)
  have window: "(1 :: ull) \<le> 7 \<and> (7 :: ull) \<le> 9"
    by simp
  have window2: "(10 :: ull) \<le> 19 \<and> (19 :: ull) \<le> 99" "(10 :: ull) \<le> 23 \<and> (23 :: ull) \<le> 99"
    by simp_all
  have known: "(unat (t :: ull) < length bits_30 \<and> bits_30 ! unat t) = (bitset_miss bits_30 t = Some False)"
    for t
    by (auto simp add: bitset_miss_cases)
  from present window truncations_7
    truncation_counter_classifies [where miss = "\<lambda>t. hash_table_contains (Some ht_2357) t = 0"
      and v = 7 and lo = 1 and hi = 9 and ht = "Some ht_2357" and rest = "[]" and c = 0
      and bs = "[False, False, True, True, False, True, False, True, False, False]"
      and k = 1 and ppd = "[0, 0]"]
  have one: "(1 :: ull) \<le> 7 \<and> (7 :: ull) \<le> 9
   \<and> set (truncations 7) = {7}
   \<and> hash_table_contains (Some ht_2357) 7 = 1
   \<and> is_r_truncatable (\<lambda>t. hash_table_contains (Some ht_2357) t = 0) 7 \<noteq> 0
   \<and> snd (trunc_loop (\<lambda>t. hash_table_contains (Some ht_2357) t = 0) 7) = [7]
   \<and> scan_hash (Some ht_2357) 1 9 [7] 0 = 1
   \<and> scan_bitset [False, False, True, True, False, True, False, True, False, False]
         1 1 9 [7] [0, 0] 0 = ([0, 1], 1)"
    by simp
  from window2 truncations_2_digits(1)
    truncation_counter_classifies [where miss = ?miss and v = 19 and lo = 10 and hi = 99
      and rest = "[23]" and c = 0 and bs = bits_30 and k = 2 and ppd = "[0, 0, 0]"]
  have c19: "is_r_truncatable ?miss 19 = 0" "snd (trunc_loop ?miss 19) = [19, 1]"
    "scan_bitset bits_30 2 10 99 [19, 23] [0, 0, 0] 0 = scan_bitset bits_30 2 10 99 [23] [0, 0, 1] 0"
    by (simp_all add: known bits_30_miss)
  from truncations_2_digits(2)
    truncation_counter_classifies [where miss = ?miss and v = 21]
  have c21: "is_r_truncatable ?miss 21 = 0" "snd (trunc_loop ?miss 21) = [21]"
    by (simp_all add: bits_30_miss)
  from window2 truncations_2_digits(3)
    truncation_counter_classifies [where miss = ?miss and v = 23 and lo = 10 and hi = 99
      and rest = "[]" and c = 0 and bs = bits_30 and k = 2 and ppd = "[0, 0, 1]"]
  have c23: "is_r_truncatable ?miss 23 \<noteq> 0" "snd (trunc_loop ?miss 23) = [23, 2]"
    "scan_bitset bits_30 2 10 99 [23] [0, 0, 1] 0 = ([0, 0, 2], 1)"
    by (simp_all add: known bits_30_miss)
  from one window2 truncations_2_digits c19 c21 c23 show ?thesis
    by (simp only: simp_thms)
qed

subsection \<open>Invalid input\<close>

text \<open>
  The check of the arguments.  When the argument count is not two (the program name and
  one positional argument), or the value that \<open>atoi\<close> returns for the argument is outside
  1..19, both programs exit with status 1 and the environment differs from the one at
  start only by one non-empty message appended to the error stream: no call of the prime
  generator is logged, no allocation is made and nothing is printed to the output.
\<close>

lemma bound_check_rejects:
  assumes "length argv \<noteq> 2 \<or> atoi (argv ! 1) < 1 \<or> atoi (argv ! 1) > 19"
  shows "\<exists>m. m \<noteq> [] \<and> main_hash atoi argv s = (1, print_err m s)
             \<and> main_bitset atoi elapsed argv s = (1, print_err m s)"
proof (cases "length argv \<noteq> 2")
  case True
  then show ?thesis
    by (intro exI [of _ "''Usage: '' @ argv0 argv @ '' <number_of_digits>'' @ nl"])
      (simp add: main_hash_def main_bitset_def)
next
  case False
  with assms have "atoi (argv ! 1) < 1 \<or> atoi (argv ! 1) > 19"
    by simp
  moreover have "err_digits \<noteq> []"
    by (simp add: err_digits_def)
  ultimately show ?thesis
    using False by (intro exI [of _ err_digits]) (simp add: main_hash_def main_bitset_def Let_def)
qed

lemma print_err_keeps:
  "avail (print_err m s) = avail s" "sieve_calls (print_err m s) = sieve_calls s"
  "stdout (print_err m s) = stdout s" "stderr (print_err m s) = stderr s @ [m]"
  by (simp_all add: print_err_def)

text \<open>The digit bounds 20 and 0, and a missing argument.\<close>

lemma bound_check_rejects_examples:
  "atoi_c ([''count_primes.out'', ''20''] ! 1) > 19
   \<and> main_hash atoi_c [''count_primes.out'', ''20''] (sys_start 100)
       = (1, print_err err_digits (sys_start 100))
   \<and> main_bitset atoi_c (''0.1'', ''100'', ''100000'') [''count_primes.out'', ''0''] (sys_start 100)
       = (1, print_err err_digits (sys_start 100))
   \<and> fst (main_hash atoi_c [''count_primes.out''] (sys_start 100)) = 1"
proof -
  have a20: "atoi_c ''20'' = 20" and a0: "atoi_c ''0'' = 0"
    by (simp_all add: atoi_c_def strtol_c_def is_space_def is_digit_def)
  have "err_digits \<noteq> []"
    by (simp add: err_digits_def)
  show ?thesis
    using bound_check_rejects [of "[''count_primes.out'', ''20'']" atoi_c "sys_start 100"]
      bound_check_rejects [of "[''count_primes.out'']" atoi_c "sys_start 100"]
    by (simp add: a20 a0 main_hash_def main_bitset_def Let_def)
qed

subsection \<open>The hash table as a set\<close>

lemma chain_find_set: "chain_find c v = (v \<in> set c)"
  by (induction c) auto

lemma hash_index_bound:
  assumes "n \<noteq> 0"
  shows "unat (hash_ull v n) < unat n"
proof -
  have "0 < n"
    using assms by (simp add: word_pos_iff)
  then have "hash_ull v n < n"
    by (simp add: hash_ull_def Let_def word_mod_less_divisor)
  then show ?thesis
    by (simp add: word_less_nat_alt)
qed

lemma set_concat_update:
  "i < length xss \<Longrightarrow> set (concat (xss[i := v # xss ! i])) = insert v (set (concat xss))"
proof (induction xss arbitrary: i)
  case Nil
  then show ?case by simp
next
  case (Cons xs xss)
  then show ?case
    by (cases i) auto
qed

lemma length_concat_update:
  "i < length xss \<Longrightarrow> length (concat (xss[i := v # xss ! i])) = Suc (length (concat xss))"
proof (induction xss arbitrary: i)
  case Nil
  then show ?case by simp
next
  case (Cons xs xss)
  then show ?case
    by (cases i) auto
qed

lemma distinct_concat_update:
  "i < length xss \<Longrightarrow> distinct (concat xss) \<Longrightarrow> v \<notin> set (concat xss)
   \<Longrightarrow> distinct (concat (xss[i := v # xss ! i]))"
proof (induction xss arbitrary: i)
  case Nil
  then show ?case by simp
next
  case (Cons xs xss)
  show ?case
  proof (cases i)
    case 0
    with Cons.prems show ?thesis
      by auto
  next
    case (Suc j)
    with Cons.prems have j: "j < length xss" and d: "distinct (concat xss)"
      and nv: "v \<notin> set (concat xss)"
      by auto
    from Cons.IH [OF j d nv] set_concat_update [OF j, of v] Cons.prems Suc show ?thesis
      by auto
  qed
qed

lemma placed_member:
  assumes "ht_placed ht"
  shows "(v \<in> set (ht_buckets ht ! unat (hash_ull v (ht_size ht))))
       = (v \<in> set (concat (ht_buckets ht)))"
proof
  assume "v \<in> set (ht_buckets ht ! unat (hash_ull v (ht_size ht)))"
  moreover have "unat (hash_ull v (ht_size ht)) < length (ht_buckets ht)"
    using assms hash_index_bound [of "ht_size ht" v] by (simp add: ht_placed_def ht_inv_def)
  ultimately show "v \<in> set (concat (ht_buckets ht))"
    by (auto intro: nth_mem)
next
  assume "v \<in> set (concat (ht_buckets ht))"
  then obtain c where c: "c \<in> set (ht_buckets ht)" and v: "v \<in> set c"
    by auto
  from c obtain i where i: "i < length (ht_buckets ht)" and ci: "ht_buckets ht ! i = c"
    by (auto simp add: in_set_conv_nth)
  with assms v have "unat (hash_ull v (ht_size ht)) = i"
    by (simp add: ht_placed_def)
  with ci v show "v \<in> set (ht_buckets ht ! unat (hash_ull v (ht_size ht)))"
    by simp
qed

lemma placed_contains:
  "ht_placed ht \<Longrightarrow>
   hash_table_contains (Some ht) v = (if v \<in> set (concat (ht_buckets ht)) then 1 else 0)"
  by (simp add: hash_table_contains_def Let_def chain_find_set placed_member)

lemma create_placed:
  assumes "n \<noteq> 0" and "hash_table_create n s = (Some ht, s1)"
  shows "ht_placed ht \<and> concat (ht_buckets ht) = [] \<and> ht_size ht = n
         \<and> s1 = s\<lparr>avail := avail s - 2\<rparr> \<and> 2 \<le> avail s"
proof -
  from assms(2) have ht: "ht = \<lparr>ht_size = n, ht_count = 0, ht_buckets = replicate (unat n) []\<rparr>"
    and s1: "s1 = s\<lparr>avail := avail s - 2\<rparr>" and av: "2 \<le> avail s"
    by (auto simp add: hash_table_create_def split: if_splits)
  have "concat (replicate k ([] :: ull list)) = []" for k
    by (induction k) simp_all
  with ht s1 av assms(1) show ?thesis
    by (simp add: ht_placed_def ht_inv_def)
qed

lemma add_placed:
  assumes "ht_placed ht" and "hash_table_add (Some ht) v s = (r, hto, s')" and "r \<noteq> 0"
  shows "\<exists>ht'. hto = Some ht' \<and> ht_placed ht' \<and> ht_size ht' = ht_size ht
          \<and> set (concat (ht_buckets ht')) = insert v (set (concat (ht_buckets ht)))
          \<and> stdout s' = stdout s \<and> stderr s' = stderr s \<and> sieve_calls s' = sieve_calls s
          \<and> sieve_fails s' = sieve_fails s
          \<and> avail s' + length (concat (ht_buckets ht')) = avail s + length (concat (ht_buckets ht))"
proof (cases "v \<in> set (concat (ht_buckets ht))")
  case True
  with assms(1) have "hash_table_contains (Some ht) v = 1"
    by (simp add: placed_contains)
  then have "hash_table_add (Some ht) v s = (1, Some ht, s)"
    by (simp add: hash_table_contains_def hash_table_add_def Let_def split: if_splits)
  with assms True show ?thesis
    by auto
next
  case False
  let ?i = "unat (hash_ull v (ht_size ht))"
  let ?ht' = "ht\<lparr>ht_buckets := (ht_buckets ht)[?i := v # ht_buckets ht ! ?i],
                  ht_count := ht_count ht + 1\<rparr>"
  have i: "?i < length (ht_buckets ht)"
    using assms(1) hash_index_bound [of "ht_size ht" v] by (simp add: ht_placed_def ht_inv_def)
  from False assms(1) have nf: "\<not> chain_find (ht_buckets ht ! ?i) v"
    by (simp add: chain_find_set placed_member)
  with assms(2,3) have av: "avail s \<noteq> 0" and hto: "hto = Some ?ht'"
    and s': "s' = s\<lparr>avail := avail s - 1\<rparr>"
    by (auto simp add: hash_table_add_def Let_def perror_def print_err_def split: if_splits)
  have placed: "\<forall>j < length (ht_buckets ?ht'). \<forall>x \<in> set (ht_buckets ?ht' ! j).
      unat (hash_ull x (ht_size ?ht')) = j"
  proof (intro allI impI ballI)
    fix j x
    assume j: "j < length (ht_buckets ?ht')" and x: "x \<in> set (ht_buckets ?ht' ! j)"
    show "unat (hash_ull x (ht_size ?ht')) = j"
    proof (cases "j = ?i")
      case True
      with x i have "x = v \<or> x \<in> set (ht_buckets ht ! ?i)"
        by simp
      with True i assms(1) show ?thesis
        by (auto simp add: ht_placed_def)
    next
      case False
      with x j have "x \<in> set (ht_buckets ht ! j)" and "j < length (ht_buckets ht)"
        by simp_all
      with assms(1) show ?thesis
        by (simp add: ht_placed_def)
    qed
  qed
  have cnt: "ht_count ?ht' = word_of_nat (length (concat (ht_buckets ?ht')))"
    using assms(1) by (simp add: ht_placed_def length_concat_update [OF i])
  have dist: "distinct (concat (ht_buckets ?ht'))"
    using assms(1) False distinct_concat_update [OF i, of v] by (simp add: ht_placed_def)
  have inv: "ht_inv ?ht'"
    using assms(1) by (simp add: ht_placed_def ht_inv_def)
  from inv dist cnt placed have "ht_placed ?ht'"
    unfolding ht_placed_def by blast
  moreover have "set (concat (ht_buckets ?ht')) = insert v (set (concat (ht_buckets ht)))"
    using set_concat_update [OF i, of v] by simp
  moreover have "avail s' + length (concat (ht_buckets ?ht'))
      = avail s + length (concat (ht_buckets ht))"
    using av s' by (simp add: length_concat_update [OF i])
  ultimately show ?thesis
    using hto s' by simp
qed

lemma populate_placed:
  assumes "ht_placed ht" and "populate (Some ht) ps s = (None, hto, s')"
  shows "\<exists>ht'. hto = Some ht' \<and> ht_placed ht' \<and> ht_size ht' = ht_size ht
          \<and> set (concat (ht_buckets ht')) = set (concat (ht_buckets ht)) \<union> set ps
          \<and> stdout s' = stdout s \<and> stderr s' = stderr s \<and> sieve_calls s' = sieve_calls s
          \<and> sieve_fails s' = sieve_fails s
          \<and> avail s' + length (concat (ht_buckets ht')) = avail s + length (concat (ht_buckets ht))"
  using assms
proof (induction ps arbitrary: ht s)
  case Nil
  then show ?case
    by auto
next
  case (Cons p ps)
  obtain r hto1 s1 where add: "hash_table_add (Some ht) p s = (r, hto1, s1)"
    by (cases "hash_table_add (Some ht) p s")
  with Cons.prems(2) have r: "r \<noteq> 0" and rest: "populate hto1 ps s1 = (None, hto, s')"
    by (auto split: if_splits)
  from add_placed [OF Cons.prems(1) add r] obtain ht1 where ht1: "hto1 = Some ht1"
    and p1: "ht_placed ht1" and sz1: "ht_size ht1 = ht_size ht"
    and set1: "set (concat (ht_buckets ht1)) = insert p (set (concat (ht_buckets ht)))"
    and io1: "stdout s1 = stdout s" "stderr s1 = stderr s" "sieve_calls s1 = sieve_calls s"
      "sieve_fails s1 = sieve_fails s"
    and av1: "avail s1 + length (concat (ht_buckets ht1)) = avail s + length (concat (ht_buckets ht))"
    by blast
  from Cons.IH [OF p1 rest [unfolded ht1]] sz1 set1 io1 av1 show ?case
    by auto
qed

lemma populate_succeeds:
  assumes "ht_placed ht" and "length ps \<le> avail s"
  shows "\<exists>hto s'. populate (Some ht) ps s = (None, hto, s')"
  using assms
proof (induction ps arbitrary: ht s)
  case Nil
  then show ?case
    by simp
next
  case (Cons p ps)
  obtain r hto1 s1 where add: "hash_table_add (Some ht) p s = (r, hto1, s1)"
    by (cases "hash_table_add (Some ht) p s")
  from Cons.prems(2) have "avail s \<noteq> 0"
    by auto
  with add have r: "r \<noteq> 0" and av: "avail s \<le> Suc (avail s1)"
    by (auto simp add: hash_table_add_def Let_def split: if_splits)
  from add_placed [OF Cons.prems(1) add r] obtain ht1 where ht1: "hto1 = Some ht1"
    and p1: "ht_placed ht1"
    by blast
  from av Cons.prems(2) have "length ps \<le> avail s1"
    by simp
  from Cons.IH [OF p1 this] add r ht1 show ?case
    by simp
qed

subsection \<open>Powers of ten\<close>

lemma power_loop_eq: "power_loop n res = res * 10 ^ n"
  by (induction n arbitrary: res) (simp_all add: mult.assoc)

lemma power_of_10_eq: "power_of_10 e = 10 ^ nat e"
  by (simp add: power_of_10_def power_loop_eq)

lemma ten_pow_19_bound: "n \<le> 19 \<Longrightarrow> (10 :: nat) ^ n < 2 ^ 64"
proof -
  assume "n \<le> 19"
  then have "(10 :: nat) ^ n \<le> 10 ^ 19"
    by (rule power_increasing) simp
  also have "(10 :: nat) ^ 19 < 2 ^ 64"
    by simp
  finally show ?thesis .
qed

lemma unat_ten_pow: "n \<le> 19 \<Longrightarrow> unat ((10 :: ull) ^ n) = 10 ^ n"
proof -
  assume n: "n \<le> 19"
  have "(10 :: ull) ^ n = word_of_nat (10 ^ n)"
    by simp
  then have "unat ((10 :: ull) ^ n) = 10 ^ n mod 2 ^ 64"
    by (simp only: unat_of_nat) simp
  with ten_pow_19_bound [OF n] show ?thesis
    by simp
qed

lemma unat_power_of_10: "0 \<le> D \<Longrightarrow> D \<le> 19 \<Longrightarrow> unat (power_of_10 D) = 10 ^ nat D"
  by (simp add: power_of_10_eq unat_ten_pow)

lemma unat_power_of_10_minus_1:
  assumes "0 \<le> D" and "D \<le> 19"
  shows "unat (power_of_10 D - 1) = 10 ^ nat D - 1"
proof -
  have "unat (power_of_10 D) = 10 ^ nat D"
    using assms by (rule unat_power_of_10)
  then have "1 \<le> unat (power_of_10 D)"
    by simp
  then have "(1 :: ull) \<le> power_of_10 D"
    by (simp add: word_le_nat_alt)
  then have "unat (power_of_10 D - 1) = unat (power_of_10 D) - unat (1 :: ull)"
    by (rule unat_sub)
  with assms show ?thesis
    by (simp add: unat_power_of_10)
qed

lemma max_end_plus_1:
  assumes "0 \<le> D" and "D \<le> 19"
  shows "unat (power_of_10 D - 1 + 1) = 10 ^ nat D"
  using assms by (simp add: unat_power_of_10)

subsection \<open>The generated primes\<close>

lemma is_prime_iff: "is_prime n = (2 \<le> n \<and> (\<forall>d. 2 \<le> d \<and> d < n \<longrightarrow> \<not> d dvd n))"
  by (auto simp add: is_prime_def list_all_iff)

lemma is_prime_two_or_odd: "is_prime n \<Longrightarrow> n = 2 \<or> odd n"
proof (rule ccontr)
  assume p: "is_prime n" and "\<not> (n = 2 \<or> odd n)"
  then have "n \<noteq> 2" and "2 dvd n"
    by simp_all
  moreover from p have "2 \<le> n"
    by (simp add: is_prime_iff)
  ultimately have "2 \<le> (2 :: nat) \<and> 2 < n \<and> 2 dvd n"
    by simp
  with p show False
    by (auto simp add: is_prime_iff)
qed

lemma count_two_or_odd:
  "length (filter (\<lambda>n. n = 2 \<or> odd n) [2..<M]) = (if M \<le> 2 then 0 else M div 2)"
proof (induction M)
  case 0
  then show ?case by simp
next
  case (Suc M)
  show ?case
  proof (cases "M < 2")
    case True
    then show ?thesis by simp
  next
    case False
    then have "[2..<Suc M] = [2..<M] @ [M]"
      by simp
    with Suc False show ?thesis
      by (cases "M = 2") auto
  qed
qed

lemma length_filter_mono:
  "(\<And>x. x \<in> set xs \<Longrightarrow> P x \<Longrightarrow> Q x) \<Longrightarrow> length (filter P xs) \<le> length (filter Q xs)"
  by (induction xs) auto

lemma prime_list_length: "length (prime_list 2 N) \<le> Suc N div 2"
proof -
  have "length (filter is_prime [2..<Suc N]) \<le> length (filter (\<lambda>n. n = 2 \<or> odd n) [2..<Suc N])"
    by (rule length_filter_mono) (rule is_prime_two_or_odd)
  also have "\<dots> \<le> Suc N div 2"
    by (simp only: count_two_or_odd split: if_splits) simp
  finally show ?thesis
    by (simp add: prime_list_def)
qed

lemma prime_list_sorted: "sorted_wrt (<) (prime_list lo hi)"
  unfolding prime_list_def by (rule sorted_wrt_filter) (rule sorted_wrt_upt)

lemma prime_list_set: "set (prime_list lo hi) = {n. is_prime n \<and> lo \<le> n \<and> n \<le> hi}"
  by (auto simp add: prime_list_def)

lemma unat_word_of_nat_small: "n < 2 ^ 64 \<Longrightarrow> unat (word_of_nat n :: ull) = n"
  by (simp add: unat_of_nat)

lemma map_unat_of_nat:
  "(\<And>n. n \<in> set ns \<Longrightarrow> n < 2 ^ 64) \<Longrightarrow> map unat (map word_of_nat ns :: ull list) = ns"
  by (induction ns) (simp_all add: unat_of_nat)

lemma sieve_result:
  assumes "primesieve_generate_primes lo hi s = (Some ps, s1)"
  shows "ps = map word_of_nat (prime_list (unat lo) (unat hi))
         \<and> map unat ps = prime_list (unat lo) (unat hi)
         \<and> s1 = s\<lparr>sieve_calls := sieve_calls s @ [(lo, hi)]\<rparr> \<and> \<not> sieve_fails s"
proof -
  from assms have ps: "ps = map word_of_nat (prime_list (unat lo) (unat hi))"
    and s1: "s1 = s\<lparr>sieve_calls := sieve_calls s @ [(lo, hi)]\<rparr>" and ok: "\<not> sieve_fails s"
    by (auto simp add: primesieve_generate_primes_def prime_list_def Let_def split: if_splits)
  have "n < 2 ^ 64" if "n \<in> set (prime_list (unat lo) (unat hi))" for n
  proof -
    from that have "n \<le> unat hi"
      by (simp add: prime_list_set)
    also have "unat hi < 2 ^ 64"
      using unsigned_less [of hi] by simp
    finally show ?thesis .
  qed
  then have "map unat (map word_of_nat (prime_list (unat lo) (unat hi)) :: ull list)
      = prime_list (unat lo) (unat hi)"
    by (rule map_unat_of_nat)
  with ps s1 ok show ?thesis
    by simp
qed

lemma sieve_succeeds:
  "\<not> sieve_fails s \<Longrightarrow>
   primesieve_generate_primes lo hi s
     = (Some (map word_of_nat (prime_list (unat lo) (unat hi))),
        s\<lparr>sieve_calls := sieve_calls s @ [(lo, hi)]\<rparr>)"
  by (simp add: primesieve_generate_primes_def prime_list_def Let_def)

text \<open>The table size chosen by \<open>count_right_trunc_primes\<close> is never 0.\<close>

lemma table_size_nonzero:
  assumes "1 \<le> D" and "D \<le> 19" and "map unat ps = prime_list 2 (10 ^ nat D - 1)"
  shows "(if (word_of_nat (length ps) :: ull) = 0 then 17 else word_of_nat (length ps) * 2)
           \<noteq> (0 :: ull)"
proof -
  have "length ps = length (prime_list 2 (10 ^ nat D - 1))"
    using assms(3) by (metis length_map)
  also have "\<dots> \<le> Suc (10 ^ nat D - 1) div 2"
    by (rule prime_list_length)
  also have "\<dots> = 10 ^ nat D div 2"
    by simp
  finally have "2 * length ps \<le> 10 ^ nat D"
    by simp
  also have "(10 :: nat) ^ nat D < 2 ^ 64"
    using assms by (intro ten_pow_19_bound) simp
  finally have small: "2 * length ps < 2 ^ 64" .
  have "unat (word_of_nat (length ps) * 2 :: ull) = 2 * length ps"
  proof -
    have "(word_of_nat (length ps) * 2 :: ull) = word_of_nat (2 * length ps)"
      by simp
    with small show ?thesis
      by (simp only: unat_word_of_nat_small)
  qed
  moreover have "(word_of_nat (length ps) :: ull) \<noteq> 0 \<Longrightarrow> length ps \<noteq> 0"
    by auto
  ultimately show ?thesis
    by (auto simp add: unat_eq_0 [symmetric] simp del: unat_eq_0)
qed

subsection \<open>The bit table as a set\<close>

lemma fill_bitset_length: "length (fill_bitset bs ps) = length bs"
  by (induction ps arbitrary: bs) simp_all

lemma fill_bitset_nth:
  "i < length bs \<Longrightarrow> fill_bitset bs ps ! i = (bs ! i \<or> i \<in> unat ` set ps)"
proof (induction ps arbitrary: bs)
  case Nil
  then show ?case by simp
next
  case (Cons p ps)
  then show ?case
    by (cases "i = unat p") auto
qed

lemma bitset_known_iff:
  assumes "\<And>p. p \<in> set ps \<Longrightarrow> unat p < n"
  shows "(bitset_miss (fill_bitset (replicate n False) ps) v = Some False) = (v \<in> set ps)"
proof (cases "unat v < n")
  case True
  then have "fill_bitset (replicate n False) ps ! unat v = (unat v \<in> unat ` set ps)"
    by (simp add: fill_bitset_nth)
  also have "\<dots> = (v \<in> set ps)"
    by (auto dest: word_unat_eq_iff [THEN iffD2])
  finally show ?thesis
    using True by (simp add: bitset_miss_cases fill_bitset_length)
next
  case False
  with assms have "v \<notin> set ps"
    by auto
  with False show ?thesis
    by (simp add: bitset_miss_cases fill_bitset_length)
qed

lemma sieve_set:
  assumes "map unat ps = prime_list lo hi"
  shows "(v \<in> set ps) = (is_prime (unat v) \<and> lo \<le> unat v \<and> unat v \<le> hi)"
proof -
  have "(v \<in> set ps) = (unat v \<in> unat ` set ps)"
    by (auto dest: word_unat_eq_iff [THEN iffD2])
  also have "unat ` set ps = set (map unat ps)"
    by simp
  finally show ?thesis
    by (simp only: assms prime_list_set) simp
qed

text \<open>
  C2.  On the path of \<open>count_right_trunc_primes\<close> (digit bound 1..19, primes generated for
  2..10^D - 1, table created with the size the code chooses, every insertion successful)
  the table answers 1 for every prime of the sequence and 0 for every value of the
  generated range that is not in the sequence; its chains hold every prime of the
  sequence exactly once and \<open>count\<close> is their number.  The bit table of the bitset variant,
  filled from the same sequence, has the same members.
\<close>

theorem membership_index_exact:
  assumes "1 \<le> D" and "D \<le> 19"
    and "primesieve_generate_primes 2 (power_of_10 D - 1) s = (Some ps, s1)"
    and "hash_table_create
           (if (word_of_nat (length ps) :: ull) = 0 then 17 else word_of_nat (length ps) * 2) s1
         = (Some ht0, s2)"
    and "populate (Some ht0) ps s2 = (None, hto, s3)"
  shows "(\<forall>v \<in> set ps. hash_table_contains hto v = 1)
       \<and> (\<forall>w. 2 \<le> w \<and> w \<le> power_of_10 D - 1 \<and> w \<notin> set ps \<longrightarrow> hash_table_contains hto w = 0)
       \<and> (\<exists>ht. hto = Some ht \<and> distinct (concat (ht_buckets ht))
                \<and> set (concat (ht_buckets ht)) = set ps
                \<and> ht_count ht = word_of_nat (card (set ps)))
       \<and> (\<forall>w. (bitset_miss (fill_bitset (replicate (unat (power_of_10 D - 1 + 1)) False) ps) w
                  = Some False) = (w \<in> set ps))"
proof -
  have D0: "0 \<le> D"
    using assms(1) by simp
  from sieve_result [OF assms(3)]
  have "map unat ps = prime_list (unat (2 :: ull)) (unat (power_of_10 D - 1))"
    by blast
  then have ps: "map unat ps = prime_list 2 (10 ^ nat D - 1)"
    by (simp add: unat_power_of_10_minus_1 [OF D0 assms(2)])
  from table_size_nonzero [OF assms(1,2) ps] create_placed [OF _ assms(4)]
  have p0: "ht_placed ht0" and e0: "concat (ht_buckets ht0) = []"
    by blast+
  from populate_placed [OF p0 assms(5)] e0 obtain ht where ht: "hto = Some ht"
    and p: "ht_placed ht" and set: "set (concat (ht_buckets ht)) = set ps"
    by auto
  from p have dist: "distinct (concat (ht_buckets ht))"
    and cnt: "ht_count ht = word_of_nat (length (concat (ht_buckets ht)))"
    by (simp_all add: ht_placed_def)
  from dist have "length (concat (ht_buckets ht)) = card (set (concat (ht_buckets ht)))"
    by (rule distinct_card [symmetric])
  with cnt set have cnt': "ht_count ht = word_of_nat (card (set ps))"
    by simp
  have contains: "hash_table_contains hto v = (if v \<in> set ps then 1 else 0)" for v
    using placed_contains [OF p, of v] ht set by (simp del: set_concat)
  have "unat p < unat (power_of_10 D - 1 + 1)" if "p \<in> set ps" for p
  proof -
    from that ps have "unat p \<le> 10 ^ nat D - 1"
      by (simp add: sieve_set)
    moreover have "(0 :: nat) < 10 ^ nat D"
      by simp
    ultimately have "unat p < 10 ^ nat D"
      by linarith
    then show ?thesis
      by (simp add: unat_power_of_10 [OF D0 assms(2)])
  qed
  then have bits: "(bitset_miss (fill_bitset (replicate (unat (power_of_10 D - 1 + 1)) False) ps) w
      = Some False) = (w \<in> set ps)" for w
    by (rule bitset_known_iff)
  from contains ht dist set cnt' bits show ?thesis
    by simp
qed

text \<open>The run for one digit: the primes 2, 3, 5, 7 go into 8 buckets.\<close>

lemma hash_2_8: "hash_ull 2 8 = 4"
  by (simp add: hash_ull_def)

lemma hash_3_8: "hash_ull 3 8 = 5"
  by (simp add: hash_ull_def)

lemma hash_5_8: "hash_ull 5 8 = 0"
  by (simp add: hash_ull_def)

lemma prime_list_2_9: "prime_list 2 9 = [2, 3, 5, 7]"
  by (simp add: prime_list_def is_prime_def upt_conv_Cons)

lemma sieve_2_9:
  "primesieve_generate_primes 2 (power_of_10 1 - 1) (sys_start n)
     = (Some [2, 3, 5, 7], (sys_start n)\<lparr>sieve_calls := [(2, 9)]\<rparr>)"
proof -
  have "power_of_10 1 - 1 = 9"
    by (simp add: power_of_10_def)
  then show ?thesis
    using sieve_succeeds [of "sys_start n" 2 9] by (simp add: sys_start_def prime_list_2_9)
qed

lemma buckets_2357:
  "(replicate 8 [])[4 := [2 :: ull], 5 := [3], 0 := [5], 3 := [7]]
     = [[5], [], [], [7], [2], [3], [], []]"
  by (simp add: numeral_eq_Suc)

lemma populate_2357:
  "populate (Some \<lparr>ht_size = 8, ht_count = 0, ht_buckets = replicate 8 []\<rparr>) [2, 3, 5, 7]
     ((sys_start (n + 4))\<lparr>sieve_calls := cs\<rparr>)
   = (None, Some ht_2357, (sys_start n)\<lparr>sieve_calls := cs\<rparr>)"
  by (simp add: hash_table_add_def hash_2_8 hash_3_8 hash_5_8 hash_7_8 ht_2357_def sys_start_def
      buckets_2357)

theorem membership_index_exact_witness:
  "hash_table_contains (Some ht_2357) 2 = 1 \<and> hash_table_contains (Some ht_2357) 7 = 1
   \<and> hash_table_contains (Some ht_2357) 4 = 0 \<and> hash_table_contains (Some ht_2357) 9 = 0
   \<and> distinct (concat (ht_buckets ht_2357)) \<and> ht_count ht_2357 = 4
   \<and> bitset_miss (fill_bitset (replicate 10 False) [2, 3, 5, 7]) 9 \<noteq> Some False
   \<and> bitset_miss (fill_bitset (replicate 10 False) [2, 3, 5, 7]) 7 = Some False"
proof -
  have sieve: "primesieve_generate_primes 2 (power_of_10 1 - 1) (sys_start 6)
      = (Some [2, 3, 5, 7], (sys_start 6)\<lparr>sieve_calls := [(2, 9)]\<rparr>)"
    by (rule sieve_2_9)
  have create: "hash_table_create
      (if (word_of_nat (length [2, 3, 5, 7 :: ull]) :: ull) = 0 then 17
       else word_of_nat (length [2, 3, 5, 7 :: ull]) * 2)
      ((sys_start 6)\<lparr>sieve_calls := [(2, 9)]\<rparr>)
    = (Some \<lparr>ht_size = 8, ht_count = 0, ht_buckets = replicate 8 []\<rparr>,
       (sys_start 4)\<lparr>sieve_calls := [(2, 9)]\<rparr>)"
    by (simp add: hash_table_create_def sys_start_def)
  have pop: "populate (Some \<lparr>ht_size = 8, ht_count = 0, ht_buckets = replicate 8 []\<rparr>)
      [2, 3, 5, 7] ((sys_start 4)\<lparr>sieve_calls := [(2, 9)]\<rparr>)
    = (None, Some ht_2357, (sys_start 0)\<lparr>sieve_calls := [(2, 9)]\<rparr>)"
    using populate_2357 [where n = 0 and cs = "[(2, 9)]"] by simp
  have range: "(2 :: ull) \<le> 4 \<and> 4 \<le> power_of_10 1 - 1 \<and> (2 :: ull) \<le> 9 \<and> 9 \<le> power_of_10 1 - 1"
    by (simp add: power_of_10_def)
  have ten: "unat (power_of_10 1) = 10"
    by (simp add: power_of_10_def)
  from membership_index_exact [OF _ _ sieve create pop]
  have present: "\<forall>v \<in> set [2, 3, 5, 7]. hash_table_contains (Some ht_2357) v = 1"
    and absent: "\<forall>w. 2 \<le> w \<and> w \<le> power_of_10 1 - 1 \<and> w \<notin> set [2, 3, 5, 7]
                  \<longrightarrow> hash_table_contains (Some ht_2357) w = 0"
    and table: "\<exists>ht. Some ht_2357 = Some ht \<and> distinct (concat (ht_buckets ht))
                  \<and> set (concat (ht_buckets ht)) = set [2, 3, 5, 7 :: ull]
                  \<and> ht_count ht = word_of_nat (card (set [2, 3, 5, 7 :: ull]))"
    and bits: "\<forall>w. (bitset_miss (fill_bitset (replicate (unat (power_of_10 1 - 1 + 1 :: ull)) False)
                  [2, 3, 5, 7]) w = Some False) = (w \<in> set [2, 3, 5, 7])"
    by simp_all
  from absent [rule_format, of 4] absent [rule_format, of 9] range
  have "hash_table_contains (Some ht_2357) 4 = 0" and "hash_table_contains (Some ht_2357) 9 = 0"
    by simp_all
  moreover from present
  have "hash_table_contains (Some ht_2357) 2 = 1" and "hash_table_contains (Some ht_2357) 7 = 1"
    by simp_all
  moreover from table have "distinct (concat (ht_buckets ht_2357))" and "ht_count ht_2357 = 4"
    by simp_all
  moreover from bits [rule_format, of 9] bits [rule_format, of 7]
  have "bitset_miss (fill_bitset (replicate 10 False) [2, 3, 5, 7]) 9 \<noteq> Some False"
    and "bitset_miss (fill_bitset (replicate 10 False) [2, 3, 5, 7]) 7 = Some False"
    by (simp_all add: ten)
  ultimately show ?thesis
    by simp
qed

subsection \<open>The scan loops as filters\<close>

lemma is_r_truncatable_iff:
  "(is_r_truncatable miss v \<noteq> 0) = (\<forall>t \<in> set (truncations v). \<not> miss t)"
  by (simp add: is_r_truncatable_def trunc_loop_fst)

lemma scan_hash_filter:
  "scan_hash ht lo hi ps c =
     c + int (length (filter (\<lambda>v. lo \<le> v \<and> v \<le> hi
                \<and> (\<forall>t \<in> set (truncations v). hash_table_contains ht t = 1)) ps))"
proof (induction ps arbitrary: c)
  case Nil
  then show ?case by simp
next
  case (Cons p ps)
  have h: "(is_r_truncatable (\<lambda>t. hash_table_contains ht t = 0) p \<noteq> 0)
      = (\<forall>t \<in> set (truncations p). hash_table_contains ht t = 1)"
    using hash_table_miss_iff [of ht] by (simp add: is_r_truncatable_iff)
  show ?case
  proof (cases "p < lo \<or> hi < p")
    case True
    then have "\<not> (lo \<le> p \<and> p \<le> hi)"
      by auto
    with True Cons.IH [of c] show ?thesis
      by auto
  next
    case False
    then have "lo \<le> p \<and> p \<le> hi"
      by (simp add: not_less)
    with False h Cons.IH [of c] Cons.IH [of "c + 1"] show ?thesis
      by auto
  qed
qed

lemma update_twice_add:
  "(xs[i := xs ! i + a])[i := (xs[i := xs ! i + a]) ! i + b] = xs[i := xs ! i + (a + b :: ull)]"
  by (cases "i < length xs") (simp_all add: add.assoc list_update_beyond not_less)

lemma scan_bitset_filter:
  assumes "sorted_wrt (<) ps"
  shows "scan_bitset bs k lo hi ps ppd c =
     (ppd[nat k := ppd ! nat k + word_of_nat (length (filter (\<lambda>v. lo \<le> v \<and> v \<le> hi) ps))],
      c + int (length (filter (\<lambda>v. lo \<le> v \<and> v \<le> hi
                \<and> (\<forall>t \<in> set (truncations v). unat t < length bs \<and> bs ! unat t)) ps)))"
  using assms
proof (induction ps arbitrary: ppd c)
  case Nil
  then show ?case by simp
next
  case (Cons p ps)
  from Cons.prems have sorted: "sorted_wrt (<) ps" and above: "\<forall>q \<in> set ps. p < q"
    by simp_all
  have b: "(is_r_truncatable (\<lambda>t. bitset_miss bs t \<noteq> Some False) p \<noteq> 0)
      = (\<forall>t \<in> set (truncations p). unat t < length bs \<and> bs ! unat t)"
    by (simp add: is_r_truncatable_iff bitset_hit_iff)
  show ?case
  proof (cases "p < lo")
    case True
    then have "\<not> (lo \<le> p \<and> p \<le> hi)"
      by auto
    with True Cons.IH [OF sorted, of ppd c] show ?thesis
      by auto
  next
    case low: False
    show ?thesis
    proof (cases "hi < p")
      case True
      with above have "\<forall>q \<in> set ps. \<not> (lo \<le> q \<and> q \<le> hi)"
        by auto
      then have "filter (\<lambda>v. lo \<le> v \<and> v \<le> hi) ps = []"
        and "filter (\<lambda>v. lo \<le> v \<and> v \<le> hi
                \<and> (\<forall>t \<in> set (truncations v). unat t < length bs \<and> bs ! unat t)) ps = []"
        by (auto simp add: filter_empty_conv)
      moreover from True have "\<not> (lo \<le> p \<and> p \<le> hi)"
        by auto
      ultimately show ?thesis
        using low True by auto
    next
      case False
      with low have w: "lo \<le> p \<and> p \<le> hi"
        by (simp add: not_less)
      let ?ppd = "ppd[nat k := ppd ! nat k + 1]"
      let ?m = "length (filter (\<lambda>v. lo \<le> v \<and> v \<le> hi) ps)"
      have "?ppd[nat k := ?ppd ! nat k + word_of_nat ?m] = ppd[nat k := ppd ! nat k + (1 + word_of_nat ?m)]"
        by (rule update_twice_add)
      with low False w b Cons.IH [OF sorted, of ?ppd c] Cons.IH [OF sorted, of ?ppd "c + 1"]
      show ?thesis
        by (auto simp add: Let_def)
    qed
  qed
qed

subsection \<open>The digit window\<close>

lemma window_test:
  assumes "1 \<le> k" and "k \<le> 19"
  shows "(power_of_10 (k - 1) \<le> v \<and> v \<le> power_of_10 k - 1) = in_window k v"
proof -
  have lo: "unat (power_of_10 (k - 1)) = 10 ^ (nat k - 1)"
    using assms unat_power_of_10 [of "k - 1"] by (simp add: nat_diff_distrib)
  have hi: "unat (power_of_10 k - 1) = 10 ^ nat k - 1"
    using assms by (intro unat_power_of_10_minus_1) simp_all
  have "(unat v \<le> 10 ^ nat k - 1) = (unat v < 10 ^ nat k)"
  proof -
    have "(0 :: nat) < 10 ^ nat k"
      by simp
    then show ?thesis
      by linarith
  qed
  then show ?thesis
    by (simp add: in_window_def word_le_nat_alt lo hi)
qed

lemma is_prime_ge_2: "is_prime n \<Longrightarrow> 2 \<le> n"
  by (simp add: is_prime_def)

lemma prime_list_from_1: "prime_list 1 hi = prime_list 2 hi"
proof -
  have "set (prime_list 1 hi) = set (prime_list 2 hi)"
    by (auto simp add: prime_list_set dest: is_prime_ge_2)
  moreover have "sorted (prime_list lo hi) \<and> distinct (prime_list lo hi)" for lo
    using prime_list_sorted [of lo hi] by (simp add: strict_sorted_iff)
  ultimately show ?thesis
    by (blast intro: sorted_distinct_set_unique)
qed

lemma window_primes:
  assumes "1 \<le> k" and "k \<le> D" and "map unat ps = prime_list 2 (10 ^ nat D - 1)"
  shows "map unat (filter (in_window k) ps) = prime_list (10 ^ (nat k - 1)) (10 ^ nat k - 1)"
proof -
  let ?P = "\<lambda>n :: nat. 10 ^ (nat k - 1) \<le> n \<and> n < 10 ^ nat k"
  have "map unat (filter (in_window k) ps) = filter ?P (map unat ps)"
    unfolding in_window_def [abs_def] by (simp add: filter_map comp_def)
  also have "\<dots> = filter ?P (prime_list 2 (10 ^ nat D - 1))"
    by (simp only: assms(3))
  finally have eq: "map unat (filter (in_window k) ps) = filter ?P (prime_list 2 (10 ^ nat D - 1))" .
  have "sorted_wrt (<) (filter ?P (prime_list 2 (10 ^ nat D - 1)))"
    by (rule sorted_wrt_filter) (rule prime_list_sorted)
  then have l: "sorted (filter ?P (prime_list 2 (10 ^ nat D - 1)))
      \<and> distinct (filter ?P (prime_list 2 (10 ^ nat D - 1)))"
    by (simp add: strict_sorted_iff)
  have r: "sorted (prime_list (10 ^ (nat k - 1)) (10 ^ nat k - 1))
      \<and> distinct (prime_list (10 ^ (nat k - 1)) (10 ^ nat k - 1))"
    using prime_list_sorted [of "10 ^ (nat k - 1)" "10 ^ nat k - 1"] by (simp add: strict_sorted_iff)
  have "(10 :: nat) ^ nat k \<le> 10 ^ nat D"
    using assms(2) by (intro power_increasing) simp_all
  then have "n \<le> 10 ^ nat D - 1" if "n < 10 ^ nat k" for n :: nat
    using that by linarith
  moreover have "(n \<le> 10 ^ nat k - 1) = (n < 10 ^ nat k)" for n :: nat
  proof -
    have "(0 :: nat) < 10 ^ nat k"
      by simp
    then show ?thesis
      by linarith
  qed
  ultimately have "set (filter ?P (prime_list 2 (10 ^ nat D - 1)))
      = set (prime_list (10 ^ (nat k - 1)) (10 ^ nat k - 1))"
    by (auto simp add: prime_list_set dest: is_prime_ge_2)
  with l r have "filter ?P (prime_list 2 (10 ^ nat D - 1))
      = prime_list (10 ^ (nat k - 1)) (10 ^ nat k - 1)"
    by (blast intro: sorted_distinct_set_unique)
  with eq show ?thesis
    by simp
qed

lemma sieve_sorted:
  assumes "map unat ps = prime_list lo hi"
  shows "sorted_wrt (<) ps"
proof -
  have "sorted_wrt (<) (map unat ps)"
    by (simp only: assms prime_list_sorted)
  then have "sorted_wrt (\<lambda>x y. unat x < unat y) ps"
    by (simp add: sorted_wrt_map)
  then show ?thesis
    by (rule sorted_wrt_mono_rel [rotated]) (simp add: word_less_nat_alt)
qed

subsection \<open>Truncations and right-truncatable primes\<close>

lemma truncations_bound: "t \<in> set (truncations v) \<Longrightarrow> unat t \<le> unat v"
proof (induction v rule: truncations.induct)
  case (1 v)
  show ?case
  proof (cases "v = 0")
    case True
    with "1.prems" show ?thesis
      by (simp add: truncations_0)
  next
    case False
    with "1.prems" have "t = v \<or> t \<in> set (truncations (v div 10))"
      by (simp add: truncations_nz)
    then show ?thesis
    proof
      assume "t = v"
      then show ?thesis by simp
    next
      assume "t \<in> set (truncations (v div 10))"
      from "1.IH" [OF False this] have "unat t \<le> unat v div 10"
        by (simp add: unat_div)
      then show ?thesis
        by linarith
    qed
  qed
qed

lemma truncations_rt_prime:
  "v \<noteq> 0 \<Longrightarrow> (\<forall>t \<in> set (truncations v). is_prime (unat t)) = rt_prime (unat v)"
proof (induction v rule: truncations.induct)
  case (1 v)
  show ?case
  proof (cases "unat v < 10")
    case True
    then have "unat (v div 10) = 0"
      by (simp add: unat_div)
    then have "v div 10 = 0"
      by (simp add: unat_eq_0)
    with "1.prems" True show ?thesis
      by (simp add: truncations_nz truncations_0 rt_prime.simps [of "unat v"])
  next
    case False
    then have "unat (v div 10) \<noteq> 0"
      by (simp add: unat_div)
    then have nz: "v div 10 \<noteq> 0"
      by (simp add: unat_eq_0)
    from "1.IH" [OF "1.prems" nz] "1.prems" False show ?thesis
      by (simp add: truncations_nz rt_prime.simps [of "unat v"] unat_div)
  qed
qed

lemma known_is_prime:
  assumes "map unat ps = prime_list 2 N" and "unat v \<le> N" and "v \<noteq> 0"
    and "\<And>t. unat t \<le> N \<Longrightarrow> known t = (t \<in> set ps)"
  shows "(\<forall>t \<in> set (truncations v). known t) = rt_prime (unat v)"
proof -
  have "known t = is_prime (unat t)" if "t \<in> set (truncations v)" for t
  proof -
    from that assms(2) have "unat t \<le> N"
      using truncations_bound [of t v] by linarith
    then show ?thesis
      using assms(1) by (auto simp add: assms(4) sieve_set dest: is_prime_ge_2)
  qed
  then have "(\<forall>t \<in> set (truncations v). known t) = (\<forall>t \<in> set (truncations v). is_prime (unat t))"
    by simp
  with assms(3) show ?thesis
    by (simp add: truncations_rt_prime)
qed

lemma count_window_rt:
  assumes "1 \<le> k" and "k \<le> D" and "D \<le> 19" and "map unat ps = prime_list 2 (10 ^ nat D - 1)"
    and "\<And>t. unat t \<le> 10 ^ nat D - 1 \<Longrightarrow> known t = (t \<in> set ps)"
  shows "length (filter (\<lambda>v. power_of_10 (k - 1) \<le> v \<and> v \<le> power_of_10 k - 1
                  \<and> (\<forall>t \<in> set (truncations v). known t)) ps) = rt_count (nat k)"
proof -
  have k19: "k \<le> 19"
    using assms(2,3) by simp
  have "v \<noteq> 0 \<and> unat v \<le> 10 ^ nat D - 1" if "in_window k v" for v
  proof -
    have p: "(10 :: nat) ^ nat k \<le> 10 ^ nat D"
      using assms(2) by (intro power_increasing) simp_all
    from that have a: "10 ^ (nat k - 1) \<le> unat v" and b: "unat v < 10 ^ nat k"
      by (simp_all add: in_window_def)
    have "(0 :: nat) < 10 ^ (nat k - 1)"
      by simp
    with a have "0 < unat v"
      by linarith
    moreover from b p have "unat v \<le> 10 ^ nat D - 1"
      by linarith
    ultimately show ?thesis
      by (auto simp add: unat_gt_0)
  qed
  then have rt: "(\<forall>t \<in> set (truncations v). known t) = rt_prime (unat v)" if "in_window k v" for v
    using that known_is_prime [OF assms(4) _ _ assms(5), of v] by simp
  have pw: "(power_of_10 (k - 1) \<le> v \<and> v \<le> power_of_10 k - 1
                  \<and> (\<forall>t \<in> set (truncations v). known t))
      = (in_window k v \<and> rt_prime (unat v))" for v
    using window_test [OF assms(1) k19, of v] rt [of v] by blast
  have "filter (\<lambda>v. power_of_10 (k - 1) \<le> v \<and> v \<le> power_of_10 k - 1
                  \<and> (\<forall>t \<in> set (truncations v). known t)) ps
      = filter (\<lambda>v. in_window k v \<and> rt_prime (unat v)) ps"
    by (rule filter_cong [OF refl]) (rule pw)
  also have "\<dots> = filter (rt_prime \<circ> unat) (filter (in_window k) ps)"
    by (simp add: conj_commute comp_def)
  finally have "length (filter (\<lambda>v. power_of_10 (k - 1) \<le> v \<and> v \<le> power_of_10 k - 1
                  \<and> (\<forall>t \<in> set (truncations v). known t)) ps)
      = length (map unat (filter (rt_prime \<circ> unat) (filter (in_window k) ps)))"
    by simp
  also have "\<dots> = length (filter rt_prime (map unat (filter (in_window k) ps)))"
    by (simp only: filter_map)
  finally show ?thesis
    by (simp add: window_primes [OF assms(1,2,4)] rt_count_def)
qed

subsection \<open>What the counting functions return\<close>

lemma window_length:
  assumes "1 \<le> k" and "k \<le> D" and "D \<le> 19" and "map unat ps = prime_list 2 (10 ^ nat D - 1)"
  shows "length (filter (\<lambda>v. power_of_10 (k - 1) \<le> v \<and> v \<le> power_of_10 k - 1) ps)
       = n_count (nat k)"
proof -
  have k19: "k \<le> 19"
    using assms(2,3) by simp
  have "filter (\<lambda>v. power_of_10 (k - 1) \<le> v \<and> v \<le> power_of_10 k - 1) ps
      = filter (in_window k) ps"
    by (rule filter_cong [OF refl]) (rule window_test [OF assms(1) k19])
  then have "length (filter (\<lambda>v. power_of_10 (k - 1) \<le> v \<and> v \<le> power_of_10 k - 1) ps)
      = length (map unat (filter (in_window k) ps))"
    by simp
  then show ?thesis
    by (simp only: window_primes [OF assms(1,2,4)] n_count_def)
qed

lemma bitset_test_iff:
  "(unat t < length bs \<and> bs ! unat t) = (bitset_miss bs t = Some False)"
  by (auto simp add: bitset_miss_cases)

lemma count_bitset_result:
  assumes "1 \<le> k" and "k \<le> D" and "D \<le> 19" and "map unat ps = prime_list 2 (10 ^ nat D - 1)"
    and "bs = fill_bitset (replicate (10 ^ nat D) False) ps"
  shows "count_right_trunc_primes_bitset ps ppd bs k s
       = (int (rt_count (nat k)), ppd[nat k := word_of_nat (n_count (nat k))], s)"
proof -
  have k19: "k \<le> 19"
    using assms(2,3) by simp
  have sorted: "sorted_wrt (<) ps"
    using assms(4) by (rule sieve_sorted)
  have in_range: "unat p < 10 ^ nat D" if "p \<in> set ps" for p
  proof -
    from that assms(4) have "unat p \<le> 10 ^ nat D - 1"
      by (simp add: sieve_set)
    moreover have "(0 :: nat) < 10 ^ nat D"
      by simp
    ultimately show ?thesis
      by linarith
  qed
  have known: "(unat t < length bs \<and> bs ! unat t) = (t \<in> set ps)" for t
    unfolding bitset_test_iff assms(5) using in_range by (rule bitset_known_iff)
  have cnt: "length (filter (\<lambda>v. power_of_10 (k - 1) \<le> v \<and> v \<le> power_of_10 k - 1
                  \<and> (\<forall>t \<in> set (truncations v). unat t < length bs \<and> bs ! unat t)) ps)
      = rt_count (nat k)"
    by (rule count_window_rt [OF assms(1-4)]) (rule known)
  have n: "length (filter (\<lambda>v. power_of_10 (k - 1) \<le> v \<and> v \<le> power_of_10 k - 1) ps)
      = n_count (nat k)"
    by (rule window_length [OF assms(1-4)])
  have upd: "ppd[nat k := (ppd[nat k := 0]) ! nat k + m] = ppd[nat k := m]" for m :: ull
    by (cases "nat k < length ppd") (simp_all add: list_update_beyond not_less)
  from assms(1) k19 show ?thesis
    by (simp add: count_right_trunc_primes_bitset_def Let_def scan_bitset_filter [OF sorted]
        cnt n upd)
qed

lemma count_hash_result:
  assumes "1 \<le> k" and "k \<le> 19" and "\<not> sieve_fails s"
    and "length (prime_list 2 (10 ^ nat k - 1)) + 2 \<le> avail s"
  shows "count_right_trunc_primes_hash k s
       = (int (rt_count (nat k)), s\<lparr>sieve_calls := sieve_calls s @ [(2, power_of_10 k - 1)]\<rparr>)"
proof -
  let ?hi = "power_of_10 k - 1"
  let ?s1 = "s\<lparr>sieve_calls := sieve_calls s @ [(2, ?hi)]\<rparr>"
  have k0: "0 \<le> k"
    using assms(1) by simp
  have hi: "unat ?hi = 10 ^ nat k - 1"
    using k0 assms(2) by (rule unat_power_of_10_minus_1)
  define ps :: "ull list" where "ps = map word_of_nat (prime_list 2 (10 ^ nat k - 1))"
  have sieve: "primesieve_generate_primes 2 ?hi s = (Some ps, ?s1)"
    using sieve_succeeds [OF assms(3), of 2 ?hi] by (simp add: ps_def hi)
  from sieve_result [OF sieve]
  have "map unat ps = prime_list (unat (2 :: ull)) (unat ?hi)"
    by blast
  then have ups: "map unat ps = prime_list 2 (10 ^ nat k - 1)"
    by (simp add: hi)
  have len: "length ps = length (prime_list 2 (10 ^ nat k - 1))"
    by (simp add: ps_def)
  define n :: ull where
    "n = (if (word_of_nat (length ps) :: ull) = 0 then 17 else word_of_nat (length ps) * 2)"
  have n0: "n \<noteq> 0"
    unfolding n_def by (rule table_size_nonzero [OF assms(1,2) ups])
  define ht0 where "ht0 = \<lparr>ht_size = n, ht_count = 0, ht_buckets = replicate (unat n) []\<rparr>"
  let ?s2 = "?s1\<lparr>avail := avail s - 2\<rparr>"
  have create: "hash_table_create n ?s1 = (Some ht0, ?s2)"
    using assms(4) by (simp add: hash_table_create_def ht0_def)
  from create_placed [OF n0 create] have p0: "ht_placed ht0" and e0: "concat (ht_buckets ht0) = []"
    by simp_all
  have "length ps \<le> avail ?s2"
    using assms(4) len by simp
  from populate_succeeds [OF p0 this] obtain hto s3
    where pop: "populate (Some ht0) ps ?s2 = (None, hto, s3)"
    by blast
  from populate_placed [OF p0 pop] e0 obtain ht where ht: "hto = Some ht"
    and p: "ht_placed ht" and set: "set (concat (ht_buckets ht)) = set ps"
    and io: "stdout s3 = stdout ?s2" "stderr s3 = stderr ?s2" "sieve_calls s3 = sieve_calls ?s2"
      "sieve_fails s3 = sieve_fails ?s2"
    and av: "avail s3 + length (concat (ht_buckets ht)) = avail ?s2"
    by auto
  have known: "(hash_table_contains hto t = 1) = (t \<in> set ps)" for t
    using placed_contains [OF p, of t] ht set by (simp del: set_concat)
  have cnt: "length (filter (\<lambda>v. power_of_10 (k - 1) \<le> v \<and> v \<le> power_of_10 k - 1
                  \<and> (\<forall>t \<in> set (truncations v). hash_table_contains hto t = 1)) ps)
      = rt_count (nat k)"
    by (rule count_window_rt [OF assms(1) order_refl assms(2) ups]) (rule known)
  have "avail s3 + length (concat (ht_buckets ht)) + 2 = avail s"
    using av assms(4) by simp
  with io have final: "hash_table_destroy hto s3 = ?s1"
    unfolding ht hash_table_destroy_def by (intro sys.equality) simp_all
  from assms(1,2) sieve create pop ht cnt final show ?thesis
    by (simp add: count_right_trunc_primes_hash_def Let_def n_def [symmetric] scan_hash_filter)
qed

subsection \<open>Termination\<close>

lemma scan_bitset_count_ge: "c \<le> snd (scan_bitset bs k lo hi ps ppd c)"
proof (induction ps arbitrary: ppd c)
  case Nil
  then show ?case by simp
next
  case (Cons p ps)
  have "c \<le> snd (scan_bitset bs k lo hi ps ppd' (c + 1))" for ppd'
    using Cons.IH [of "c + 1" ppd'] by simp
  with Cons.IH show ?case
    by (simp add: Let_def)
qed

text \<open>
  C10.  The truncation check always terminates: \<open>trunc_loop\<close> is a total function (its
  termination is proved with the measure \<open>unat temp_prime\<close>, which every division by 10 of
  a positive value decreases), and for every 64-bit candidate and every membership test it
  returns 0 or 1 after at most 20 iterations, one tested value per iteration.  The
  counting functions are structural recursions over the list of primes around it, and for
  every valid digit bound they return a count and not the error value: the bitset variant
  for any primes and bit table, without touching the environment; the hash variant when
  the prime generator works and the heap holds its table, without a message on the error
  stream.
\<close>

theorem truncation_check_terminates:
  "(\<exists>r tested. trunc_loop miss v = (r, tested) \<and> (r = 0 \<or> r = 1) \<and> length tested \<le> 20)
   \<and> (1 \<le> k \<and> k \<le> 19 \<longrightarrow>
        (\<exists>c ppd'. count_right_trunc_primes_bitset ps ppd bs k s = (c, ppd', s) \<and> 0 \<le> c))
   \<and> (1 \<le> k \<and> k \<le> 19 \<and> \<not> sieve_fails s
        \<and> length (prime_list 2 (10 ^ nat k - 1)) + 2 \<le> avail s \<longrightarrow>
        (\<exists>c s'. count_right_trunc_primes_hash k s = (c, s') \<and> 0 \<le> c \<and> stderr s' = stderr s))"
proof -
  obtain r tested where rt: "trunc_loop miss v = (r, tested)"
    by (cases "trunc_loop miss v")
  have "r = fst (trunc_loop miss v)" and t: "tested = snd (trunc_loop miss v)"
    using rt by simp_all
  then have "r = 0 \<or> r = 1"
    by (simp add: trunc_loop_fst)
  moreover have "length tested \<le> 20"
    using tested_le_truncations [of miss v] truncations_le_20 [of v] t by simp
  ultimately have loop: "\<exists>r tested. trunc_loop miss v = (r, tested) \<and> (r = 0 \<or> r = 1)
      \<and> length tested \<le> 20"
    using rt by simp
  have bitset: "\<exists>c ppd'. count_right_trunc_primes_bitset ps ppd bs k s = (c, ppd', s) \<and> 0 \<le> c"
    if "1 \<le> k \<and> k \<le> 19"
  proof -
    obtain ppd' c where sc: "scan_bitset bs k (power_of_10 (k - 1)) (power_of_10 k - 1) ps
        (ppd[nat k := 0]) 0 = (ppd', c)"
      by (cases "scan_bitset bs k (power_of_10 (k - 1)) (power_of_10 k - 1) ps (ppd[nat k := 0]) 0")
    from scan_bitset_count_ge [of 0 bs k "power_of_10 (k - 1)" "power_of_10 k - 1" ps
        "ppd[nat k := 0]"]
    have "0 \<le> c"
      by (simp add: sc)
    with that sc show ?thesis
      by (simp add: count_right_trunc_primes_bitset_def Let_def)
  qed
  have hash: "\<exists>c s'. count_right_trunc_primes_hash k s = (c, s') \<and> 0 \<le> c \<and> stderr s' = stderr s"
    if "1 \<le> k \<and> k \<le> 19 \<and> \<not> sieve_fails s
        \<and> length (prime_list 2 (10 ^ nat k - 1)) + 2 \<le> avail s"
  proof -
    from that have "count_right_trunc_primes_hash k s
        = (int (rt_count (nat k)), s\<lparr>sieve_calls := sieve_calls s @ [(2, power_of_10 k - 1)]\<rparr>)"
      by (intro count_hash_result) simp_all
    then show ?thesis
      by simp
  qed
  from loop bitset hash show ?thesis
    by blast
qed

text \<open>The digit bound 1, on the primes below 10.\<close>

theorem truncation_check_terminates_witness:
  "(1 :: int) \<le> 1 \<and> (1 :: int) \<le> 19 \<and> \<not> sieve_fails (sys_start 6)
   \<and> length (prime_list 2 (10 ^ nat 1 - 1)) + 2 \<le> avail (sys_start 6)
   \<and> 0 \<le> fst (count_right_trunc_primes_bitset [2, 3, 5, 7] [0, 0]
            (fill_bitset (replicate 10 False) [2, 3, 5, 7]) 1 (sys_start 6))
   \<and> 0 \<le> fst (count_right_trunc_primes_hash 1 (sys_start 6))"
proof -
  have heap: "length (prime_list 2 (10 ^ nat 1 - 1)) + 2 \<le> avail (sys_start 6)"
    by (simp add: prime_list_2_9 sys_start_def)
  have ok: "\<not> sieve_fails (sys_start 6)"
    by (simp add: sys_start_def)
  from heap ok
    truncation_check_terminates [of "\<lambda>t. False" 7 1 "[2, 3, 5, 7]" "[0, 0]"
      "fill_bitset (replicate 10 False) [2, 3, 5, 7]" "sys_start 6"]
  show ?thesis
    by auto
qed

subsection \<open>Digit windows\<close>

text \<open>
  C7.  Digit-window boundaries are exact.  For a digit length \<open>k\<close> in 1..D and the primes
  generated for the bound \<open>D \<le> 19\<close>, the primes that pass the window test of the scan
  loops (\<open>current_digits_start \<le> p \<le> current_digits_end\<close>) are, in order, exactly the primes
  \<open>n\<close> with \<open>10^(k-1) \<le> n < 10^k\<close>; for \<open>k = 1\<close> these are the primes from 2 to 9.  The
  hash variant counts the right-truncatable ones among them and nothing else; the bitset
  variant, which leaves the loop at the first prime above the window, does the same and
  adds their number to \<open>primes_per_digit[k]\<close>.
\<close>

theorem digit_window_exact:
  assumes "1 \<le> k" and "k \<le> D" and "D \<le> 19"
    and "primesieve_generate_primes 2 (power_of_10 D - 1) s = (Some ps, s1)"
  shows "map unat (filter (\<lambda>v. power_of_10 (k - 1) \<le> v \<and> v \<le> power_of_10 k - 1) ps)
           = prime_list (10 ^ (nat k - 1)) (10 ^ nat k - 1)
       \<and> set (prime_list (10 ^ (nat k - 1)) (10 ^ nat k - 1))
           = {n. is_prime n \<and> 10 ^ (nat k - 1) \<le> n \<and> n < 10 ^ nat k}
       \<and> prime_list (10 ^ (nat 1 - 1)) (10 ^ nat 1 - 1) = prime_list 2 9
       \<and> scan_hash ht (power_of_10 (k - 1)) (power_of_10 k - 1) ps c
           = c + int (length (filter (\<lambda>v. \<forall>t \<in> set (truncations v). hash_table_contains ht t = 1)
                       (filter (\<lambda>v. power_of_10 (k - 1) \<le> v \<and> v \<le> power_of_10 k - 1) ps)))
       \<and> scan_bitset bs k (power_of_10 (k - 1)) (power_of_10 k - 1) ps ppd c
           = (ppd[nat k := ppd ! nat k + word_of_nat (length
                       (filter (\<lambda>v. power_of_10 (k - 1) \<le> v \<and> v \<le> power_of_10 k - 1) ps))],
              c + int (length (filter (\<lambda>v. \<forall>t \<in> set (truncations v). unat t < length bs \<and> bs ! unat t)
                       (filter (\<lambda>v. power_of_10 (k - 1) \<le> v \<and> v \<le> power_of_10 k - 1) ps))))"
proof -
  have D0: "0 \<le> D" and k19: "k \<le> 19"
    using assms(1-3) by simp_all
  from sieve_result [OF assms(4)]
  have "map unat ps = prime_list (unat (2 :: ull)) (unat (power_of_10 D - 1))"
    by blast
  then have ps: "map unat ps = prime_list 2 (10 ^ nat D - 1)"
    by (simp add: unat_power_of_10_minus_1 [OF D0 assms(3)])
  have "filter (\<lambda>v. power_of_10 (k - 1) \<le> v \<and> v \<le> power_of_10 k - 1) ps
      = filter (in_window k) ps"
    by (rule filter_cong [OF refl]) (rule window_test [OF assms(1) k19])
  then have w: "map unat (filter (\<lambda>v. power_of_10 (k - 1) \<le> v \<and> v \<le> power_of_10 k - 1) ps)
      = prime_list (10 ^ (nat k - 1)) (10 ^ nat k - 1)"
    by (simp only: window_primes [OF assms(1,2) ps])
  have "(n \<le> 10 ^ nat k - 1) = (n < 10 ^ nat k)" for n :: nat
  proof -
    have "(0 :: nat) < 10 ^ nat k"
      by simp
    then show ?thesis
      by linarith
  qed
  then have st: "set (prime_list (10 ^ (nat k - 1)) (10 ^ nat k - 1))
      = {n. is_prime n \<and> 10 ^ (nat k - 1) \<le> n \<and> n < 10 ^ nat k}"
    by (simp add: prime_list_set)
  have one: "prime_list (10 ^ (nat 1 - 1)) (10 ^ nat 1 - 1) = prime_list 2 9"
    using prime_list_from_1 [of 9] by simp
  have sh: "scan_hash ht (power_of_10 (k - 1)) (power_of_10 k - 1) ps c
           = c + int (length (filter (\<lambda>v. \<forall>t \<in> set (truncations v). hash_table_contains ht t = 1)
                       (filter (\<lambda>v. power_of_10 (k - 1) \<le> v \<and> v \<le> power_of_10 k - 1) ps)))"
    by (simp add: scan_hash_filter conj_commute conj_left_commute)
  have sb: "scan_bitset bs k (power_of_10 (k - 1)) (power_of_10 k - 1) ps ppd c
           = (ppd[nat k := ppd ! nat k + word_of_nat (length
                       (filter (\<lambda>v. power_of_10 (k - 1) \<le> v \<and> v \<le> power_of_10 k - 1) ps))],
              c + int (length (filter (\<lambda>v. \<forall>t \<in> set (truncations v). unat t < length bs \<and> bs ! unat t)
                       (filter (\<lambda>v. power_of_10 (k - 1) \<le> v \<and> v \<le> power_of_10 k - 1) ps))))"
    by (simp add: scan_bitset_filter [OF sieve_sorted [OF ps]] conj_commute conj_left_commute)
  from w st one sh sb show ?thesis
    by (intro conjI)
qed

text \<open>The window for \<open>k = 2\<close> in the primes below 100: the 21 primes from 10 to 99.\<close>

lemma prime_list_10_99:
  "prime_list 10 99 = [11, 13, 17, 19, 23, 29, 31, 37, 41, 43, 47, 53, 59, 61, 67, 71, 73, 79, 83,
     89, 97]"
  by (simp add: prime_list_def is_prime_def upt_conv_Cons)

theorem digit_window_exact_witness:
  "map unat (filter (\<lambda>v. power_of_10 (2 - 1) \<le> v \<and> v \<le> power_of_10 2 - 1)
       (map word_of_nat (prime_list 2 99) :: ull list))
     = [11, 13, 17, 19, 23, 29, 31, 37, 41, 43, 47, 53, 59, 61, 67, 71, 73, 79, 83, 89, 97]
   \<and> set (prime_list 10 99) = {n. is_prime n \<and> 10 \<le> n \<and> n < 100}"
proof -
  have hi: "unat (power_of_10 2 - 1) = 99"
    by (simp add: power_of_10_eq)
  have sieve: "primesieve_generate_primes 2 (power_of_10 2 - 1) (sys_start 0)
      = (Some (map word_of_nat (prime_list 2 99)),
         (sys_start 0)\<lparr>sieve_calls := sieve_calls (sys_start 0) @ [(2, power_of_10 2 - 1)]\<rparr>)"
    using sieve_succeeds [of "sys_start 0" 2 "power_of_10 2 - 1"] by (simp add: hi sys_start_def)
  from digit_window_exact [OF _ _ _ sieve, of 2] show ?thesis
    by (simp add: prime_list_10_99)
qed

subsection \<open>Bounds on the counts\<close>

lemma n_count_le: "n_count k \<le> 10 ^ k"
proof -
  have "n_count k \<le> length [10 ^ (k - 1)..<Suc (10 ^ k - 1)]"
    unfolding n_count_def prime_list_def by (rule length_filter_le)
  also have "\<dots> \<le> 10 ^ k"
    by simp
  finally show ?thesis .
qed

lemma rt_count_le: "rt_count k \<le> n_count k"
  unfolding rt_count_def n_count_def by (rule length_filter_le)

lemma n_count_window: "n_count (Suc k) \<le> 10 ^ Suc k - 10 ^ k"
proof -
  have "n_count (Suc k) \<le> length [10 ^ k..<Suc (10 ^ Suc k - 1)]"
    unfolding n_count_def prime_list_def using length_filter_le [of is_prime "[10 ^ k..<Suc (10 ^ Suc k - 1)]"]
    by simp
  then show ?thesis
    by simp
qed

lemma rt_total_Suc: "rt_total (Suc D) = rt_total D + rt_count (Suc D)"
  by (simp add: rt_total_def)

lemma rt_total_le: "rt_total D < 10 ^ D"
proof (induction D)
  case 0
  then show ?case by (simp add: rt_total_def)
next
  case (Suc D)
  have "rt_count (Suc D) \<le> 10 ^ Suc D - 10 ^ D"
    using rt_count_le [of "Suc D"] n_count_window [of D] by linarith
  moreover have "(10 :: nat) ^ D \<le> 10 ^ Suc D"
    by simp
  ultimately have "rt_total D + rt_count (Suc D) < 10 ^ Suc D"
    using Suc by linarith
  then show ?case
    by (simp only: rt_total_Suc)
qed

lemma small_19: "k \<le> 19 \<Longrightarrow> n \<le> 10 ^ k \<Longrightarrow> (n :: nat) < 2 ^ 64"
  using ten_pow_19_bound [of k] by linarith

lemma prime_list_length_mono:
  assumes "hi \<le> hi'"
  shows "length (prime_list lo hi) \<le> length (prime_list lo hi')"
proof (cases "lo \<le> Suc hi")
  case True
  with assms have "[lo..<Suc hi'] = [lo..<Suc hi] @ [Suc hi..<Suc hi']"
    using upt_add_eq_append [of lo "Suc hi" "hi' - hi"] by simp
  then show ?thesis
    by (simp add: prime_list_def)
next
  case False
  then show ?thesis
    by (simp add: prime_list_def)
qed

subsection \<open>The loops of \<open>main\<close>\<close>

lemma total_loop_bitset_result:
  assumes "D \<le> 19" and "map unat ps = prime_list 2 (10 ^ nat D - 1)"
    and "bs = fill_bitset (replicate (10 ^ nat D) False) ps"
  shows "n \<le> nat D \<Longrightarrow> n < length ppd \<Longrightarrow>
    \<exists>ppd'. length ppd' = length ppd \<and>
      total_loop_bitset ps bs (int n) ppd tot s
        = Inr (tot + int (rt_total n), ppd',
               s\<lparr>stdout := stdout s
                   @ map (\<lambda>k. count_line_n (int k) (int (rt_count k)) (n_count k)) (rev [1..<Suc n])\<rparr>)"
proof (induction n arbitrary: ppd tot s)
  case 0
  then show ?case
    by (simp add: total_loop_bitset.simps [of ps bs 0] rt_total_def)
next
  case (Suc n)
  let ?k = "int (Suc n)"
  let ?ppd1 = "ppd[Suc n := word_of_nat (n_count (Suc n))]"
  let ?line = "count_line_n ?k (int (rt_count (Suc n))) (n_count (Suc n))"
  have k: "1 \<le> ?k" "?k \<le> D"
    using Suc.prems(1) by simp_all
  have nk: "nat ?k = Suc n"
    by (rule nat_int)
  have cnt: "count_right_trunc_primes_bitset ps ppd bs ?k s
      = (int (rt_count (Suc n)), ?ppd1, s)"
    using count_bitset_result [OF k assms(1,2,3), of ppd s] unfolding nk .
  have "n_count (Suc n) < 2 ^ 64"
  proof (rule small_19)
    show "Suc n \<le> 19"
      using Suc.prems(1) assms(1) by simp
    show "n_count (Suc n) \<le> 10 ^ Suc n"
      by (rule n_count_le)
  qed
  then have "unat (?ppd1 ! Suc n) = n_count (Suc n)"
    using Suc.prems(2) by (simp add: unat_word_of_nat_small)
  then have line: "''Number of '' @ show_int ?k @ ''-digit right-truncatable primes: ''
        @ show_int (int (rt_count (Suc n))) @ '' (n = ''
        @ show_nat (unat (?ppd1 ! nat ?k)) @ '')'' @ nl = ?line"
    unfolding nk by (simp add: count_line_n_def)
  have n: "n \<le> nat D" and len: "n < length ?ppd1"
    using Suc.prems by simp_all
  from Suc.IH [OF n len, of "tot + int (rt_count (Suc n))" "print_out ?line s"]
  obtain ppd' where l: "length ppd' = length ?ppd1"
    and loop: "total_loop_bitset ps bs (int n) ?ppd1 (tot + int (rt_count (Suc n)))
                 (print_out ?line s)
      = Inr (tot + int (rt_count (Suc n)) + int (rt_total n), ppd',
             (print_out ?line s)\<lparr>stdout := stdout (print_out ?line s)
                @ map (\<lambda>k. count_line_n (int k) (int (rt_count k)) (n_count k)) (rev [1..<Suc n])\<rparr>)"
    by blast
  have "?k - 1 = int n"
    by simp
  then have step: "total_loop_bitset ps bs ?k ppd tot s
      = total_loop_bitset ps bs (int n) ?ppd1 (tot + int (rt_count (Suc n))) (print_out ?line s)"
    using k(1) by (subst total_loop_bitset.simps) (simp only: cnt line prod.case if_True if_False
        of_nat_less_0_iff, simp del: of_nat_Suc)
  show ?case
    using l loop unfolding step
    by (intro exI [of _ ppd']) (simp add: rt_total_Suc print_out_def)
qed

lemma main_bitset_result:
  assumes "length argv = 2" and "atoi (argv ! 1) = D" and "1 \<le> D" and "D \<le> 19"
    and "\<not> sieve_fails s"
  shows "main_bitset atoi elapsed argv s
    = (0, s\<lparr>sieve_calls := sieve_calls s @ [(2, power_of_10 D - 1)],
             stdout := stdout s
               @ map (\<lambda>k. count_line_n (int k) (int (rt_count k)) (n_count k)) (rev [1..<Suc (nat D)])
               @ [total_line_n D (int (rt_total (nat D))) (length (prime_list 2 (10 ^ nat D - 1)))]
               @ time_lines elapsed\<rparr>)"
proof -
  let ?hi = "power_of_10 D - 1"
  let ?s1 = "s\<lparr>sieve_calls := sieve_calls s @ [(2, ?hi)]\<rparr>"
  have D0: "0 \<le> D"
    using assms(3) by simp
  have hi: "unat ?hi = 10 ^ nat D - 1"
    using D0 assms(4) by (rule unat_power_of_10_minus_1)
  define ps :: "ull list" where "ps = map word_of_nat (prime_list 2 (10 ^ nat D - 1))"
  have sieve: "primesieve_generate_primes 2 ?hi s = (Some ps, ?s1)"
    using sieve_succeeds [OF assms(5), of 2 ?hi] by (simp add: ps_def hi)
  from sieve_result [OF sieve]
  have "map unat ps = prime_list (unat (2 :: ull)) (unat ?hi)"
    by blast
  then have ups: "map unat ps = prime_list 2 (10 ^ nat D - 1)"
    by (simp add: hi)
  have len: "length ps = length (prime_list 2 (10 ^ nat D - 1))"
    by (simp add: ps_def)
  have "length ps \<le> Suc (10 ^ nat D - 1) div 2"
    unfolding len by (rule prime_list_length)
  then have "length ps \<le> 10 ^ nat D"
    by simp
  then have "length ps < 2 ^ 64"
    using assms(4) by (intro small_19 [of "nat D"]) simp_all
  then have zu: "unat (word_of_nat (length ps) :: ull) = length (prime_list 2 (10 ^ nat D - 1))"
    by (simp add: unat_word_of_nat_small len)
  let ?bs = "fill_bitset (replicate (unat (?hi + 1)) False) ps"
  let ?ppd = "replicate (nat (D + 1)) (0 :: ull)"
  have bs: "?bs = fill_bitset (replicate (10 ^ nat D) False) ps"
    by (simp only: max_end_plus_1 [OF D0 assms(4)])
  have "nat D < length ?ppd"
    using D0 by simp
  from total_loop_bitset_result [OF assms(4) ups bs order_refl this, of 0 ?s1]
  obtain ppd' where "total_loop_bitset ps ?bs (int (nat D)) ?ppd 0 ?s1
      = Inr (0 + int (rt_total (nat D)), ppd',
             ?s1\<lparr>stdout := stdout ?s1
                @ map (\<lambda>k. count_line_n (int k) (int (rt_count k)) (n_count k))
                    (rev [1..<Suc (nat D)])\<rparr>)"
    by blast
  then have loop: "total_loop_bitset ps ?bs D ?ppd 0 ?s1
      = Inr (int (rt_total (nat D)), ppd',
             ?s1\<lparr>stdout := stdout ?s1
                @ map (\<lambda>k. count_line_n (int k) (int (rt_count k)) (n_count k))
                    (rev [1..<Suc (nat D)])\<rparr>)"
    using D0 by (simp only: int_nat_eq if_True add_0)
  obtain ms us ns where el: "elapsed = (ms, us, ns)"
    by (cases elapsed)
  have "main_bitset atoi elapsed argv s
      = (case total_loop_bitset ps ?bs D ?ppd 0 ?s1 of
           Inl s2 \<Rightarrow> (1, s2)
         | Inr (total_count, primes_per_digit', s2) \<Rightarrow>
             (case elapsed of
                (ms, us, ns) \<Rightarrow>
                  (0, print_out (''Execution time: '' @ ns @ '' nanoseconds'' @ nl)
                       (print_out (''Execution time: '' @ us @ '' microseconds'' @ nl)
                         (print_out (''Execution time: '' @ ms @ '' milliseconds'' @ nl)
                           (print_out
                              (nl @ ''Total number of right-truncatable primes up to ''
                               @ show_int D @ '' digits: '' @ show_int total_count
                               @ '' (n = '' @ show_nat (unat (word_of_nat (length ps) :: ull))
                               @ '')'' @ nl @ nl) s2))))))"
    unfolding main_bitset_def Let_def using assms(1-4) by (simp only: sieve) simp
  also have "\<dots> = (0, s\<lparr>sieve_calls := sieve_calls s @ [(2, power_of_10 D - 1)],
             stdout := stdout s
               @ map (\<lambda>k. count_line_n (int k) (int (rt_count k)) (n_count k)) (rev [1..<Suc (nat D)])
               @ [total_line_n D (int (rt_total (nat D))) (length (prime_list 2 (10 ^ nat D - 1)))]
               @ time_lines elapsed\<rparr>)"
    unfolding loop zu by (simp add: print_out_def total_line_n_def time_lines_def el del: upt_Suc)
  finally show ?thesis .
qed

lemma sum_upto_nat:
  "sum_list (map (\<lambda>j. f (nat j)) [1..int n]) = sum_list (map f [1..<Suc n])"
proof (induction n)
  case 0
  then show ?case by simp
next
  case (Suc n)
  have "[1..int (Suc n)] = [1..int n] @ [int (Suc n)]"
    using upto_rec2 [of 1 "int (Suc n)"] by simp
  then have "sum_list (map (\<lambda>j. f (nat j)) [1..int (Suc n)])
      = sum_list (map (\<lambda>j. f (nat j)) [1..int n]) + f (nat (int (Suc n)))"
    by (simp only: map_append sum_list_append) simp
  with Suc show ?case
    by (simp only: nat_int) simp
qed

lemma total_loop_hash_result:
  assumes "D \<le> 19"
  shows "n = nat (D + 1 - i) \<Longrightarrow> 1 \<le> i \<Longrightarrow> i \<le> D + 1 \<Longrightarrow> \<not> sieve_fails s
    \<Longrightarrow> length (prime_list 2 (10 ^ nat D - 1)) + 2 \<le> avail s
    \<Longrightarrow> total_loop_hash i D tot s
        = Inr (tot + word_of_nat (sum_list (map (\<lambda>j. rt_count (nat j)) [i..D])),
               s\<lparr>sieve_calls := sieve_calls s @ map (\<lambda>j. (2, power_of_10 j - 1)) [i..D]\<rparr>)"
proof (induction n arbitrary: i tot s)
  case 0
  then have "\<not> i \<le> D"
    by simp
  then show ?case
    by (subst total_loop_hash.simps) simp
next
  case (Suc n)
  then have iD: "i \<le> D"
    by simp
  then have i19: "i \<le> 19"
    using assms by simp
  let ?s1 = "s\<lparr>sieve_calls := sieve_calls s @ [(2, power_of_10 i - 1)]\<rparr>"
  have "(10 :: nat) ^ nat i \<le> 10 ^ nat D"
    using iD by (intro power_increasing) simp_all
  then have "(10 :: nat) ^ nat i - 1 \<le> 10 ^ nat D - 1"
    by linarith
  then have "length (prime_list 2 (10 ^ nat i - 1)) \<le> length (prime_list 2 (10 ^ nat D - 1))"
    by (rule prime_list_length_mono)
  with Suc.prems(5) have av: "length (prime_list 2 (10 ^ nat i - 1)) + 2 \<le> avail s"
    by linarith
  have cnt: "count_right_trunc_primes_hash i s = (int (rt_count (nat i)), ?s1)"
    by (rule count_hash_result [OF Suc.prems(2) i19 Suc.prems(4) av])
  have rec: "total_loop_hash (i + 1) D (tot + word_of_nat (rt_count (nat i))) ?s1
      = Inr (tot + word_of_nat (rt_count (nat i))
               + word_of_nat (sum_list (map (\<lambda>j. rt_count (nat j)) [i + 1..D])),
             ?s1\<lparr>sieve_calls := sieve_calls ?s1 @ map (\<lambda>j. (2, power_of_10 j - 1)) [i + 1..D]\<rparr>)"
    using Suc.prems by (intro Suc.IH) simp_all
  have up: "[i..D] = i # [i + 1..D]"
    using iD by (rule upto_rec1)
  have "total_loop_hash i D tot s
      = total_loop_hash (i + 1) D (tot + word_of_nat (rt_count (nat i))) ?s1"
    using iD by (subst total_loop_hash.simps) (simp add: cnt)
  then show ?case
    unfolding rec up by (simp add: add.assoc)
qed

lemma main_hash_result:
  assumes "length argv = 2" and "atoi (argv ! 1) = D" and "1 \<le> D" and "D \<le> 19"
    and "\<not> sieve_fails s" and "length (prime_list 2 (10 ^ nat D - 1)) + 2 \<le> avail s"
  shows "main_hash atoi argv s
    = (0, s\<lparr>sieve_calls := sieve_calls s
               @ (2, power_of_10 D - 1) # map (\<lambda>j. (2, power_of_10 j - 1)) [1..D],
             stdout := stdout s
               @ [count_line D (int (rt_count (nat D))), total_line D (rt_total (nat D))]\<rparr>)"
proof -
  let ?s1 = "s\<lparr>sieve_calls := sieve_calls s @ [(2, power_of_10 D - 1)]\<rparr>"
  let ?s2 = "print_out (count_line D (int (rt_count (nat D)))) ?s1"
  have cnt: "count_right_trunc_primes_hash D s = (int (rt_count (nat D)), ?s1)"
    by (rule count_hash_result [OF assms(3-6)])
  have "[1..D] = [1..int (nat D)]"
    using assms(3) by simp
  then have "sum_list (map (\<lambda>j. rt_count (nat j)) [1..D]) = rt_total (nat D)"
    by (simp only: sum_upto_nat rt_total_def)
  moreover have "total_loop_hash 1 D 0 ?s2
      = Inr (0 + word_of_nat (sum_list (map (\<lambda>j. rt_count (nat j)) [1..D])),
             ?s2\<lparr>sieve_calls := sieve_calls ?s2 @ map (\<lambda>j. (2, power_of_10 j - 1)) [1..D]\<rparr>)"
    using assms(3,5,6) by (intro total_loop_hash_result [OF assms(4) refl]) (simp_all add: print_out_def)
  ultimately have loop: "total_loop_hash 1 D 0 ?s2
      = Inr (word_of_nat (rt_total (nat D)),
             ?s2\<lparr>sieve_calls := sieve_calls ?s2 @ map (\<lambda>j. (2, power_of_10 j - 1)) [1..D]\<rparr>)"
    by simp
  have "rt_total (nat D) < 10 ^ nat D"
    by (rule rt_total_le)
  then have "rt_total (nat D) < 2 ^ 64"
    using assms(4) by (intro small_19 [of "nat D"]) simp_all
  then have tot: "unat (word_of_nat (rt_total (nat D)) :: ull) = rt_total (nat D)"
    by (rule unat_word_of_nat_small)
  have "main_hash atoi argv s
      = (case total_loop_hash 1 D 0 ?s2 of
           Inl s3 \<Rightarrow> (1, s3)
         | Inr (total_count, s3) \<Rightarrow>
             (0, print_out (''Total number of right-truncatable primes up to ''
                            @ show_int D @ '' digits: ''
                            @ show_nat (unat total_count) @ nl) s3))"
    unfolding main_hash_def Let_def using assms(1-4)
    by (simp only: cnt) (simp add: count_line_def)
  also have "\<dots> = (0, s\<lparr>sieve_calls := sieve_calls s
               @ (2, power_of_10 D - 1) # map (\<lambda>j. (2, power_of_10 j - 1)) [1..D],
             stdout := stdout s
               @ [count_line D (int (rt_count (nat D))), total_line D (rt_total (nat D))]\<rparr>)"
    unfolding loop by (simp add: tot print_out_def total_line_def)
  finally show ?thesis .
qed

subsection \<open>Small counts by evaluation\<close>

lemma rt_prime_digit: "n < 10 \<Longrightarrow> rt_prime n = is_prime n"
  by (simp add: rt_prime.simps [of n])

lemma rt_prime_step: "10 \<le> n \<Longrightarrow> rt_prime n = (is_prime n \<and> rt_prime (n div 10))"
  by (simp add: rt_prime.simps [of n])

lemma prime_list_Suc_0: "prime_list (Suc 0) hi = prime_list 2 hi"
  using prime_list_from_1 [of hi] by simp

lemma rt_list_1: "filter rt_prime (prime_list 2 9) = [2, 3, 5, 7]"
  by (simp add: prime_list_2_9 rt_prime_digit is_prime_def upt_conv_Cons)

lemma rt_count_1: "rt_count 1 = 4"
  by (simp add: rt_count_def prime_list_Suc_0 rt_list_1)

lemma n_count_1: "n_count 1 = 4"
  by (simp add: n_count_def prime_list_Suc_0 prime_list_2_9)

lemma n_count_2: "n_count 2 = 21"
  by (simp add: n_count_def prime_list_10_99)

lemma is_prime_digits:
  "is_prime 2" "is_prime 3" "is_prime 5" "is_prime 7"
  "\<not> is_prime 4" "\<not> is_prime 6" "\<not> is_prime 8" "\<not> is_prime 9" "\<not> is_prime (Suc 0)"
proof -
  show "is_prime 2" "is_prime 3" "is_prime 5" "is_prime 7"
    "\<not> is_prime 4" "\<not> is_prime 6" "\<not> is_prime 8" "\<not> is_prime 9"
    by (simp_all add: is_prime_def upt_conv_Cons)
  show "\<not> is_prime (Suc 0)"
    unfolding is_prime_def by simp
qed

lemma rt_list_2:
  "filter rt_prime (prime_list 10 99) = [23, 29, 31, 37, 53, 59, 71, 73, 79]"
proof -
  have "is_prime n" if "n \<in> set (prime_list 10 99)" for n
    using that by (simp add: prime_list_set)
  then have p: "n \<in> set [11, 13, 17, 19, 23, 29, 31, 37, 41, 43, 47, 53, 59, 61, 67, 71, 73, 79,
      83, 89, 97] \<Longrightarrow> is_prime n" for n
    by (simp only: prime_list_10_99)
  show ?thesis
    unfolding prime_list_10_99 by (simp add: rt_prime_step rt_prime_digit is_prime_digits p)
qed

lemma rt_count_2: "rt_count 2 = 9"
  by (simp add: rt_count_def rt_list_2)

lemma rt_total_1: "rt_total 1 = 4"
  using rt_count_1 by (simp add: rt_total_def)

lemma rt_total_2: "rt_total 2 = 13"
  using rt_count_1 rt_count_2 by (simp add: rt_total_def numeral_2_eq_2)

lemma prime_list_2_99:
  "prime_list 2 99 = [2, 3, 5, 7, 11, 13, 17, 19, 23, 29, 31, 37, 41, 43, 47, 53, 59, 61, 67, 71,
     73, 79, 83, 89, 97]"
  by (simp add: prime_list_def is_prime_def upt_conv_Cons)

lemma sieve_2_99:
  "primesieve_generate_primes 2 (power_of_10 2 - 1) (sys_start n)
     = (Some primes_99, (sys_start n)\<lparr>sieve_calls := [(2, 99)]\<rparr>)"
proof -
  have "power_of_10 2 - 1 = 99"
    by (simp add: power_of_10_eq)
  then show ?thesis
    using sieve_succeeds [of "sys_start n" 2 99]
    by (simp add: sys_start_def prime_list_2_99 primes_99_def)
qed

subsection \<open>The two variants agree\<close>

text \<open>
  C4.  The two membership indexes are interchangeable.  For a digit bound \<open>D\<close> in 1..19, a
  working prime generator and a heap that holds the hash table (one node per prime up to
  \<open>10^D - 1\<close> and the table itself), \<open>count_right_trunc_primes\<close> of the hash variant
  (which generates its own primes up to \<open>10^k - 1\<close>) and of the bitset variant (on the
  primes and the bit table that \<open>main\<close> builds for \<open>D\<close>) return the same count for every
  length \<open>k\<close> in 1..D, namely the brute-force count \<open>rt_count k\<close>; and the totals that the
  two \<open>main\<close> loops accumulate are the same number.
\<close>

theorem index_variants_agree:
  assumes "1 \<le> D" and "D \<le> 19" and "\<not> sieve_fails sh"
    and "length (prime_list 2 (10 ^ nat D - 1)) + 2 \<le> avail sh"
    and "primesieve_generate_primes 2 (power_of_10 D - 1) s = (Some ps, s1)"
    and "bs = fill_bitset (replicate (unat (power_of_10 D - 1 + 1)) False) ps"
  shows "(\<forall>k. 1 \<le> k \<and> k \<le> D \<longrightarrow>
            fst (count_right_trunc_primes_hash k sh) = int (rt_count (nat k))
          \<and> fst (count_right_trunc_primes_bitset ps ppd bs k sb) = int (rt_count (nat k)))
       \<and> (\<exists>T sh' T' ppd' sb'.
            total_loop_hash 1 D 0 sh = Inr (T, sh')
          \<and> total_loop_bitset ps bs D (replicate (nat (D + 1)) 0) 0 sb = Inr (T', ppd', sb')
          \<and> int (unat T) = T' \<and> T' = int (rt_total (nat D)))"
proof -
  have D0: "0 \<le> D"
    using assms(1) by simp
  from sieve_result [OF assms(5)]
  have "map unat ps = prime_list (unat (2 :: ull)) (unat (power_of_10 D - 1))"
    by blast
  then have ups: "map unat ps = prime_list 2 (10 ^ nat D - 1)"
    by (simp add: unat_power_of_10_minus_1 [OF D0 assms(2)])
  have bs: "bs = fill_bitset (replicate (10 ^ nat D) False) ps"
    unfolding assms(6) by (simp only: max_end_plus_1 [OF D0 assms(2)])
  have per_length: "fst (count_right_trunc_primes_hash k sh) = int (rt_count (nat k))
      \<and> fst (count_right_trunc_primes_bitset ps ppd bs k sb) = int (rt_count (nat k))"
    if k: "1 \<le> k \<and> k \<le> D" for k
  proof -
    from k assms(2) have k19: "k \<le> 19"
      by simp
    have "(10 :: nat) ^ nat k \<le> 10 ^ nat D"
      using k by (intro power_increasing) auto
    then have "(10 :: nat) ^ nat k - 1 \<le> 10 ^ nat D - 1"
      by linarith
    then have "length (prime_list 2 (10 ^ nat k - 1)) \<le> length (prime_list 2 (10 ^ nat D - 1))"
      by (rule prime_list_length_mono)
    with assms(4) have av: "length (prime_list 2 (10 ^ nat k - 1)) + 2 \<le> avail sh"
      by linarith
    from k have k1: "1 \<le> k" and kD: "k \<le> D"
      by simp_all
    show ?thesis
      by (simp add: count_hash_result [OF k1 k19 assms(3) av]
          count_bitset_result [OF k1 kD assms(2) ups bs])
  qed
  have "[1..D] = [1..int (nat D)]"
    using assms(1) by simp
  then have sum: "sum_list (map (\<lambda>j. rt_count (nat j)) [1..D]) = rt_total (nat D)"
    by (simp only: sum_upto_nat rt_total_def)
  have "total_loop_hash 1 D 0 sh
      = Inr (0 + word_of_nat (sum_list (map (\<lambda>j. rt_count (nat j)) [1..D])),
             sh\<lparr>sieve_calls := sieve_calls sh @ map (\<lambda>j. (2, power_of_10 j - 1)) [1..D]\<rparr>)"
    using assms(1,3,4) by (intro total_loop_hash_result [OF assms(2) refl]) simp_all
  then have hash: "total_loop_hash 1 D 0 sh
      = Inr (word_of_nat (rt_total (nat D)),
             sh\<lparr>sieve_calls := sieve_calls sh @ map (\<lambda>j. (2, power_of_10 j - 1)) [1..D]\<rparr>)"
    by (simp add: sum)
  have "rt_total (nat D) < 10 ^ nat D"
    by (rule rt_total_le)
  then have "rt_total (nat D) < 2 ^ 64"
    using assms(2) by (intro small_19 [of "nat D"]) simp_all
  then have tot: "unat (word_of_nat (rt_total (nat D)) :: ull) = rt_total (nat D)"
    by (rule unat_word_of_nat_small)
  have "nat D < length (replicate (nat (D + 1)) (0 :: ull))"
    using D0 by simp
  from total_loop_bitset_result [OF assms(2) ups bs order_refl this, of 0 sb]
  obtain ppd' sb' where "total_loop_bitset ps bs (int (nat D)) (replicate (nat (D + 1)) 0) 0 sb
      = Inr (0 + int (rt_total (nat D)), ppd', sb')"
    by blast
  then have bitset: "total_loop_bitset ps bs D (replicate (nat (D + 1)) 0) 0 sb
      = Inr (int (rt_total (nat D)), ppd', sb')"
    using D0 by (simp only: int_nat_eq if_True add_0)
  from per_length hash bitset tot show ?thesis
    by (intro conjI allI impI exI) (assumption | simp)+
qed

text \<open>One digit: both count the four primes 2, 3, 5 and 7.  Two digits: both count 4 and
  9, and both totals are 13.\<close>

theorem index_variants_agree_witness:
  "fst (count_right_trunc_primes_hash 1 (sys_start 6)) = 4
   \<and> fst (count_right_trunc_primes_bitset [2, 3, 5, 7] [0, 0]
          (fill_bitset (replicate 10 False) [2, 3, 5, 7]) 1 (sys_start 0)) = 4
   \<and> fst (count_right_trunc_primes_hash 1 (sys_start 27)) = 4
   \<and> fst (count_right_trunc_primes_hash 2 (sys_start 27)) = 9
   \<and> fst (count_right_trunc_primes_bitset primes_99 [0, 0, 0]
          (fill_bitset (replicate 100 False) primes_99) 1 (sys_start 0)) = 4
   \<and> fst (count_right_trunc_primes_bitset primes_99 [0, 0, 0]
          (fill_bitset (replicate 100 False) primes_99) 2 (sys_start 0)) = 9
   \<and> (\<exists>sh' ppd' sb'.
        total_loop_hash 1 2 0 (sys_start 27) = Inr (13, sh')
        \<and> total_loop_bitset primes_99 (fill_bitset (replicate 100 False) primes_99) 2
             [0, 0, 0] 0 (sys_start 0) = Inr (13, ppd', sb'))"
proof -
  have heap: "length (prime_list 2 (10 ^ nat 1 - 1)) + 2 \<le> avail (sys_start 6)"
    by (simp add: prime_list_2_9 sys_start_def)
  have ok: "\<not> sieve_fails (sys_start 6)"
    by (simp add: sys_start_def)
  have ten: "unat (power_of_10 1 - 1 + 1) = 10"
    by (simp add: power_of_10_eq)
  have bs: "fill_bitset (replicate 10 False) [2, 3, 5, 7]
      = fill_bitset (replicate (unat (power_of_10 1 - 1 + 1)) False) [2, 3, 5, 7]"
    by (simp only: ten)
  from index_variants_agree [OF _ _ ok heap sieve_2_9 [of 0] bs, of "[0, 0]" "sys_start 0"]
  have "\<forall>k. 1 \<le> k \<and> k \<le> 1 \<longrightarrow>
            fst (count_right_trunc_primes_hash k (sys_start 6)) = int (rt_count (nat k))
          \<and> fst (count_right_trunc_primes_bitset [2, 3, 5, 7] [0, 0]
                (fill_bitset (replicate 10 False) [2, 3, 5, 7]) k (sys_start 0))
              = int (rt_count (nat k))"
    by simp
  from this [rule_format, of 1] rt_count_1 have one:
    "fst (count_right_trunc_primes_hash 1 (sys_start 6)) = 4
     \<and> fst (count_right_trunc_primes_bitset [2, 3, 5, 7] [0, 0]
          (fill_bitset (replicate 10 False) [2, 3, 5, 7]) 1 (sys_start 0)) = 4"
    by simp
  let ?bs = "fill_bitset (replicate 100 False) primes_99"
  have heap2: "length (prime_list 2 (10 ^ nat 2 - 1)) + 2 \<le> avail (sys_start 27)"
    by (simp add: prime_list_2_99 sys_start_def)
  have ok2: "\<not> sieve_fails (sys_start 27)"
    by (simp add: sys_start_def)
  have hundred: "unat (power_of_10 2 - 1 + 1) = 100"
    by (simp add: power_of_10_eq)
  have bs2: "?bs = fill_bitset (replicate (unat (power_of_10 2 - 1 + 1)) False) primes_99"
    by (simp only: hundred)
  have three: "replicate 3 (0 :: ull) = [0, 0, 0]"
    by (simp add: numeral_eq_Suc)
  note two = index_variants_agree [where D = 2 and ppd = "[0, 0, 0]" and sb = "sys_start 0",
      OF _ _ ok2 heap2 sieve_2_99 [of 0] bs2]
  have per: "\<forall>k. 1 \<le> k \<and> k \<le> 2 \<longrightarrow>
            fst (count_right_trunc_primes_hash k (sys_start 27)) = int (rt_count (nat k))
          \<and> fst (count_right_trunc_primes_bitset primes_99 [0, 0, 0] ?bs k (sys_start 0))
              = int (rt_count (nat k))"
    using two by simp
  from per [rule_format, of 1] per [rule_format, of 2] rt_count_1 rt_count_2
  have counts: "fst (count_right_trunc_primes_hash 1 (sys_start 27)) = 4"
    "fst (count_right_trunc_primes_hash 2 (sys_start 27)) = 9"
    "fst (count_right_trunc_primes_bitset primes_99 [0, 0, 0] ?bs 1 (sys_start 0)) = 4"
    "fst (count_right_trunc_primes_bitset primes_99 [0, 0, 0] ?bs 2 (sys_start 0)) = 9"
    by simp_all
  from two obtain T sh' T' ppd' sb' where
    h: "total_loop_hash 1 2 0 (sys_start 27) = Inr (T, sh')"
    and b: "total_loop_bitset primes_99 ?bs 2 (replicate (nat (2 + 1)) 0) 0 (sys_start 0)
        = Inr (T', ppd', sb')"
    and T: "int (unat T) = T'" and T': "T' = int (rt_total (nat 2))"
    by auto
  from T' have "T' = 13"
    by (simp add: rt_total_2)
  with T have "int (unat T) = int 13"
    by (simp only: of_nat_numeral)
  then have "unat T = 13"
    by (simp only: of_nat_eq_iff)
  then have "unat T = unat (13 :: ull)"
    by simp
  then have "T = 13"
    by (simp only: word_unat_eq_iff)
  with h b \<open>T' = 13\<close> have totals: "\<exists>sh' ppd' sb'.
        total_loop_hash 1 2 0 (sys_start 27) = Inr (13, sh')
        \<and> total_loop_bitset primes_99 ?bs 2 [0, 0, 0] 0 (sys_start 0) = Inr (13, ppd', sb')"
    by (simp add: three)
  from one counts totals show ?thesis
    by (simp only: simp_thms)
qed

subsection \<open>Primality by trial division up to the square root\<close>

lemma prime_divisor: "2 \<le> m \<Longrightarrow> \<exists>q. is_prime q \<and> q dvd m"
proof (induction m rule: less_induct)
  case (less m)
  show ?case
  proof (cases "is_prime m")
    case True
    then show ?thesis
      by auto
  next
    case False
    with less.prems obtain d where d: "2 \<le> d" "d < m" "d dvd m"
      by (auto simp add: is_prime_iff)
    from less.IH [OF d(2) d(1)] obtain q where "is_prime q" and "q dvd d"
      by blast
    with d(3) show ?thesis
      by (blast intro: dvd_trans)
  qed
qed

lemma is_prime_by_sqrt:
  assumes "2 \<le> n" and "\<And>q. is_prime q \<Longrightarrow> q * q \<le> n \<Longrightarrow> \<not> q dvd n"
  shows "is_prime n"
proof (rule ccontr)
  assume "\<not> is_prime n"
  with assms(1) obtain d where d: "2 \<le> d" "d < n" "d dvd n"
    by (auto simp add: is_prime_iff)
  then obtain e where e: "n = d * e"
    by (auto simp add: dvd_def)
  with d have e2: "2 \<le> e"
    by (cases "e = 0"; cases "e = 1") auto
  define m where "m = min d e"
  have m2: "2 \<le> m" and "m dvd n"
    using d e e2 by (auto simp add: m_def min_def)
  have "m * m \<le> d * e"
    by (rule mult_mono) (simp_all add: m_def)
  then have mm: "m * m \<le> n"
    by (simp add: e)
  from prime_divisor [OF m2] obtain q where q: "is_prime q" "q dvd m"
    by blast
  from q(2) m2 have qm: "q \<le> m"
    by (auto intro: dvd_imp_le)
  have "q * q \<le> m * m"
    using qm by (intro mult_mono) simp_all
  with mm have "q * q \<le> n"
    by linarith
  moreover from q(2) \<open>m dvd n\<close> have "q dvd n"
    by (rule dvd_trans)
  ultimately show False
    using assms(2) [OF q(1)] by simp
qed

lemma composite_not_prime: "a * b = n \<Longrightarrow> 1 < a \<Longrightarrow> 1 < b \<Longrightarrow> \<not> is_prime n"
proof
  assume n: "a * b = n" and a: "1 < a" and b: "1 < b" and p: "is_prime n"
  from n a b have "a < n"
    by (metis mult.right_neutral nat_mult_less_cancel1 less_trans zero_less_one)
  moreover have "a dvd n"
    using n by auto
  ultimately show False
    using p a by (auto simp add: is_prime_iff)
qed

lemma residues_30:
  "\<forall>r \<in> set [0..<30]. \<not> 2 dvd r \<and> \<not> 3 dvd r \<and> \<not> 5 dvd r
    \<longrightarrow> r \<in> set [1, 7, 11, 13, 17, 19, 23, 29 :: nat]"
  by code_simp

lemma prime_mod_30:
  assumes "is_prime q" and "q \<noteq> 2" and "q \<noteq> 3" and "q \<noteq> 5"
  shows "q mod 30 \<in> {1, 7, 11, 13, 17, 19, 23, 29}"
proof -
  from assms(1) have q2: "2 \<le> q"
    by (simp add: is_prime_iff)
  have nd: "\<not> p dvd q" if "p \<in> {2, 3, 5}" for p
  proof
    assume pd: "p dvd q"
    from that assms(2-4) have "p \<noteq> q" and "2 \<le> p"
      by auto
    moreover from pd q2 have "p \<le> q"
      by (auto intro: dvd_imp_le)
    ultimately show False
      using assms(1) pd by (auto simp add: is_prime_iff)
  qed
  from nd [of 2] nd [of 3] nd [of 5] have "\<not> 2 dvd q" and "\<not> 3 dvd q" and "\<not> 5 dvd q"
    by simp_all
  then have "\<not> 2 dvd q mod 30" and "\<not> 3 dvd q mod 30" and "\<not> 5 dvd q mod 30"
    by (simp_all add: dvd_mod_iff)
  moreover have "q mod 30 \<in> set [0..<30]"
    by simp
  ultimately show ?thesis
    using residues_30 by auto
qed

lemma last_digit:
  assumes "is_prime n" and "10 \<le> n"
  shows "n mod 10 \<in> {1, 3, 7, 9}"
proof -
  have nd: "\<not> p dvd n" if "p \<in> {2, 5}" for p
  proof
    assume pd: "p dvd n"
    from that assms(2) have "p < n" and "2 \<le> p"
      by auto
    then show False
      using assms(1) pd by (auto simp add: is_prime_iff)
  qed
  from nd [of 2] nd [of 5] have "\<not> 2 dvd n" and "\<not> 5 dvd n"
    by simp_all
  then have "n mod 10 = 1 \<or> n mod 10 = 3 \<or> n mod 10 = 7 \<or> n mod 10 = 9"
    by presburger
  then show ?thesis
    by auto
qed

subsection \<open>Soundness of the certificate checker\<close>

lemma no_div_sound:
  assumes "no_div n d k"
  shows "\<not> d dvd n"
proof
  assume "d dvd n"
  then obtain j where n: "n = d * j"
    by (auto simp add: dvd_def)
  from assms have lo: "d * k < d * j" and hi: "d * j < d * k + d"
    by (simp_all add: no_div_def between_def n)
  from lo have "k < j"
    by simp
  moreover from hi have "d * j < d * Suc k"
    by (simp add: algebra_simps)
  then have "j < Suc k"
    by (simp only: mult_less_cancel1)
  ultimately show False
    by simp
qed

lemma blk_sound: "blk n b rs ks \<Longrightarrow> r \<in> set rs \<Longrightarrow> \<not> (b + r) dvd n"
  by (induction n b rs ks rule: blk.induct) (auto dest: no_div_sound)

lemma wt_sound:
  "wt n b kss \<Longrightarrow>
   n < (b + 30 * length kss) * (b + 30 * length kss)
   \<and> (\<forall>i < length kss. \<forall>r \<in> set [1, 7, 11, 13, 17, 19, 23, 29]. \<not> (b + 30 * i + r) dvd n)"
proof (induction kss arbitrary: b)
  case Nil
  then show ?case
    by simp
next
  case (Cons ks kss)
  from Cons.prems have first: "blk n b [1, 7, 11, 13, 17, 19, 23, 29] ks"
    and rest: "wt n (b + 30) kss"
    by simp_all
  from Cons.IH [OF rest]
  have bound: "n < (b + 30 + 30 * length kss) * (b + 30 + 30 * length kss)"
    and later: "\<And>i r. i < length kss \<Longrightarrow> r \<in> set [1, 7, 11, 13, 17, 19, 23, 29]
      \<Longrightarrow> \<not> (b + 30 + 30 * i + r) dvd n"
    by blast+
  have "\<not> (b + 30 * i + r) dvd n"
    if "i < length (ks # kss)" and "r \<in> set [1, 7, 11, 13, 17, 19, 23, 29]" for i r
  proof (cases i)
    case 0
    with blk_sound [OF first that(2)] show ?thesis
      by simp
  next
    case (Suc i')
    with that(1) have "i' < length kss"
      by simp
    from later [OF this that(2)] Suc show ?thesis
      by (simp add: algebra_simps)
  qed
  moreover have "b + 30 + 30 * length kss = b + 30 * length (ks # kss)"
    by simp
  ultimately show ?case
    using bound by (simp only: ) blast
qed

lemma wheel_ok_prime:
  assumes "wheel_ok n first kss"
  shows "is_prime n"
proof (rule is_prime_by_sqrt)
  from assms show "2 \<le> n"
    by (simp add: wheel_ok_def)
next
  fix q
  assume q: "is_prime q" and qq: "q * q \<le> n"
  from assms have first: "blk n 0 [2, 3, 5, 7, 11, 13, 17, 19, 23, 29] first"
    and wheel: "wt n 30 kss"
    by (simp_all add: wheel_ok_def)
  have low: "\<not> r dvd n" if "r \<in> set [2, 3, 5, 7, 11, 13, 17, 19, 23, 29]" for r
    using blk_sound [OF first that] by simp
  show "\<not> q dvd n"
  proof (cases "q = 2 \<or> q = 3 \<or> q = 5")
    case True
    then show ?thesis
      using low [of q] by auto
  next
    case False
    with q have res: "q mod 30 \<in> {1, 7, 11, 13, 17, 19, 23, 29}"
      by (intro prime_mod_30) simp_all
    have split: "q = 30 * (q div 30) + q mod 30"
      by simp
    show ?thesis
    proof (cases "q div 30")
      case 0
      with split have "q = q mod 30"
        by simp
      with res have "q \<in> {1, 7, 11, 13, 17, 19, 23, 29}"
        by simp
      moreover from q have "q \<noteq> 1"
        by (auto simp add: is_prime_iff)
      ultimately have "q \<in> set [2, 3, 5, 7, 11, 13, 17, 19, 23, 29]"
        by auto
      then show ?thesis
        by (rule low)
    next
      case (Suc i)
      from wt_sound [OF wheel]
      have bound: "n < (30 + 30 * length kss) * (30 + 30 * length kss)"
        and later: "\<And>i r. i < length kss \<Longrightarrow> r \<in> set [1, 7, 11, 13, 17, 19, 23, 29]
          \<Longrightarrow> \<not> (30 + 30 * i + r) dvd n"
        by blast+
      have "q < 30 + 30 * length kss"
      proof (rule ccontr)
        assume "\<not> q < 30 + 30 * length kss"
        then have "30 + 30 * length kss \<le> q"
          by simp
        then have "(30 + 30 * length kss) * (30 + 30 * length kss) \<le> q * q"
          by (intro mult_mono) simp_all
        with qq bound show False
          by linarith
      qed
      moreover from split Suc have qi: "q = 30 + 30 * i + q mod 30"
        by simp
      ultimately have "i < length kss"
        by linarith
      moreover from res have "q mod 30 \<in> set [1, 7, 11, 13, 17, 19, 23, 29]"
        by simp
      ultimately have "\<not> (30 + 30 * i + q mod 30) dvd n"
        by (rule later)
      with qi show ?thesis
        by simp
    qed
  qed
qed

lemma check_cands_sound: "check_cands ns cs = Some ps \<Longrightarrow> filter is_prime ns = ps"
proof (induction ns cs arbitrary: ps rule: check_cands.induct)
  case 1
  then show ?case
    by simp
next
  case (2 n ns first kss r)
  then show ?case
    by (auto simp add: wheel_ok_prime split: if_splits)
next
  case (3 n ns a b r)
  then show ?case
    by (auto simp add: composite_not_prime split: if_splits)
qed simp_all

subsection \<open>The right-truncatable primes, length by length\<close>

lemma rt_prime_is_prime: "rt_prime n \<Longrightarrow> is_prime n"
  by (subst (asm) rt_prime.simps) (simp split: if_splits)

lemma rt_list_set:
  "set (rt_list k) = {n. rt_prime n \<and> 10 ^ (k - 1) \<le> n \<and> n \<le> 10 ^ k - 1}"
  by (auto simp add: rt_list_def prime_list_set rt_prime_is_prime)

lemma div_10_window:
  assumes "1 \<le> k"
  shows "(10 ^ k \<le> n \<and> n \<le> 10 ^ Suc k - 1) = (10 ^ (k - 1) \<le> n div 10 \<and> n div 10 \<le> 10 ^ k - (1 :: nat))"
proof -
  obtain j where k: "k = Suc j"
    using assms by (cases k) simp_all
  have "(10 * P \<le> n \<and> n \<le> 10 * (10 * P) - 1) = (P \<le> n div 10 \<and> n div 10 \<le> 10 * P - 1)"
    if "0 < P" for P :: nat
    using that by arith
  from this [of "10 ^ j"] show ?thesis
    unfolding k by simp
qed

lemma rt_set_Suc:
  assumes "1 \<le> k"
  shows "set (rt_list (Suc k)) = {n. is_prime n \<and> n div 10 \<in> set (rt_list k)}"
proof -
  have "(rt_prime n \<and> 10 ^ k \<le> n \<and> n \<le> 10 ^ Suc k - 1)
      = (is_prime n \<and> rt_prime (n div 10) \<and> 10 ^ (k - 1) \<le> n div 10 \<and> n div 10 \<le> 10 ^ k - 1)"
    for n
  proof (cases "10 \<le> n")
    case True
    then show ?thesis
      using div_10_window [OF assms, of n] by (auto simp add: rt_prime_step)
  next
    case False
    have "(10 :: nat) ^ 1 \<le> 10 ^ k"
      using assms by (intro power_increasing) simp_all
    with False have "n div 10 = 0" and "n < 10 ^ k"
      by simp_all
    then show ?thesis
      by auto
  qed
  then show ?thesis
    by (simp add: rt_list_set)
qed

lemma extend_digits:
  fixes n p :: nat
  assumes "n = 10 * p + 1 \<or> n = 10 * p + 3 \<or> n = 10 * p + 7 \<or> n = 10 * p + 9"
  shows "n div 10 = p" and "n mod 10 = 1 \<or> n mod 10 = 3 \<or> n mod 10 = 7 \<or> n mod 10 = 9"
  using assms by auto

lemma extend_mem:
  "(n \<in> set (extend L))
    = (\<exists>p \<in> set L. n = 10 * p + 1 \<or> n = 10 * p + 3 \<or> n = 10 * p + 7 \<or> n = 10 * p + 9)"
  unfolding extend_def by (induction L) auto

lemma extend_set: "set (extend L) = {n. n div 10 \<in> set L \<and> n mod 10 \<in> {1, 3, 7, 9}}"
proof -
  have "n \<in> set (extend L)" if "n div 10 \<in> set L" and "n mod 10 \<in> {1, 3, 7, 9}" for n
  proof -
    have eq: "n = 10 * (n div 10) + n mod 10"
      by simp
    from that(2) have "n mod 10 = 1 \<or> n mod 10 = 3 \<or> n mod 10 = 7 \<or> n mod 10 = 9"
      by auto
    then have "n = 10 * (n div 10) + 1 \<or> n = 10 * (n div 10) + 3
        \<or> n = 10 * (n div 10) + 7 \<or> n = 10 * (n div 10) + 9"
      using eq by (elim disjE) linarith+
    with that(1) show ?thesis
      unfolding extend_mem by blast
  qed
  moreover have "n div 10 \<in> set L \<and> n mod 10 \<in> {1, 3, 7, 9}" if "n \<in> set (extend L)" for n
  proof -
    from that obtain p where p: "p \<in> set L"
      and n: "n = 10 * p + 1 \<or> n = 10 * p + 3 \<or> n = 10 * p + 7 \<or> n = 10 * p + 9"
      unfolding extend_mem by blast
    from extend_digits [OF n] p show ?thesis
      by auto
  qed
  ultimately show ?thesis
    by blast
qed

lemma level_step:
  assumes "1 \<le> k" and "set (rt_list k) = set L" and "check_cands (extend L) cs = Some L'"
  shows "set (rt_list (Suc k)) = set L'"
proof -
  have pos: "1 \<le> p" if "p \<in> set L" for p
  proof -
    from that assms(2) have "rt_prime p"
      by (auto simp add: rt_list_set)
    then have "is_prime p"
      by (rule rt_prime_is_prime)
    then show ?thesis
      by (simp add: is_prime_iff)
  qed
  have "n mod 10 \<in> {1, 3, 7, 9}" if "is_prime n" and "n div 10 \<in> set L" for n
  proof -
    from pos [OF that(2)] have "10 \<le> n"
      by simp
    with that(1) show ?thesis
      by (rule last_digit)
  qed
  then have "{n. is_prime n \<and> n div 10 \<in> set L} = set (filter is_prime (extend L))"
    by (auto simp add: extend_set)
  with rt_set_Suc [OF assms(1)] check_cands_sound [OF assms(3)] assms(2) show ?thesis
    by simp
qed

lemma rt_count_length:
  assumes "set (rt_list k) = set L" and "distinct L"
  shows "rt_count k = length L"
proof -
  have "distinct (rt_list k)"
    unfolding rt_list_def using prime_list_sorted [of "10 ^ (k - 1)" "10 ^ k - 1"]
    by (simp add: strict_sorted_iff)
  then have "length (rt_list k) = card (set (rt_list k))"
    by (rule distinct_card [symmetric])
  also have "\<dots> = length L"
    unfolding assms(1) using assms(2) by (rule distinct_card)
  finally show ?thesis
    by (simp add: rt_count_def rt_list_def)
qed

subsection \<open>The counts for the lengths 3 to 8\<close>

lemma certs_3_checked: "check_cands (extend rt_primes_2) certs_3 = Some rt_primes_3"
  by (simp add: extend_def rt_primes_2_def certs_3_def rt_primes_3_def wheel_ok_def no_div_def
      between_def)

lemma certs_4_checked: "check_cands (extend rt_primes_3) certs_4 = Some rt_primes_4"
  by (simp add: extend_def rt_primes_3_def certs_4_def rt_primes_4_def wheel_ok_def no_div_def
      between_def wheel_2333_1_def wheel_2339_1_def wheel_2393_1_def wheel_2399_1_def
      wheel_2939_1_def wheel_3119_1_def wheel_3137_1_def wheel_3733_1_def wheel_3739_1_def
      wheel_3793_1_def wheel_3797_1_def wheel_5939_1_def wheel_7193_1_def wheel_7331_1_def
      wheel_7333_1_def wheel_7393_1_def)

lemma certs_5_checked: "check_cands (extend rt_primes_4) certs_5 = Some rt_primes_5"
  by (simp add: extend_def rt_primes_4_def certs_5_def rt_primes_5_def wheel_ok_def no_div_def
      between_def wheel_23333_1_def wheel_23339_1_def wheel_23399_1_def wheel_23993_1_def
      wheel_29399_1_def wheel_31193_1_def wheel_31379_1_def wheel_37337_1_def
      wheel_37339_1_def wheel_37397_1_def wheel_59393_1_def wheel_59399_1_def
      wheel_71933_1_def wheel_73331_1_def wheel_73939_1_def)

lemma certs_6_checked: "check_cands (extend rt_primes_5) certs_6 = Some rt_primes_6"
  by (simp add: extend_def rt_primes_5_def certs_6_def rt_primes_6_def wheel_ok_def no_div_def
      between_def wheel_233993_1_def wheel_239933_1_def wheel_293999_1_def wheel_373379_1_def
      wheel_373393_1_def wheel_593933_1_def wheel_593993_1_def wheel_719333_1_def
      wheel_739391_1_def wheel_739393_1_def wheel_739397_1_def wheel_739399_1_def)

lemma certs_7_checked: "check_cands (extend rt_primes_6) certs_7 = Some rt_primes_7"
  by (simp add: extend_def rt_primes_6_def certs_7_def rt_primes_7_def wheel_ok_def no_div_def
      between_def wheel_2339933_1_def wheel_2399333_1_def wheel_2939999_1_def
      wheel_3733799_1_def wheel_5939333_1_def wheel_7393913_1_def wheel_7393931_1_def
      wheel_7393933_1_def)

lemma certs_8_checked: "check_cands (extend rt_primes_7) certs_8 = Some rt_primes_8"
  by (simp add: extend_def rt_primes_7_def certs_8_def rt_primes_8_def wheel_ok_def no_div_def
      between_def wheel_23399339_1_def wheel_23399339_2_def wheel_29399999_1_def
      wheel_29399999_2_def wheel_37337999_1_def wheel_37337999_2_def wheel_37337999_3_def
      wheel_59393339_1_def wheel_59393339_2_def wheel_59393339_3_def wheel_73939133_1_def
      wheel_73939133_2_def wheel_73939133_3_def)


lemma rt_list_2_set: "set (rt_list 2) = set rt_primes_2"
  by (simp add: rt_list_def rt_list_2 rt_primes_2_def)

lemma rt_list_3_set: "set (rt_list 3) = set rt_primes_3"
  using level_step [OF _ rt_list_2_set certs_3_checked] by simp

lemma rt_list_4_set: "set (rt_list 4) = set rt_primes_4"
  using level_step [OF _ rt_list_3_set certs_4_checked] by simp

lemma rt_list_5_set: "set (rt_list 5) = set rt_primes_5"
  using level_step [OF _ rt_list_4_set certs_5_checked] by simp

lemma rt_list_6_set: "set (rt_list 6) = set rt_primes_6"
  using level_step [OF _ rt_list_5_set certs_6_checked] by simp

lemma rt_list_7_set: "set (rt_list 7) = set rt_primes_7"
  using level_step [OF _ rt_list_6_set certs_7_checked] by simp

lemma rt_list_8_set: "set (rt_list 8) = set rt_primes_8"
  using level_step [OF _ rt_list_7_set certs_8_checked] by simp

lemma rt_count_3_8:
  "rt_count 3 = 14" "rt_count 4 = 16" "rt_count 5 = 15" "rt_count 6 = 12" "rt_count 7 = 8"
  "rt_count 8 = 5"
proof -
  show "rt_count 3 = 14"
    using rt_count_length [OF rt_list_3_set] by (simp add: rt_primes_3_def)
  show "rt_count 4 = 16"
    using rt_count_length [OF rt_list_4_set] by (simp add: rt_primes_4_def)
  show "rt_count 5 = 15"
    using rt_count_length [OF rt_list_5_set] by (simp add: rt_primes_5_def)
  show "rt_count 6 = 12"
    using rt_count_length [OF rt_list_6_set] by (simp add: rt_primes_6_def)
  show "rt_count 7 = 8"
    using rt_count_length [OF rt_list_7_set] by (simp add: rt_primes_7_def)
  show "rt_count 8 = 5"
    using rt_count_length [OF rt_list_8_set] by (simp add: rt_primes_8_def)
qed

subsection \<open>Texts of small numbers\<close>

lemma atoi_c_digit: "atoi_c ''1'' = 1" "atoi_c ''2'' = 2" "atoi_c ''3'' = 3" "atoi_c ''8'' = 8"
  by (simp_all add: atoi_c_def strtol_c_def is_space_def is_digit_def)

lemma show_small:
  "show_int 1 = ''1''" "show_int 2 = ''2''" "show_int 4 = ''4''" "show_int 9 = ''9''"
  "show_nat 4 = ''4''" "show_nat 13 = ''13''"
  by (simp_all add: show_int_def show_nat.simps digit_char_def)

subsection \<open>A digit bound beyond the range of \<open>int\<close>\<close>

text \<open>
  C8.  The claim reads: for every digit bound outside 1..19 the program reports a message
  to the error stream and exits non-zero, without any prime generation, index build or
  counting.  The programs compare the value of \<open>atoi\<close> with 1 and 19, not the bound as
  written, and \<open>atoi\<close> keeps the low 32 bits of it.  For the argument 4294967297, that
  is \<open>2 ^ 32 + 1\<close>, \<open>atoi\<close> returns 1 and both programs run as for the bound 1: they
  exit with status 0, the prime generator is called for 2..9, the counts for one digit
  are printed and nothing is written to the error stream.
\<close>

theorem out_of_range_bound_accepted:
  "atoi_c ''4294967297'' = 1
   \<and> main_bitset atoi_c (''0.1'', ''100.0'', ''100000.0'')
         [''count_primes.out'', ''4294967297''] (sys_start 6)
     = (0, (sys_start 6)\<lparr>sieve_calls := [(2, 9)],
             stdout := [''Number of 1-digit right-truncatable primes: 4 (n = 4)'' @ nl,
               nl @ ''Total number of right-truncatable primes up to 1 digits: 4 (n = 4)'' @ nl @ nl,
               ''Execution time: 0.1 milliseconds'' @ nl,
               ''Execution time: 100.0 microseconds'' @ nl,
               ''Execution time: 100000.0 nanoseconds'' @ nl]\<rparr>)
   \<and> main_hash atoi_c [''count_primes.out'', ''4294967297''] (sys_start 6)
     = (0, (sys_start 6)\<lparr>sieve_calls := [(2, 9), (2, 9)],
             stdout := [''Number of 1-digit right-truncatable primes: 4'' @ nl,
               ''Total number of right-truncatable primes up to 1 digits: 4'' @ nl]\<rparr>)"
proof -
  have a: "atoi_c ''4294967297'' = 1"
    by (simp add: atoi_c_def strtol_c_def is_space_def is_digit_def)
  have ok: "\<not> sieve_fails (sys_start 6)"
    by (simp add: sys_start_def)
  have len9: "length (prime_list 2 9) = 4"
    by (simp add: prime_list_2_9)
  have heap: "length (prime_list 2 (10 ^ nat 1 - 1)) + 2 \<le> avail (sys_start 6)"
    by (simp add: prime_list_2_9 sys_start_def)
  have p: "power_of_10 1 - 1 = 9"
    by (simp add: power_of_10_eq)
  have b: "main_bitset atoi_c (''0.1'', ''100.0'', ''100000.0'')
        [''count_primes.out'', ''4294967297''] (sys_start 6)
      = (0, (sys_start 6)\<lparr>sieve_calls := sieve_calls (sys_start 6) @ [(2, power_of_10 1 - 1)],
             stdout := stdout (sys_start 6)
               @ map (\<lambda>k. count_line_n (int k) (int (rt_count k)) (n_count k)) (rev [1..<Suc (nat 1)])
               @ [total_line_n 1 (int (rt_total (nat 1))) (length (prime_list 2 (10 ^ nat 1 - 1)))]
               @ time_lines (''0.1'', ''100.0'', ''100000.0'')\<rparr>)"
    by (rule main_bitset_result [where atoi = atoi_c and D = 1, OF _ _ _ _ ok]) (simp_all add: a)
  have h: "main_hash atoi_c [''count_primes.out'', ''4294967297''] (sys_start 6)
      = (0, (sys_start 6)\<lparr>sieve_calls := sieve_calls (sys_start 6)
               @ (2, power_of_10 1 - 1) # map (\<lambda>j. (2, power_of_10 j - 1)) [1..1],
             stdout := stdout (sys_start 6)
               @ [count_line 1 (int (rt_count (nat 1))), total_line 1 (rt_total (nat 1))]\<rparr>)"
    by (rule main_hash_result [where atoi = atoi_c and D = 1, OF _ _ _ _ ok heap]) (simp_all add: a)
  have b': "main_bitset atoi_c (''0.1'', ''100.0'', ''100000.0'')
        [''count_primes.out'', ''4294967297''] (sys_start 6)
      = (0, (sys_start 6)\<lparr>sieve_calls := [(2, 9)],
             stdout := map (\<lambda>k. count_line_n (int k) 4 4) (rev [1..<Suc 1])
               @ [total_line_n 1 4 4] @ time_lines (''0.1'', ''100.0'', ''100000.0'')\<rparr>)"
    unfolding b p
    by (simp add: rt_count_1 [unfolded One_nat_def] n_count_1 [unfolded One_nat_def]
        rt_total_1 [unfolded One_nat_def] len9 sys_start_def)
  have h': "main_hash atoi_c [''count_primes.out'', ''4294967297''] (sys_start 6)
      = (0, (sys_start 6)\<lparr>sieve_calls := [(2, 9), (2, 9)],
             stdout := [count_line 1 4, total_line 1 4]\<rparr>)"
    unfolding h
    by (simp add: rt_count_1 [unfolded One_nat_def] rt_total_1 [unfolded One_nat_def] p
        sys_start_def)
  show ?thesis
    unfolding b' h'
    by (simp add: a count_line_n_def total_line_n_def time_lines_def count_line_def total_line_def
        show_small)
qed

subsection \<open>What the programs print\<close>

text \<open>
  C9.  The claim reads: for a digit bound N the program prints one line for every length
  1..N in the format \<open>Number of <k>-digit right-truncatable primes: <count> (n = ...)\<close>, then
  a total line.  The hash variant does not: for N = 2 it prints one count line, for the
  length 2 only and without the \<open>(n = ...)\<close> part, and the total line.
\<close>

theorem hash_output_counterexample:
  "stdout (snd (main_hash atoi_c [''count_primes.out'', ''2''] (sys_start 100)))
     = [''Number of 2-digit right-truncatable primes: 9'' @ nl,
        ''Total number of right-truncatable primes up to 2 digits: 13'' @ nl]"
proof -
  have "length (prime_list 2 (10 ^ nat 2 - 1)) \<le> Suc (10 ^ nat 2 - 1) div 2"
    by (rule prime_list_length)
  then have heap: "length (prime_list 2 (10 ^ nat 2 - 1)) + 2 \<le> avail (sys_start 100)"
    by (simp add: sys_start_def)
  have ok: "\<not> sieve_fails (sys_start 100)"
    by (simp add: sys_start_def)
  have "main_hash atoi_c [''count_primes.out'', ''2''] (sys_start 100)
      = (0, (sys_start 100)\<lparr>sieve_calls := sieve_calls (sys_start 100)
               @ (2, power_of_10 2 - 1) # map (\<lambda>j. (2, power_of_10 j - 1)) [1..2],
             stdout := stdout (sys_start 100)
               @ [count_line 2 (int (rt_count (nat 2))), total_line 2 (rt_total (nat 2))]\<rparr>)"
    by (rule main_hash_result [where atoi = atoi_c and D = 2, OF _ _ _ _ ok heap])
      (simp_all add: atoi_c_digit)
  then show ?thesis
    by (simp add: rt_count_2 rt_total_2 count_line_def total_line_def show_small sys_start_def)
qed

text \<open>
  C9, amended.  On valid input with a working prime generator, the bitset variant prints
  one line for every length \<open>k\<close> from \<open>D\<close> down to 1 in the spec's format, with the
  brute-force count and the number of primes of that length, then its total line and the
  three elapsed-time lines; the hash variant (given the heap for its table) prints a
  single count line, for the length \<open>D\<close> and without the number of primes, then its total
  line.
\<close>

theorem program_output:
  assumes "length argv = 2" and "atoi (argv ! 1) = D" and "1 \<le> D" and "D \<le> 19"
    and "\<not> sieve_fails s"
  shows "stdout (snd (main_bitset atoi elapsed argv s))
       = stdout s
         @ map (\<lambda>k. count_line_n (int k) (int (rt_count k)) (n_count k)) (rev [1..<Suc (nat D)])
         @ [total_line_n D (int (rt_total (nat D))) (length (prime_list 2 (10 ^ nat D - 1)))]
         @ time_lines elapsed
     \<and> (length (prime_list 2 (10 ^ nat D - 1)) + 2 \<le> avail s \<longrightarrow>
          stdout (snd (main_hash atoi argv s))
            = stdout s @ [count_line D (int (rt_count (nat D))), total_line D (rt_total (nat D))])"
  by (simp add: main_bitset_result [where argv = argv and atoi = atoi and D = D, OF assms]
      main_hash_result [where argv = argv and atoi = atoi and D = D, OF assms] del: upt_Suc)

text \<open>Both programs on the argument 1.\<close>

theorem program_output_witness:
  "stdout (snd (main_bitset atoi_c (''0.1'', ''100.0'', ''100000.0'') [''count_primes.out'', ''1'']
       (sys_start 6)))
     = [''Number of 1-digit right-truncatable primes: 4 (n = 4)'' @ nl,
        nl @ ''Total number of right-truncatable primes up to 1 digits: 4 (n = 4)'' @ nl @ nl,
        ''Execution time: 0.1 milliseconds'' @ nl,
        ''Execution time: 100.0 microseconds'' @ nl,
        ''Execution time: 100000.0 nanoseconds'' @ nl]
   \<and> stdout (snd (main_hash atoi_c [''count_primes.out'', ''1''] (sys_start 6)))
     = [''Number of 1-digit right-truncatable primes: 4'' @ nl,
        ''Total number of right-truncatable primes up to 1 digits: 4'' @ nl]"
proof -
  have ok: "\<not> sieve_fails (sys_start 6)"
    by (simp add: sys_start_def)
  have len9: "length (prime_list 2 9) = 4"
    by (simp add: prime_list_2_9)
  have heap: "length (prime_list 2 (10 ^ nat 1 - 1)) + 2 \<le> avail (sys_start 6)"
    by (simp add: prime_list_2_9 sys_start_def)
  have argv: "length [''count_primes.out'', ''1''] = 2"
    and digits: "atoi_c ([''count_primes.out'', ''1''] ! 1) = 1"
    by (simp_all add: atoi_c_digit)
  have one: "(1 :: int) \<le> 1" and "(1 :: int) \<le> 19"
    by simp_all
  from program_output [where elapsed = "(''0.1'', ''100.0'', ''100000.0'')" and atoi = atoi_c
      and argv = "[''count_primes.out'', ''1'']" and D = 1, OF argv digits this ok] heap
  have "stdout (snd (main_bitset atoi_c (''0.1'', ''100.0'', ''100000.0'')
          [''count_primes.out'', ''1''] (sys_start 6)))
       = stdout (sys_start 6)
         @ map (\<lambda>k. count_line_n (int k) (int (rt_count k)) (n_count k)) (rev [1..<Suc (nat 1)])
         @ [total_line_n 1 (int (rt_total (nat 1))) (length (prime_list 2 (10 ^ nat 1 - 1)))]
         @ time_lines (''0.1'', ''100.0'', ''100000.0'')"
    and "stdout (snd (main_hash atoi_c [''count_primes.out'', ''1''] (sys_start 6)))
       = stdout (sys_start 6)
         @ [count_line 1 (int (rt_count (nat 1))), total_line 1 (rt_total (nat 1))]"
    by blast+
  then have "stdout (snd (main_bitset atoi_c (''0.1'', ''100.0'', ''100000.0'')
          [''count_primes.out'', ''1''] (sys_start 6)))
       = stdout (sys_start 6) @ map (\<lambda>k. count_line_n (int k) 4 4) (rev [1..<Suc 1])
         @ [total_line_n 1 4 4] @ time_lines (''0.1'', ''100.0'', ''100000.0'')"
    and "stdout (snd (main_hash atoi_c [''count_primes.out'', ''1''] (sys_start 6)))
       = stdout (sys_start 6) @ [count_line 1 4, total_line 1 4]"
    by (simp_all add: rt_count_1 [unfolded One_nat_def] n_count_1 [unfolded One_nat_def]
        rt_total_1 [unfolded One_nat_def] len9)
  then show ?thesis
    by (simp add: count_line_n_def total_line_n_def time_lines_def count_line_def total_line_def
        show_small sys_start_def)
qed

subsection \<open>End to end\<close>

lemma rt_total_3_8: "rt_total 3 = 27" "rt_total 8 = 83"
proof -
  have "rt_total (Suc 2) = 27"
    unfolding rt_total_Suc by (simp add: rt_total_2 rt_count_3_8)
  then show t3: "rt_total 3 = 27"
    by simp
  have "rt_total (Suc (Suc (Suc (Suc (Suc 3))))) = 83"
    unfolding rt_total_Suc by (simp add: t3 rt_count_3_8)
  then show "rt_total 8 = 83"
    by simp
qed

lemma lengths_down:
  "rev [1..<Suc (nat 1)] = [1]" "rev [1..<Suc (nat 3)] = [3, 2, 1]"
  "rev [1..<Suc (nat 8)] = [8, 7, 6, 5, 4, 3, 2, 1]"
  by (simp_all add: upt_conv_Cons)

text \<open>
  C3.  End to end on valid input, for a working prime generator.  On the argument 1 the
  bitset program prints the count 4 for the length 1 and the total 4; on the argument 3
  the counts 14, 9 and 4 for the lengths 3, 2 and 1 and the total 27; on the argument 8
  the counts 5, 8, 12, 15, 16, 14, 9 and 4 for the lengths 8 down to 1 and the total 83;
  each time it returns 0.  The numbers of primes that it prints beside the counts are the
  brute-force numbers \<open>n_count k\<close>.  The hash program, when the heap holds its table,
  prints the count of the longest length and the same total: 4 and 4, 14 and 27, 5 and
  83.
\<close>

theorem end_to_end_counts:
  assumes "\<not> sieve_fails s"
  shows "main_bitset atoi_c elapsed [prog, ''1''] s
      = (0, s\<lparr>sieve_calls := sieve_calls s @ [(2, 9)],
               stdout := stdout s
                 @ [count_line_n 1 4 (n_count 1),
                    total_line_n 1 4 (length (prime_list 2 9))]
                 @ time_lines elapsed\<rparr>)
    \<and> main_bitset atoi_c elapsed [prog, ''3''] s
      = (0, s\<lparr>sieve_calls := sieve_calls s @ [(2, 999)],
               stdout := stdout s
                 @ [count_line_n 3 14 (n_count 3), count_line_n 2 9 (n_count 2),
                    count_line_n 1 4 (n_count 1),
                    total_line_n 3 27 (length (prime_list 2 999))]
                 @ time_lines elapsed\<rparr>)
    \<and> main_bitset atoi_c elapsed [prog, ''8''] s
      = (0, s\<lparr>sieve_calls := sieve_calls s @ [(2, 99999999)],
               stdout := stdout s
                 @ [count_line_n 8 5 (n_count 8), count_line_n 7 8 (n_count 7),
                    count_line_n 6 12 (n_count 6), count_line_n 5 15 (n_count 5),
                    count_line_n 4 16 (n_count 4), count_line_n 3 14 (n_count 3),
                    count_line_n 2 9 (n_count 2), count_line_n 1 4 (n_count 1),
                    total_line_n 8 83 (length (prime_list 2 99999999))]
                 @ time_lines elapsed\<rparr>)
    \<and> (length (prime_list 2 99999999) + 2 \<le> avail s \<longrightarrow>
         stdout (snd (main_hash atoi_c [prog, ''1''] s))
           = stdout s @ [count_line 1 4, total_line 1 4]
       \<and> stdout (snd (main_hash atoi_c [prog, ''3''] s))
           = stdout s @ [count_line 3 14, total_line 3 27]
       \<and> stdout (snd (main_hash atoi_c [prog, ''8''] s))
           = stdout s @ [count_line 8 5, total_line 8 83])"
proof -
  have ok: "\<not> sieve_fails s"
    by (rule assms(1))
  have p: "power_of_10 1 - 1 = 9" "power_of_10 3 - 1 = 999" "power_of_10 8 - 1 = 99999999"
    by (simp_all add: power_of_10_eq)
  have counts: "rt_count (Suc 0) = 4" "rt_count 2 = 9"
    using rt_count_1 rt_count_2 by simp_all
  have raw1: "main_bitset atoi_c elapsed [prog, ''1''] s
      = (0, s\<lparr>sieve_calls := sieve_calls s @ [(2, power_of_10 1 - 1)],
               stdout := stdout s
                 @ map (\<lambda>k. count_line_n (int k) (int (rt_count k)) (n_count k))
                     (rev [1..<Suc (nat 1)])
                 @ [total_line_n 1 (int (rt_total (nat 1))) (length (prime_list 2 (10 ^ nat 1 - 1)))]
                 @ time_lines elapsed\<rparr>)"
    by (rule main_bitset_result [where atoi = atoi_c and D = 1, OF _ _ _ _ ok])
      (simp_all add: atoi_c_digit)
  have b1: "main_bitset atoi_c elapsed [prog, ''1''] s
      = (0, s\<lparr>sieve_calls := sieve_calls s @ [(2, 9)],
               stdout := stdout s
                 @ [count_line_n 1 4 (n_count 1),
                    total_line_n 1 4 (length (prime_list 2 9))]
                 @ time_lines elapsed\<rparr>)"
    unfolding raw1 lengths_down p
    by (simp add: counts rt_count_3_8 rt_total_1 [unfolded One_nat_def] rt_total_3_8)
  have raw3: "main_bitset atoi_c elapsed [prog, ''3''] s
      = (0, s\<lparr>sieve_calls := sieve_calls s @ [(2, power_of_10 3 - 1)],
               stdout := stdout s
                 @ map (\<lambda>k. count_line_n (int k) (int (rt_count k)) (n_count k))
                     (rev [1..<Suc (nat 3)])
                 @ [total_line_n 3 (int (rt_total (nat 3))) (length (prime_list 2 (10 ^ nat 3 - 1)))]
                 @ time_lines elapsed\<rparr>)"
    by (rule main_bitset_result [where atoi = atoi_c and D = 3, OF _ _ _ _ ok])
      (simp_all add: atoi_c_digit)
  have b3: "main_bitset atoi_c elapsed [prog, ''3''] s
      = (0, s\<lparr>sieve_calls := sieve_calls s @ [(2, 999)],
               stdout := stdout s
                 @ [count_line_n 3 14 (n_count 3), count_line_n 2 9 (n_count 2),
                    count_line_n 1 4 (n_count 1),
                    total_line_n 3 27 (length (prime_list 2 999))]
                 @ time_lines elapsed\<rparr>)"
    unfolding raw3 lengths_down p
    by (simp add: counts rt_count_3_8 rt_total_3_8)
  have raw8: "main_bitset atoi_c elapsed [prog, ''8''] s
      = (0, s\<lparr>sieve_calls := sieve_calls s @ [(2, power_of_10 8 - 1)],
               stdout := stdout s
                 @ map (\<lambda>k. count_line_n (int k) (int (rt_count k)) (n_count k))
                     (rev [1..<Suc (nat 8)])
                 @ [total_line_n 8 (int (rt_total (nat 8))) (length (prime_list 2 (10 ^ nat 8 - 1)))]
                 @ time_lines elapsed\<rparr>)"
    by (rule main_bitset_result [where atoi = atoi_c and D = 8, OF _ _ _ _ ok])
      (simp_all add: atoi_c_digit)
  have b8: "main_bitset atoi_c elapsed [prog, ''8''] s
      = (0, s\<lparr>sieve_calls := sieve_calls s @ [(2, 99999999)],
               stdout := stdout s
                 @ [count_line_n 8 5 (n_count 8), count_line_n 7 8 (n_count 7),
                    count_line_n 6 12 (n_count 6), count_line_n 5 15 (n_count 5),
                    count_line_n 4 16 (n_count 4), count_line_n 3 14 (n_count 3),
                    count_line_n 2 9 (n_count 2), count_line_n 1 4 (n_count 1),
                    total_line_n 8 83 (length (prime_list 2 99999999))]
                 @ time_lines elapsed\<rparr>)"
    unfolding raw8 lengths_down p
    by (simp add: counts rt_count_3_8 rt_total_3_8)
  have hash: "stdout (snd (main_hash atoi_c [prog, ''1''] s))
           = stdout s @ [count_line 1 4, total_line 1 4]
       \<and> stdout (snd (main_hash atoi_c [prog, ''3''] s))
           = stdout s @ [count_line 3 14, total_line 3 27]
       \<and> stdout (snd (main_hash atoi_c [prog, ''8''] s))
           = stdout s @ [count_line 8 5, total_line 8 83]"
    if heap: "length (prime_list 2 99999999) + 2 \<le> avail s"
  proof -
    have "length (prime_list 2 9) \<le> length (prime_list 2 99999999)"
      and "length (prime_list 2 999) \<le> length (prime_list 2 99999999)"
      by (rule prime_list_length_mono, simp)+
    with heap have h1: "length (prime_list 2 (10 ^ nat 1 - 1)) + 2 \<le> avail s"
      and h3: "length (prime_list 2 (10 ^ nat 3 - 1)) + 2 \<le> avail s"
      and h8: "length (prime_list 2 (10 ^ nat 8 - 1)) + 2 \<le> avail s"
      by simp_all
    have m1: "main_hash atoi_c [prog, ''1''] s
        = (0, s\<lparr>sieve_calls := sieve_calls s
                   @ (2, power_of_10 1 - 1) # map (\<lambda>j. (2, power_of_10 j - 1)) [1..1],
                 stdout := stdout s
                   @ [count_line 1 (int (rt_count (nat 1))), total_line 1 (rt_total (nat 1))]\<rparr>)"
      by (rule main_hash_result [where atoi = atoi_c and D = 1, OF _ _ _ _ ok h1])
        (simp_all add: atoi_c_digit)
    have m3: "main_hash atoi_c [prog, ''3''] s
        = (0, s\<lparr>sieve_calls := sieve_calls s
                   @ (2, power_of_10 3 - 1) # map (\<lambda>j. (2, power_of_10 j - 1)) [1..3],
                 stdout := stdout s
                   @ [count_line 3 (int (rt_count (nat 3))), total_line 3 (rt_total (nat 3))]\<rparr>)"
      by (rule main_hash_result [where atoi = atoi_c and D = 3, OF _ _ _ _ ok h3])
        (simp_all add: atoi_c_digit)
    have m8: "main_hash atoi_c [prog, ''8''] s
        = (0, s\<lparr>sieve_calls := sieve_calls s
                   @ (2, power_of_10 8 - 1) # map (\<lambda>j. (2, power_of_10 j - 1)) [1..8],
                 stdout := stdout s
                   @ [count_line 8 (int (rt_count (nat 8))), total_line 8 (rt_total (nat 8))]\<rparr>)"
      by (rule main_hash_result [where atoi = atoi_c and D = 8, OF _ _ _ _ ok h8])
        (simp_all add: atoi_c_digit)
    show ?thesis
      unfolding m1 m3 m8
      by (simp add: counts rt_count_3_8 rt_total_1 [unfolded One_nat_def] rt_total_3_8)
  qed
  from b1 b3 b8 hash show ?thesis
    by blast
qed


text \<open>Both programs on the arguments 1, 3 and 8, started with a working prime generator
  and 50000002 allocations available.\<close>

theorem end_to_end_counts_witness:
  "\<not> sieve_fails (sys_start 50000002)
   \<and> length (prime_list 2 99999999) + 2 \<le> avail (sys_start 50000002)
   \<and> main_bitset atoi_c (''0.1'', ''100.0'', ''100000.0'') [''count_primes.out'', ''1'']
         (sys_start 50000002)
     = (0, (sys_start 50000002)\<lparr>sieve_calls := [(2, 9)],
             stdout :=
               [''Number of 1-digit right-truncatable primes: 4 (n = 4)'' @ nl,
                nl @ ''Total number of right-truncatable primes up to 1 digits: 4 (n = 4)''
                  @ nl @ nl,
                ''Execution time: 0.1 milliseconds'' @ nl,
                ''Execution time: 100.0 microseconds'' @ nl,
                ''Execution time: 100000.0 nanoseconds'' @ nl]\<rparr>)
   \<and> stdout (snd (main_bitset atoi_c (''0.1'', ''100.0'', ''100000.0'')
         [''count_primes.out'', ''3''] (sys_start 50000002)))
     = [''Number of 3-digit right-truncatable primes: 14 (n = '' @ show_nat (n_count 3)
          @ '')'' @ nl,
        ''Number of 2-digit right-truncatable primes: 9 (n = 21)'' @ nl,
        ''Number of 1-digit right-truncatable primes: 4 (n = 4)'' @ nl,
        nl @ ''Total number of right-truncatable primes up to 3 digits: 27 (n = ''
          @ show_nat (length (prime_list 2 999)) @ '')'' @ nl @ nl,
        ''Execution time: 0.1 milliseconds'' @ nl,
        ''Execution time: 100.0 microseconds'' @ nl,
        ''Execution time: 100000.0 nanoseconds'' @ nl]
   \<and> stdout (snd (main_bitset atoi_c (''0.1'', ''100.0'', ''100000.0'')
         [''count_primes.out'', ''8''] (sys_start 50000002)))
     = [''Number of 8-digit right-truncatable primes: 5 (n = '' @ show_nat (n_count 8)
          @ '')'' @ nl,
        ''Number of 7-digit right-truncatable primes: 8 (n = '' @ show_nat (n_count 7)
          @ '')'' @ nl,
        ''Number of 6-digit right-truncatable primes: 12 (n = '' @ show_nat (n_count 6)
          @ '')'' @ nl,
        ''Number of 5-digit right-truncatable primes: 15 (n = '' @ show_nat (n_count 5)
          @ '')'' @ nl,
        ''Number of 4-digit right-truncatable primes: 16 (n = '' @ show_nat (n_count 4)
          @ '')'' @ nl,
        ''Number of 3-digit right-truncatable primes: 14 (n = '' @ show_nat (n_count 3)
          @ '')'' @ nl,
        ''Number of 2-digit right-truncatable primes: 9 (n = 21)'' @ nl,
        ''Number of 1-digit right-truncatable primes: 4 (n = 4)'' @ nl,
        nl @ ''Total number of right-truncatable primes up to 8 digits: 83 (n = ''
          @ show_nat (length (prime_list 2 99999999)) @ '')'' @ nl @ nl,
        ''Execution time: 0.1 milliseconds'' @ nl,
        ''Execution time: 100.0 microseconds'' @ nl,
        ''Execution time: 100000.0 nanoseconds'' @ nl]
   \<and> stdout (snd (main_hash atoi_c [''count_primes.out'', ''1''] (sys_start 50000002)))
     = [''Number of 1-digit right-truncatable primes: 4'' @ nl,
        ''Total number of right-truncatable primes up to 1 digits: 4'' @ nl]
   \<and> stdout (snd (main_hash atoi_c [''count_primes.out'', ''3''] (sys_start 50000002)))
     = [''Number of 3-digit right-truncatable primes: 14'' @ nl,
        ''Total number of right-truncatable primes up to 3 digits: 27'' @ nl]
   \<and> stdout (snd (main_hash atoi_c [''count_primes.out'', ''8''] (sys_start 50000002)))
     = [''Number of 8-digit right-truncatable primes: 5'' @ nl,
        ''Total number of right-truncatable primes up to 8 digits: 83'' @ nl]"
proof -
  have ok: "\<not> sieve_fails (sys_start 50000002)"
    by (simp add: sys_start_def)
  have "length (prime_list 2 99999999) \<le> Suc 99999999 div 2"
    by (rule prime_list_length)
  then have heap: "length (prime_list 2 99999999) + 2 \<le> avail (sys_start 50000002)"
    by (simp add: sys_start_def)
  have len9: "length (prime_list 2 9) = 4"
    by (simp add: prime_list_2_9)
  have texts:
    "show_int 1 = ''1''" "show_int 2 = ''2''" "show_int 3 = ''3''" "show_int 4 = ''4''"
    "show_int 5 = ''5''" "show_int 6 = ''6''" "show_int 7 = ''7''" "show_int 8 = ''8''"
    "show_int 9 = ''9''" "show_int 12 = ''12''" "show_int 14 = ''14''" "show_int 15 = ''15''"
    "show_int 16 = ''16''" "show_int 27 = ''27''" "show_int 83 = ''83''"
    "show_nat 4 = ''4''" "show_nat 21 = ''21''" "show_nat 27 = ''27''" "show_nat 83 = ''83''"
    by (simp_all add: show_int_def show_nat.simps digit_char_def)
  from end_to_end_counts [OF ok, of "(''0.1'', ''100.0'', ''100000.0'')" "''count_primes.out''"]
    heap
  have "main_bitset atoi_c (''0.1'', ''100.0'', ''100000.0'') [''count_primes.out'', ''1'']
         (sys_start 50000002)
      = (0, (sys_start 50000002)\<lparr>sieve_calls := sieve_calls (sys_start 50000002) @ [(2, 9)],
               stdout := stdout (sys_start 50000002)
                 @ [count_line_n 1 4 (n_count 1),
                    total_line_n 1 4 (length (prime_list 2 9))]
                 @ time_lines (''0.1'', ''100.0'', ''100000.0'')\<rparr>)"
    and "main_bitset atoi_c (''0.1'', ''100.0'', ''100000.0'') [''count_primes.out'', ''3'']
         (sys_start 50000002)
      = (0, (sys_start 50000002)\<lparr>sieve_calls := sieve_calls (sys_start 50000002) @ [(2, 999)],
               stdout := stdout (sys_start 50000002)
                 @ [count_line_n 3 14 (n_count 3), count_line_n 2 9 (n_count 2),
                    count_line_n 1 4 (n_count 1),
                    total_line_n 3 27 (length (prime_list 2 999))]
                 @ time_lines (''0.1'', ''100.0'', ''100000.0'')\<rparr>)"
    and "main_bitset atoi_c (''0.1'', ''100.0'', ''100000.0'') [''count_primes.out'', ''8'']
         (sys_start 50000002)
      = (0, (sys_start 50000002)\<lparr>sieve_calls := sieve_calls (sys_start 50000002) @ [(2, 99999999)],
               stdout := stdout (sys_start 50000002)
                 @ [count_line_n 8 5 (n_count 8), count_line_n 7 8 (n_count 7),
                    count_line_n 6 12 (n_count 6), count_line_n 5 15 (n_count 5),
                    count_line_n 4 16 (n_count 4), count_line_n 3 14 (n_count 3),
                    count_line_n 2 9 (n_count 2), count_line_n 1 4 (n_count 1),
                    total_line_n 8 83 (length (prime_list 2 99999999))]
                 @ time_lines (''0.1'', ''100.0'', ''100000.0'')\<rparr>)"
    and "stdout (snd (main_hash atoi_c [''count_primes.out'', ''1''] (sys_start 50000002)))
           = stdout (sys_start 50000002) @ [count_line 1 4, total_line 1 4]"
    and "stdout (snd (main_hash atoi_c [''count_primes.out'', ''3''] (sys_start 50000002)))
           = stdout (sys_start 50000002) @ [count_line 3 14, total_line 3 27]"
    and "stdout (snd (main_hash atoi_c [''count_primes.out'', ''8''] (sys_start 50000002)))
           = stdout (sys_start 50000002) @ [count_line 8 5, total_line 8 83]"
    by blast+
  then have "main_bitset atoi_c (''0.1'', ''100.0'', ''100000.0'') [''count_primes.out'', ''1'']
         (sys_start 50000002)
     = (0, (sys_start 50000002)\<lparr>sieve_calls := [(2, 9)],
             stdout :=
               [''Number of 1-digit right-truncatable primes: 4 (n = 4)'' @ nl,
                nl @ ''Total number of right-truncatable primes up to 1 digits: 4 (n = 4)''
                  @ nl @ nl,
                ''Execution time: 0.1 milliseconds'' @ nl,
                ''Execution time: 100.0 microseconds'' @ nl,
                ''Execution time: 100000.0 nanoseconds'' @ nl]\<rparr>)"
    and "stdout (snd (main_bitset atoi_c (''0.1'', ''100.0'', ''100000.0'')
         [''count_primes.out'', ''3''] (sys_start 50000002)))
     = [''Number of 3-digit right-truncatable primes: 14 (n = '' @ show_nat (n_count 3)
          @ '')'' @ nl,
        ''Number of 2-digit right-truncatable primes: 9 (n = 21)'' @ nl,
        ''Number of 1-digit right-truncatable primes: 4 (n = 4)'' @ nl,
        nl @ ''Total number of right-truncatable primes up to 3 digits: 27 (n = ''
          @ show_nat (length (prime_list 2 999)) @ '')'' @ nl @ nl,
        ''Execution time: 0.1 milliseconds'' @ nl,
        ''Execution time: 100.0 microseconds'' @ nl,
        ''Execution time: 100000.0 nanoseconds'' @ nl]"
    and "stdout (snd (main_bitset atoi_c (''0.1'', ''100.0'', ''100000.0'')
         [''count_primes.out'', ''8''] (sys_start 50000002)))
     = [''Number of 8-digit right-truncatable primes: 5 (n = '' @ show_nat (n_count 8)
          @ '')'' @ nl,
        ''Number of 7-digit right-truncatable primes: 8 (n = '' @ show_nat (n_count 7)
          @ '')'' @ nl,
        ''Number of 6-digit right-truncatable primes: 12 (n = '' @ show_nat (n_count 6)
          @ '')'' @ nl,
        ''Number of 5-digit right-truncatable primes: 15 (n = '' @ show_nat (n_count 5)
          @ '')'' @ nl,
        ''Number of 4-digit right-truncatable primes: 16 (n = '' @ show_nat (n_count 4)
          @ '')'' @ nl,
        ''Number of 3-digit right-truncatable primes: 14 (n = '' @ show_nat (n_count 3)
          @ '')'' @ nl,
        ''Number of 2-digit right-truncatable primes: 9 (n = 21)'' @ nl,
        ''Number of 1-digit right-truncatable primes: 4 (n = 4)'' @ nl,
        nl @ ''Total number of right-truncatable primes up to 8 digits: 83 (n = ''
          @ show_nat (length (prime_list 2 99999999)) @ '')'' @ nl @ nl,
        ''Execution time: 0.1 milliseconds'' @ nl,
        ''Execution time: 100.0 microseconds'' @ nl,
        ''Execution time: 100000.0 nanoseconds'' @ nl]"
    and "stdout (snd (main_hash atoi_c [''count_primes.out'', ''1''] (sys_start 50000002)))
     = [''Number of 1-digit right-truncatable primes: 4'' @ nl,
        ''Total number of right-truncatable primes up to 1 digits: 4'' @ nl]"
    and "stdout (snd (main_hash atoi_c [''count_primes.out'', ''3''] (sys_start 50000002)))
     = [''Number of 3-digit right-truncatable primes: 14'' @ nl,
        ''Total number of right-truncatable primes up to 3 digits: 27'' @ nl]"
    and "stdout (snd (main_hash atoi_c [''count_primes.out'', ''8''] (sys_start 50000002)))
     = [''Number of 8-digit right-truncatable primes: 5'' @ nl,
        ''Total number of right-truncatable primes up to 8 digits: 83'' @ nl]"
    by (simp_all add: count_line_n_def total_line_n_def time_lines_def count_line_def
        total_line_def texts n_count_1 [unfolded One_nat_def] n_count_2 len9 sys_start_def)
  with ok heap show ?thesis
    by (simp only: simp_thms)
qed

end
